theory Spec2Isabelle
  imports Complex_Main "HOL-Library.Word" "HOL-Library.Multiset" "HOL-Library.Log_Nat"
begin

section \<open>JavaScript values\<close>

subsection \<open>Strings\<close>

text \<open>
  A JavaScript string is a sequence of 16-bit code units. The strings whose characters the
  program looks at or measures as they come from outside (the text handed to the cipher,
  the fields of a device descriptor, a user name) are modelled with all their code units.
  Messages, field names, hexadecimal and base64 text, tokens and addresses are Isabelle
  strings, whose characters are the code units below 256; \<open>units\<close> embeds them.
  A value that may be undefined is an option, and it is falsy when it is undefined or the
  empty string.
\<close>

type_synonym byte = "8 word"
type_synonym bytes = "byte list"
type_synonym code_unit = "16 word"
type_synonym utf16 = "code_unit list"

definition units :: "string \<Rightarrow> utf16" where
  "units s = map of_char s"

definition truthy :: "'a list option \<Rightarrow> bool" where
  "truthy v = (case v of None \<Rightarrow> False | Some s \<Rightarrow> s \<noteq> [])"

definition or_empty :: "'a list option \<Rightarrow> 'a list" where
  "or_empty v = (case v of None \<Rightarrow> [] | Some s \<Rightarrow> s)"

fun join :: "'a list \<Rightarrow> 'a list list \<Rightarrow> 'a list" where
  "join sep [] = []"
| "join sep [x] = x"
| "join sep (x # y # ys) = x @ sep @ join sep (y # ys)"

definition startsWith :: "string \<Rightarrow> string \<Rightarrow> bool" where
  "startsWith s p = (take (length p) s = p)"

text \<open>\<open>String.prototype.trim\<close> removes white space and line terminators from both ends:
  TAB, LF, VT, FF, CR, space, no-break space, and the Unicode space separators, line and
  paragraph separators and the byte order mark.\<close>

definition is_space :: "code_unit \<Rightarrow> bool" where
  "is_space c =
     (c \<in> set [0x0009, 0x000A, 0x000B, 0x000C, 0x000D, 0x0020, 0x00A0, 0x1680, 0x2028,
                 0x2029, 0x202F, 0x205F, 0x3000, 0xFEFF]
      \<or> (0x2000 \<le> c \<and> c \<le> 0x200A))"

definition trim :: "utf16 \<Rightarrow> utf16" where
  "trim s = rev (dropWhile is_space (rev (dropWhile is_space s)))"

text \<open>\<open>String.prototype.toLowerCase\<close> on the code units below 256: the letters A to Z and
  the capital letters of Latin-1 (U+00C0 to U+00DE without the multiplication sign) move
  up by 32.\<close>

definition toLowerCase :: "string \<Rightarrow> string" where
  "toLowerCase s =
     map (\<lambda>c. if ((65::nat) \<le> of_char c \<and> of_char c \<le> (90::nat))
                  \<or> ((192::nat) \<le> of_char c \<and> of_char c \<le> (222::nat) \<and> of_char c \<noteq> (215::nat))
               then char_of (of_char c + (32::nat)) else c) s"

text \<open>A string is well formed when every surrogate code unit is half of a pair: a high
  surrogate followed by a low one. These are the strings that UTF-8 can hold; an encoder
  writes U+FFFD in the place of an unpaired surrogate.\<close>

definition is_high :: "code_unit \<Rightarrow> bool" where
  "is_high u = (0xD800 \<le> u \<and> u \<le> 0xDBFF)"

definition is_low :: "code_unit \<Rightarrow> bool" where
  "is_low u = (0xDC00 \<le> u \<and> u \<le> 0xDFFF)"

fun well_formed :: "utf16 \<Rightarrow> bool" where
  "well_formed [] = True"
| "well_formed [u] = (\<not> is_high u \<and> \<not> is_low u)"
| "well_formed (u # l # us) =
     (if is_high u then is_low l \<and> well_formed us else \<not> is_low u \<and> well_formed (l # us))"

subsection \<open>Numbers\<close>

text \<open>
  A JavaScript number is an IEEE 754 double: a finite value, one of the two infinities, or
  NaN. A finite value is the rational it denotes; the two zeros are identified (the
  program never divides by a variable nor looks at the sign of a zero). Every arithmetic
  operation computes the exact result and rounds it to the nearest double, ties to the
  even significand; \<open>round_double\<close> is that rounding. For a non-zero \<open>q\<close> whose magnitude
  lies between \<open>2 powi k\<close> and \<open>2 powi (k + 1)\<close>, the doubles near \<open>q\<close> are the multiples of
  \<open>2 powi e\<close>, where \<open>e\<close> is \<open>k - 52\<close> and at least \<open>-1074\<close> (the spacing of the
  subnormal numbers); a result of magnitude \<open>2 powi 1024\<close> or more is an infinity.
\<close>

datatype number = Finite rat | PosInfinity | NegInfinity | NaN

definition round_half_even :: "rat \<Rightarrow> int" where
  "round_half_even x =
     (let f = \<lfloor>x\<rfloor>; d = x - of_int f
      in if d < 1 / 2 then f else if 1 / 2 < d then f + 1 else if even f then f else f + 1)"

text \<open>For a positive \<open>a\<close>, \<open>floor_log2 a\<close> is the \<open>k\<close> with \<open>2 powi k \<le> a\<close> and
  \<open>a < 2 powi (k + 1)\<close>: the difference of the bit lengths of numerator and denominator,
  or one less.\<close>

definition floor_log2 :: "rat \<Rightarrow> int" where
  "floor_log2 a =
     (let k = int (floorlog 2 (nat (fst (quotient_of a))))
              - int (floorlog 2 (nat (snd (quotient_of a))))
      in if 2 powi k \<le> a then k else k - 1)"

definition round_double :: "rat \<Rightarrow> number" where
  "round_double q =
     (if q = 0 then Finite 0
      else let e = max (floor_log2 \<bar>q\<bar> - 52) (- 1074);
               r = of_int (round_half_even (\<bar>q\<bar> / 2 powi e)) * 2 powi e
           in if 2 powi 1024 \<le> r then (if 0 < q then PosInfinity else NegInfinity)
              else Finite (sgn q * r))"

fun js_neg :: "number \<Rightarrow> number" where
  "js_neg (Finite a) = Finite (- a)"
| "js_neg PosInfinity = NegInfinity"
| "js_neg NegInfinity = PosInfinity"
| "js_neg NaN = NaN"

fun js_add :: "number \<Rightarrow> number \<Rightarrow> number" where
  "js_add (Finite a) (Finite b) = round_double (a + b)"
| "js_add NaN y = NaN"
| "js_add x NaN = NaN"
| "js_add PosInfinity NegInfinity = NaN"
| "js_add NegInfinity PosInfinity = NaN"
| "js_add PosInfinity y = PosInfinity"
| "js_add NegInfinity y = NegInfinity"
| "js_add x PosInfinity = PosInfinity"
| "js_add x NegInfinity = NegInfinity"

definition js_sub :: "number \<Rightarrow> number \<Rightarrow> number" where
  "js_sub x y = js_add x (js_neg y)"

fun js_mul :: "number \<Rightarrow> number \<Rightarrow> number" where
  "js_mul (Finite a) (Finite b) = round_double (a * b)"
| "js_mul NaN y = NaN"
| "js_mul x NaN = NaN"
| "js_mul (Finite a) y = (if a = 0 then NaN else if 0 < a then y else js_neg y)"
| "js_mul x (Finite b) = (if b = 0 then NaN else if 0 < b then x else js_neg x)"
| "js_mul x y = (if x = y then PosInfinity else NegInfinity)"

text \<open>Division: a zero divisor is taken as the positive zero. The divisors in this program
  are the constants 100 and 100000000.\<close>

fun js_div :: "number \<Rightarrow> number \<Rightarrow> number" where
  "js_div (Finite a) (Finite b) =
     (if b = 0 then (if a = 0 then NaN else if 0 < a then PosInfinity else NegInfinity)
      else round_double (a / b))"
| "js_div NaN y = NaN"
| "js_div x NaN = NaN"
| "js_div (Finite a) y = Finite 0"
| "js_div x (Finite b) = (if 0 \<le> b then x else js_neg x)"
| "js_div x y = NaN"

fun js_lt :: "number \<Rightarrow> number \<Rightarrow> bool" where
  "js_lt (Finite a) (Finite b) = (a < b)"
| "js_lt NaN y = False"
| "js_lt x NaN = False"
| "js_lt x PosInfinity = (x \<noteq> PosInfinity)"
| "js_lt NegInfinity y = (y \<noteq> NegInfinity)"
| "js_lt x y = False"

definition js_le :: "number \<Rightarrow> number \<Rightarrow> bool" where
  "js_le x y = (js_lt x y \<or> (x = y \<and> x \<noteq> NaN))"

fun js_floor :: "number \<Rightarrow> number" where
  "js_floor (Finite a) = Finite (of_int \<lfloor>a\<rfloor>)"
| "js_floor x = x"

definition js_isNaN :: "number \<Rightarrow> bool" where
  "js_isNaN x = (x = NaN)"

text \<open>A number is falsy when it is zero or NaN.\<close>

definition js_falsy :: "number \<Rightarrow> bool" where
  "js_falsy x = (x = NaN \<or> x = Finite 0)"

section \<open>Device descriptors (utils/verifyDevice)\<close>

text \<open>
  A device descriptor is a JavaScript object whose fields may be absent. An absent field
  is \<open>None\<close>; a field that is present holds a string.
\<close>

record device_info =
  deviceId :: "utf16 option"
  platform :: "utf16 option"
  model :: "utf16 option"
  version :: "utf16 option"
  fingerprint :: "utf16 option"
  userAgent :: "utf16 option"
  screenResolution :: "utf16 option"
  timezone :: "utf16 option"
  language :: "utf16 option"

datatype risk = Low | Medium | High

record analysis =
  isSuspicious :: bool
  reasons :: "string list"
  riskLevel :: "risk option"

text \<open>\<open>verifyDevice\<close> of utils/verifyDevice: both descriptors present, device id and
  fingerprint strictly equal.\<close>

definition verifyDevice :: "device_info option \<Rightarrow> device_info option \<Rightarrow> bool" where
  "verifyDevice storedDeviceInfo providedDeviceInfo =
     (case (storedDeviceInfo, providedDeviceInfo) of
        (Some s, Some p) \<Rightarrow> deviceId s = deviceId p \<and> fingerprint s = fingerprint p
      | _ \<Rightarrow> False)"

text \<open>\<open>analyzeDeviceChange\<close>: the reasons are pushed in the order of the four checks; the
  early return for a missing descriptor carries no risk level.\<close>

definition analyzeDeviceChange :: "device_info option \<Rightarrow> device_info option \<Rightarrow> analysis" where
  "analyzeDeviceChange oldDeviceInfo newDeviceInfo =
     (case (oldDeviceInfo, newDeviceInfo) of
        (Some old, Some new) \<Rightarrow>
          (let suspiciousReasons =
                 (if deviceId old \<noteq> deviceId new then [''Device ID changed completely''] else [])
               @ (if platform old \<noteq> platform new then [''Platform changed''] else [])
               @ (if truthy (model old) \<and> truthy (model new) \<and> model old \<noteq> model new
                  then [''Device model changed''] else [])
               @ (if fingerprint old \<noteq> fingerprint new then [''Device fingerprint changed''] else [])
           in \<lparr> isSuspicious = length suspiciousReasons > 0,
                reasons = suspiciousReasons,
                riskLevel = Some (if length suspiciousReasons \<ge> 2 then High
                                  else if length suspiciousReasons = 1 then Medium else Low) \<rparr>)
      | _ \<Rightarrow> \<lparr> isSuspicious = False, reasons = [], riskLevel = None \<rparr>)"

text \<open>Two descriptors used as concrete inputs below.\<close>

definition phone :: device_info where
  "phone = \<lparr> deviceId = Some (units ''device-0123456789''), platform = Some (units ''ios''),
             model = Some (units ''iPhone''), version = Some (units ''17''),
             fingerprint = Some (units ''fp-a''),
             userAgent = None, screenResolution = None, timezone = None, language = None \<rparr>"

definition phone_no_model :: device_info where
  "phone_no_model = phone \<lparr> model := None \<rparr>"

section \<open>Errors\<close>

text \<open>A JavaScript \<open>Error\<close> is its message. A \<open>try\<close> block whose handler rethrows with a
  prefixed message is \<open>rethrow\<close>.\<close>

datatype error = Error string

fun message :: "error \<Rightarrow> string" where
  "message (Error m) = m"

definition and_then :: "error + 'a \<Rightarrow> ('a \<Rightarrow> error + 'b) \<Rightarrow> error + 'b" where
  "and_then r f = (case r of Inl e \<Rightarrow> Inl e | Inr x \<Rightarrow> f x)"

definition rethrow :: "string \<Rightarrow> error + 'a \<Rightarrow> error + 'a" where
  "rethrow prefix r = (case r of Inl e \<Rightarrow> Inl (Error (prefix @ message e)) | Inr x \<Rightarrow> Inr x)"

section \<open>Bitcoin adapter (utils/sendTx, utils/getBalance)\<close>

text \<open>
  The explorer API, the key library and the broadcast endpoint are outside the
  repository: they are the fields of \<open>bitcoin_env\<close>, each returning either an error (the
  awaited call throws) or its data. The explorer reports the value of an unspent output
  as an integer number of satoshis. The amount, the fee rate, the running total, the fee
  and the change are JavaScript numbers, computed with the arithmetic of doubles.
\<close>

record utxo =
  txid :: string
  vout :: nat
  value' :: int

record psbt_input =
  hash :: string
  index :: nat
  witnessValue :: int
  nonWitnessUtxo :: string

record psbt =
  inputs :: "psbt_input list"
  outputs :: "(string \<times> number) list"

record bitcoin_env =
  p2wpkhAddress :: "string \<Rightarrow> error + string"
  getUtxos :: "string \<Rightarrow> error + utxo list"
  getTxHex :: "string \<Rightarrow> error + string"
  postTx :: "psbt \<Rightarrow> error + string"

record bitcoin_params =
  privateKey :: string
  to :: string
  amount :: number
  feeRate :: "number option"

record bitcoin_result =
  txHash :: string
  chain :: string
  sentTo :: string
  sentAmount :: number
  fee :: number
  inputCount :: nat
  status :: string
  explorerUrl :: string

text \<open>The selection loop of \<open>sendBitcoinTransaction\<close>: \<open>totalInput\<close> and
  \<open>selectedUtxos\<close> are the two variables the loop updates; the \<open>break\<close> returns them.
  The number of virtual bytes, \<open>selectedUtxos.length * 148 + 2 * 34 + 10\<close>, is an integer
  far below the range where doubles have gaps.\<close>

fun selectUtxos :: "number \<Rightarrow> number \<Rightarrow> utxo list \<Rightarrow> number \<Rightarrow> utxo list \<Rightarrow> number \<times> utxo list" where
  "selectUtxos amountSatoshis rate [] totalInput selectedUtxos = (totalInput, selectedUtxos)"
| "selectUtxos amountSatoshis rate (u # rest) totalInput selectedUtxos =
     (let totalInput' = js_add totalInput (Finite (of_int (value' u)));
          selectedUtxos' = selectedUtxos @ [u];
          estimatedFee = js_mul (Finite (of_int (int (length selectedUtxos') * 148 + 2 * 34 + 10))) rate
      in if js_le (js_add amountSatoshis estimatedFee) totalInput'
         then (totalInput', selectedUtxos')
         else selectUtxos amountSatoshis rate rest totalInput' selectedUtxos')"

text \<open>The loop that adds the inputs fetches the funding transaction of each selected
  UTXO; a failed fetch aborts the send.\<close>

fun addInputs :: "bitcoin_env \<Rightarrow> utxo list \<Rightarrow> error + psbt_input list" where
  "addInputs env [] = Inr []"
| "addInputs env (u # rest) =
     and_then (getTxHex env (txid u)) (\<lambda>txHex.
     and_then (addInputs env rest) (\<lambda>more.
       Inr (\<lparr> hash = txid u, index = vout u, witnessValue = value' u,
                nonWitnessUtxo = txHex \<rparr> # more)))"

text \<open>\<open>sendBitcoinTransaction\<close>. \<open>Array.prototype.sort\<close> with the comparator
  \<open>b.value - a.value\<close> is a stable sort by descending value. \<open>Math.floor(amount *
  100000000)\<close> is the floor of the rounded product. Adding the outputs, signing every
  input, finalising and extracting the transaction are calls into the key library on the
  transaction built here, as are the checks it makes on what it is given; together with
  the broadcast they are \<open>postTx\<close>. The result
  pairs that transaction with the object the function returns.\<close>

definition sendBitcoinTransaction ::
  "bitcoin_env \<Rightarrow> bitcoin_params \<Rightarrow> error + (psbt \<times> bitcoin_result)" where
  "sendBitcoinTransaction env params =
     rethrow ''Failed to send Bitcoin transaction: ''
      (let rate = (case feeRate params of None \<Rightarrow> Finite 10 | Some r \<Rightarrow> r) in
       and_then (p2wpkhAddress env (privateKey params)) (\<lambda>address.
       and_then (getUtxos env address) (\<lambda>utxos.
         if length utxos = 0 then Inl (Error ''No UTXOs available'')
         else
           let amountSatoshis = js_floor (js_mul (amount params) (Finite 100000000));
               (totalInput, selectedUtxos) =
                  selectUtxos amountSatoshis rate (sort_key (\<lambda>u. - value' u) utxos) (Finite 0) [];
               fee = js_mul (Finite (of_int (int (length selectedUtxos) * 148 + 2 * 34 + 10))) rate;
               change = js_sub (js_sub totalInput amountSatoshis) fee
           in if js_lt totalInput (js_add amountSatoshis fee) then Inl (Error ''Insufficient funds'')
              else
                and_then (addInputs env selectedUtxos) (\<lambda>ins.
                  let tx = \<lparr> inputs = ins,
                             outputs = (to params, amountSatoshis)
                                       # (if js_lt (Finite 546) change then [(address, change)] else []) \<rparr>
                  in and_then (postTx env tx) (\<lambda>h.
                       Inr (tx, \<lparr> txHash = h, chain = ''bitcoin'', sentTo = to params,
                                    sentAmount = amount params,
                                    fee = js_div fee (Finite 100000000),
                                    inputCount = length selectedUtxos,
                                    status = ''pending'',
                                    explorerUrl = ''https://blockstream.info/tx/'' @ h \<rparr>))))))"

text \<open>The explorer's address document, and \<open>getBitcoinBalance\<close>. A failed request
  carries the HTTP status of the response when there is one. The returned balances are
  the numbers whose decimal strings the function returns.\<close>

record txo_stats =
  funded_txo_sum :: int
  spent_txo_sum :: int
  tx_count :: nat

record address_data =
  chain_stats :: txo_stats
  mempool_stats :: txo_stats

datatype http_failure = HttpFailure "nat option" string

record balance_result =
  balance :: rat
  unconfirmedBalance :: rat
  txCount :: nat
  symbol :: string
  decimals :: nat

definition getBitcoinBalance :: "(string \<Rightarrow> http_failure + address_data) \<Rightarrow> string \<Rightarrow> error + balance_result" where
  "getBitcoinBalance getAddress address =
     (case getAddress address of
        Inr data \<Rightarrow>
          Inr \<lparr> balance = of_int (funded_txo_sum (chain_stats data)) / 100000000,
                unconfirmedBalance = of_int (funded_txo_sum (mempool_stats data)) / 100000000,
                txCount = tx_count (chain_stats data),
                symbol = ''BTC'', decimals = 8 \<rparr>
      | Inl (HttpFailure st msg) \<Rightarrow>
          if st = Some 404
          then Inr \<lparr> balance = 0, unconfirmedBalance = 0, txCount = 0,
                     symbol = ''BTC'', decimals = 8 \<rparr>
          else Inl (Error (''Failed to get Bitcoin balance: '' @ msg)))"

text \<open>What the balance of an address is, in the words of the specification: confirmed
  plus unconfirmed funded totals minus the spent totals, in whole coins.\<close>

definition spec_balance :: "address_data \<Rightarrow> rat" where
  "spec_balance data =
     of_int (funded_txo_sum (chain_stats data) + funded_txo_sum (mempool_stats data)
             - spent_txo_sum (chain_stats data) - spent_txo_sum (mempool_stats data))
     / 100000000"

definition spent_address :: address_data where
  "spent_address =
     \<lparr> chain_stats = \<lparr> funded_txo_sum = 150000000, spent_txo_sum = 50000000, tx_count = 2 \<rparr>,
       mempool_stats = \<lparr> funded_txo_sum = 0, spent_txo_sum = 0, tx_count = 0 \<rparr> \<rparr>"

text \<open>The coverage condition of the selection loop in exact arithmetic, for the first \<open>k\<close>
  of a list of UTXOs: their total reaches the amount plus the fee of \<open>k\<close> inputs.\<close>

definition covers :: "int \<Rightarrow> int \<Rightarrow> utxo list \<Rightarrow> nat \<Rightarrow> bool" where
  "covers A r xs k = (sum_list (map value' (take k xs)) \<ge> A + (int k * 148 + 2 * 34 + 10) * r)"

text \<open>A wallet with three UTXOs, an explorer that serves them, and a send of 0.0006 BTC;
  and a wallet whose second UTXO is dust, with a send of 0.00097 BTC.\<close>

definition sample_utxos :: "utxo list" where
  "sample_utxos = [\<lparr> txid = ''aa'', vout = 0, value' = 3000 \<rparr>,
                   \<lparr> txid = ''bb'', vout = 1, value' = 50000 \<rparr>,
                   \<lparr> txid = ''cc'', vout = 0, value' = 20000 \<rparr>]"

definition sample_env :: bitcoin_env where
  "sample_env = \<lparr> p2wpkhAddress = (\<lambda>k. Inr ''bc1qsender''),
                   getUtxos = (\<lambda>a. Inr sample_utxos),
                   getTxHex = (\<lambda>t. Inr (''raw-'' @ t)),
                   postTx = (\<lambda>tx. Inr ''f00d'') \<rparr>"

definition sample_send :: bitcoin_params where
  "sample_send = \<lparr> privateKey = ''11'', to = ''bc1qrecipient'', amount = round_double (6 / 10000),
                    feeRate = None \<rparr>"

definition dust_utxos :: "utxo list" where
  "dust_utxos = [\<lparr> txid = ''dd'', vout = 0, value' = 100 \<rparr>,
                 \<lparr> txid = ''ee'', vout = 0, value' = 100000 \<rparr>]"

definition dust_env :: bitcoin_env where
  "dust_env = sample_env \<lparr> getUtxos := (\<lambda>a. Inr dust_utxos) \<rparr>"

definition dust_send :: bitcoin_params where
  "dust_send = sample_send \<lparr> amount := round_double (97 / 100000) \<rparr>"

section \<open>Envelope cipher (utils/encrypt)\<close>

text \<open>
  Buffers are lists of bytes. Node's \<open>crypto\<close> and \<open>Buffer\<close> are outside the
  repository; what \<open>encrypt\<close> and \<open>decrypt\<close> call is collected in \<open>crypto_lib\<close>:
  \<^item> \<open>pbkdf2 password salt iterations keylen\<close> is \<open>pbkdf2Sync\<close> with the digest
    \<open>'sha512'\<close>;
  \<^item> \<open>cipher key aad plaintext\<close> is \<open>createCipher('aes-256-gcm', key)\<close>, \<open>setAAD\<close>,
    \<open>update\<close> and \<open>final\<close>, returning the ciphertext and \<open>getAuthTag()\<close>;
  \<^item> \<open>decipher key aad authTag ciphertext\<close> is \<open>createDecipher\<close>, \<open>setAuthTag\<close>,
    \<open>setAAD\<close>, \<open>update\<close> and \<open>final\<close>; it is \<open>None\<close> when \<open>final\<close> throws;
  \<^item> the UTF-8 and base64 codecs of \<open>Buffer\<close>.
  Neither call is given the \<open>iv\<close>: the code passes only the algorithm and the key.
  \<open>crypto.randomBytes\<close> reads a source of random bytes, which is advanced by each call.
\<close>

type_synonym rng = "nat \<Rightarrow> byte"

record crypto_lib =
  pbkdf2 :: "string \<Rightarrow> bytes \<Rightarrow> nat \<Rightarrow> nat \<Rightarrow> bytes"
  cipher :: "bytes \<Rightarrow> bytes \<Rightarrow> bytes \<Rightarrow> bytes \<times> bytes"
  decipher :: "bytes \<Rightarrow> bytes \<Rightarrow> bytes \<Rightarrow> bytes \<Rightarrow> bytes option"
  utf8_encode :: "utf16 \<Rightarrow> bytes"
  utf8_decode :: "bytes \<Rightarrow> utf16"
  base64_encode :: "bytes \<Rightarrow> string"
  base64_decode :: "string \<Rightarrow> bytes"

definition randomBytes :: "nat \<Rightarrow> rng \<Rightarrow> bytes \<times> rng" where
  "randomBytes n g = (map g [0..<n], (\<lambda>i. g (i + n)))"

definition KEY_LENGTH :: nat where "KEY_LENGTH = 32"
definition IV_LENGTH :: nat where "IV_LENGTH = 16"
definition SALT_LENGTH :: nat where "SALT_LENGTH = 64"
definition AUTH_TAG_LENGTH :: nat where "AUTH_TAG_LENGTH = 16"

text \<open>\<open>Buffer.subarray(start, end)\<close> clamps both ends to the buffer.\<close>

definition subarray :: "nat \<Rightarrow> nat \<Rightarrow> bytes \<Rightarrow> bytes" where
  "subarray start end' buf = drop start (take end' buf)"

definition deriveKey :: "crypto_lib \<Rightarrow> string \<Rightarrow> bytes \<Rightarrow> bytes" where
  "deriveKey lib encryptionKey salt = pbkdf2 lib encryptionKey salt 100000 KEY_LENGTH"

text \<open>The additional authenticated data, \<open>Buffer.from('crypto-wallet', 'utf8')\<close>.\<close>

definition aad :: "crypto_lib \<Rightarrow> bytes" where
  "aad lib = utf8_encode lib (units ''crypto-wallet'')"

text \<open>\<open>encrypt\<close>: the text and the configured key may be undefined (\<open>None\<close>); both guards
  throw before any random byte is drawn. The result carries the source of randomness as
  the call leaves it.\<close>

definition encrypt :: "crypto_lib \<Rightarrow> string option \<Rightarrow> utf16 option \<Rightarrow> rng \<Rightarrow> error + (string \<times> rng)" where
  "encrypt lib encryptionKey text g =
     rethrow ''Encryption failed: ''
       (case text of
          None \<Rightarrow> Inl (Error ''Text to encrypt cannot be empty'')
        | Some t \<Rightarrow>
          if t = [] then Inl (Error ''Text to encrypt cannot be empty'')
          else (case encryptionKey of
             None \<Rightarrow> Inl (Error ''Invalid encryption key. Must be at least 32 characters.'')
           | Some ek \<Rightarrow>
             if ek = [] \<or> length ek < 32
             then Inl (Error ''Invalid encryption key. Must be at least 32 characters.'')
             else
               let (salt, g1) = randomBytes SALT_LENGTH g;
                   (iv, g2) = randomBytes IV_LENGTH g1;
                   key = deriveKey lib ek salt;
                   (encrypted, authTag) = cipher lib key (aad lib) (utf8_encode lib t);
                   combined = salt @ iv @ authTag @ encrypted
               in Inr (base64_encode lib combined, g2)))"

text \<open>\<open>decrypt\<close>: a failed authentication makes \<open>decipher.final()\<close> throw, and the handler
  rethrows it; there is no other way out of the function.\<close>

definition decrypt :: "crypto_lib \<Rightarrow> string option \<Rightarrow> string option \<Rightarrow> error + utf16" where
  "decrypt lib encryptionKey encryptedData =
     rethrow ''Decryption failed: ''
       (case encryptedData of
          None \<Rightarrow> Inl (Error ''Encrypted data cannot be empty'')
        | Some d \<Rightarrow>
          if d = [] then Inl (Error ''Encrypted data cannot be empty'')
          else (case encryptionKey of
             None \<Rightarrow> Inl (Error ''Invalid encryption key. Must be at least 32 characters.'')
           | Some ek \<Rightarrow>
             if ek = [] \<or> length ek < 32
             then Inl (Error ''Invalid encryption key. Must be at least 32 characters.'')
             else
               let combined = base64_decode lib d;
                   salt = subarray 0 SALT_LENGTH combined;
                   iv = subarray SALT_LENGTH (SALT_LENGTH + IV_LENGTH) combined;
                   authTag = subarray (SALT_LENGTH + IV_LENGTH)
                                      (SALT_LENGTH + IV_LENGTH + AUTH_TAG_LENGTH) combined;
                   encrypted = drop (SALT_LENGTH + IV_LENGTH + AUTH_TAG_LENGTH) combined;
                   key = deriveKey lib ek salt
               in (case decipher lib key (aad lib) authTag encrypted of
                     None \<Rightarrow> Inl (Error ''Unsupported state or unable to authenticate data'')
                   | Some decrypted \<Rightarrow> Inr (utf8_decode lib decrypted))))"

text \<open>
  What the theorems below assume of the library, and nothing more:
  \<^item> the codecs invert: decoding the base64 of a buffer gives the buffer back, the base64
    of a non-empty buffer is a non-empty string, and decoding the UTF-8 of a well-formed
    string gives the string back (of an ill-formed string it cannot: the encoder has
    replaced the unpaired surrogates);
  \<^item> the authentication tag has 16 bytes, and deciphering what was enciphered under the
    same key and associated data gives the plaintext back;
  \<^item> (\<open>detects_tampering\<close>) changing one byte of the tag or of the ciphertext makes
    deciphering fail.
\<close>

definition codecs_invert :: "crypto_lib \<Rightarrow> bool" where
  "codecs_invert lib =
     ((\<forall>bs. base64_decode lib (base64_encode lib bs) = bs)
      \<and> (\<forall>bs. bs \<noteq> [] \<longrightarrow> base64_encode lib bs \<noteq> [])
      \<and> (\<forall>t. well_formed t \<longrightarrow> utf8_decode lib (utf8_encode lib t) = t))"

definition cipher_inverts :: "crypto_lib \<Rightarrow> bool" where
  "cipher_inverts lib =
     (\<forall>k a p. length (snd (cipher lib k a p)) = 16
        \<and> decipher lib k a (snd (cipher lib k a p)) (fst (cipher lib k a p)) = Some p)"

definition detects_tampering :: "crypto_lib \<Rightarrow> bool" where
  "detects_tampering lib =
     (\<forall>k a p i b. i < length (snd (cipher lib k a p) @ fst (cipher lib k a p))
        \<and> b \<noteq> (snd (cipher lib k a p) @ fst (cipher lib k a p)) ! i
        \<longrightarrow> decipher lib k a
              (take 16 ((snd (cipher lib k a p) @ fst (cipher lib k a p))[i := b]))
              (drop 16 ((snd (cipher lib k a p) @ fst (cipher lib k a p))[i := b])) = None)"

text \<open>The buffer that \<open>encrypt\<close> encodes.\<close>

definition envelope :: "crypto_lib \<Rightarrow> string \<Rightarrow> utf16 \<Rightarrow> rng \<Rightarrow> bytes" where
  "envelope lib ek t g =
     map g [0..<80]
     @ snd (cipher lib (deriveKey lib ek (map g [0..<64])) (aad lib) (utf8_encode lib t))
     @ fst (cipher lib (deriveKey lib ek (map g [0..<64])) (aad lib) (utf8_encode lib t))"

text \<open>A stand-in library for concrete instances. The key derivation keeps the first bytes
  of the salt, and the cipher adds one to every byte and tags the ciphertext with a
  checksum over key, associated data and ciphertext. The stand-in for base64 maps a byte
  to the character of the same code. The stand-in for UTF-8 writes every code unit as two
  bytes and, like UTF-8, has no encoding for an unpaired surrogate: it writes U+FFFD in
  its place. The library satisfies the three assumptions above.\<close>

definition byte_of_char :: "char \<Rightarrow> byte" where
  "byte_of_char c = word_of_nat (of_char c)"

definition char_of_byte :: "byte \<Rightarrow> char" where
  "char_of_byte w = char_of (unat w)"

fun replace_lone :: "utf16 \<Rightarrow> utf16" where
  "replace_lone [] = []"
| "replace_lone [u] = [if is_high u \<or> is_low u then 0xFFFD else u]"
| "replace_lone (u # l # us) =
     (if is_high u \<and> is_low l then u # l # replace_lone us
      else (if is_high u \<or> is_low u then 0xFFFD else u) # replace_lone (l # us))"

fun pairs_of :: "utf16 \<Rightarrow> bytes" where
  "pairs_of [] = []"
| "pairs_of (u # us) = word_of_nat (unat u div 256) # word_of_nat (unat u mod 256) # pairs_of us"

fun units_of :: "bytes \<Rightarrow> utf16" where
  "units_of (h # l # bs) = word_of_nat (unat h * 256 + unat l) # units_of bs"
| "units_of bs = []"

definition toy_tag :: "bytes \<Rightarrow> bytes \<Rightarrow> bytes \<Rightarrow> bytes" where
  "toy_tag k a c = (sum_list k + sum_list a + sum_list c) # replicate 15 0"

definition toy_lib :: crypto_lib where
  "toy_lib = \<lparr> pbkdf2 = (\<lambda>password salt iterations keylen. take keylen salt),
               cipher = (\<lambda>k a p. (map (\<lambda>w. w + 1) p, toy_tag k a (map (\<lambda>w. w + 1) p))),
               decipher = (\<lambda>k a t c. if t = toy_tag k a c then Some (map (\<lambda>w. w - 1) c) else None),
               utf8_encode = (\<lambda>t. pairs_of (replace_lone t)),
               utf8_decode = units_of,
               base64_encode = map char_of_byte,
               base64_decode = map byte_of_char \<rparr>"

definition master_key :: string where
  "master_key = ''0123456789abcdef0123456789abcdef''"

text \<open>Two sources of random bytes: one that counts, and one that always returns zero.\<close>

definition counting :: rng where
  "counting = (\<lambda>i. word_of_nat i)"

definition stuck :: rng where
  "stuck = (\<lambda>i. 0)"

section \<open>Accounts (models/User)\<close>

text \<open>An object is the list of its fields in insertion order.\<close>

type_synonym js_object = "(string \<times> string) list"

definition field :: "js_object \<Rightarrow> string \<Rightarrow> string option" where
  "field obj name = map_of obj name"

record user_wallets =
  ethereum :: js_object
  bitcoin :: js_object
  tron :: js_object

text \<open>A user document. The three fields that a query may exclude with \<open>select\<close> are
  optional: an excluded field reads as undefined.\<close>

record user =
  user_id :: nat
  username :: utf16
  securityCodeHash :: "string option"
  hashKeyHash :: "string option"
  deviceInfo :: device_info
  newDeviceFound :: bool
  pendingDeviceInfo :: "device_info option"
  twoFactorSecret :: "string option"
  twoFactorEnabled :: bool
  wallets :: user_wallets
  platformFeeBalance :: number
  isActive :: bool
  isLocked :: bool
  lockReason :: "string option"
  lastLogin :: "nat option"
  lastTwoFactorVerification :: "nat option"
  createdAt :: nat

text \<open>The collection is the list of its documents; \<open>save\<close> of a loaded document replaces
  the stored fields that the document carries and appends a new document.\<close>

definition merge_fields :: "user \<Rightarrow> user \<Rightarrow> user" where
  "merge_fields stored doc =
     doc \<lparr> securityCodeHash := (case securityCodeHash doc of None \<Rightarrow> securityCodeHash stored | Some h \<Rightarrow> Some h),
           hashKeyHash := (case hashKeyHash doc of None \<Rightarrow> hashKeyHash stored | Some h \<Rightarrow> Some h),
           twoFactorSecret := (case twoFactorSecret doc of None \<Rightarrow> twoFactorSecret stored | Some h \<Rightarrow> Some h) \<rparr>"

fun save :: "user \<Rightarrow> user list \<Rightarrow> user list" where
  "save doc [] = [doc]"
| "save doc (u # us) = (if user_id u = user_id doc then merge_fields u doc # us else u # save doc us)"

fun findById :: "user list \<Rightarrow> nat \<Rightarrow> user option" where
  "findById [] i = None"
| "findById (u # us) i = (if user_id u = i then Some u else findById us i)"

text \<open>The libraries the controllers call: \<open>bcrypt\<close>, \<open>otplib\<close>'s authenticator (its
  \<open>verify\<close> is handed \<open>user.twoFactorSecret\<close>, which may be undefined), \<open>jsonwebtoken\<close>,
  \<open>qrcode\<close>, SHA-256, the clock and the identifier of a new document.\<close>

record auth_env =
  bcrypt_compare :: "string \<Rightarrow> string \<Rightarrow> bool"
  bcrypt_hash :: "string \<Rightarrow> string"
  authenticator_verify :: "string \<Rightarrow> string option \<Rightarrow> error + bool"
  generateSecret :: "rng \<Rightarrow> string \<times> rng"
  keyuri :: "utf16 \<Rightarrow> string \<Rightarrow> string \<Rightarrow> string"
  toDataURL :: "string \<Rightarrow> error + string"
  jwt_sign :: "nat \<Rightarrow> string"
  jwt_verify :: "string \<Rightarrow> error + nat"
  sha256_hex :: "utf16 \<Rightarrow> utf16"
  now :: nat
  newObjectId :: nat

text \<open>Schema methods. \<open>bcrypt.compare\<close> rejects when the stored hash is undefined.\<close>

definition verifySecurityCode :: "auth_env \<Rightarrow> user \<Rightarrow> string \<Rightarrow> error + bool" where
  "verifySecurityCode env this securityCode =
     (case securityCodeHash this of
        None \<Rightarrow> Inl (Error ''data and hash arguments required'')
      | Some h \<Rightarrow> Inr (bcrypt_compare env securityCode h))"

definition verifyHashKey :: "auth_env \<Rightarrow> user \<Rightarrow> string \<Rightarrow> error + bool" where
  "verifyHashKey env this hashKey =
     (case hashKeyHash this of
        None \<Rightarrow> Inl (Error ''data and hash arguments required'')
      | Some h \<Rightarrow> Inr (bcrypt_compare env hashKey h))"

definition user_verifyDevice :: "user \<Rightarrow> device_info \<Rightarrow> bool" where
  "user_verifyDevice this d =
     (deviceId (deviceInfo this) = deviceId d \<and> fingerprint (deviceInfo this) = fingerprint d)"

section \<open>Device validation and normalisation (utils/verifyDevice)\<close>

definition generateDeviceFingerprint :: "auth_env \<Rightarrow> device_info \<Rightarrow> utf16" where
  "generateDeviceFingerprint env d =
     sha256_hex env (join (units ''|'')
       [or_empty (platform d), or_empty (model d), or_empty (version d), or_empty (deviceId d),
        or_empty (userAgent d), or_empty (screenResolution d), or_empty (timezone d),
        or_empty (language d)])"

definition validateDeviceInfo :: "device_info option \<Rightarrow> bool \<times> string list" where
  "validateDeviceInfo deviceInfo' =
     (case deviceInfo' of
        None \<Rightarrow> (False, [''Device info is required''])
      | Some d \<Rightarrow>
          (let errors =
                 (if \<not> truthy (deviceId d) then [''Device ID is required and must be a string''] else [])
               @ (if truthy (deviceId d) \<and> length (or_empty (deviceId d)) < 10
                  then [''Device ID must be at least 10 characters long''] else [])
               @ (if \<not> truthy (platform d) then [''Platform is required and must be a string''] else [])
           in (length errors = 0, errors)))"

text \<open>\<open>normalizeDeviceInfo\<close>: the fingerprint is derived from the fields as given, then
  every field is trimmed.\<close>

definition normalizeDeviceInfo :: "auth_env \<Rightarrow> device_info \<Rightarrow> device_info" where
  "normalizeDeviceInfo env d =
     (let normalized = (if \<not> truthy (fingerprint d)
                        then d \<lparr> fingerprint := Some (generateDeviceFingerprint env d) \<rparr> else d)
      in \<lparr> deviceId = map_option trim (deviceId normalized),
           platform = map_option trim (platform normalized),
           model = map_option trim (model normalized),
           version = map_option trim (version normalized),
           fingerprint = map_option trim (fingerprint normalized),
           userAgent = map_option trim (userAgent normalized),
           screenResolution = map_option trim (screenResolution normalized),
           timezone = map_option trim (timezone normalized),
           language = map_option trim (language normalized) \<rparr>)"

section \<open>Login (controllers/authController)\<close>

datatype detail =
    NoDetail
  | Errors "string list"
  | LockReason "string option"
  | Analysis "risk option" "string list"
  | FeeShortfall number number

datatype 'a response = Failure nat string detail | Success nat string 'a

record login_data =
  login_id :: nat
  login_username :: utf16
  login_walletAddresses :: "string option \<times> string option \<times> string option"
  login_twoFactorEnabled :: bool
  login_lastLogin :: "nat option"
  login_platformFeeBalance :: number
  login_token :: string

text \<open>The scan of \<open>login\<close>: both comparisons are awaited for every candidate, and the first
  candidate for which both hold ends the loop.\<close>

fun findCandidate :: "auth_env \<Rightarrow> user list \<Rightarrow> string \<Rightarrow> string \<Rightarrow> error + user option" where
  "findCandidate env [] securityCode hashKey = Inr None"
| "findCandidate env (candidate # rest) securityCode hashKey =
     and_then (verifySecurityCode env candidate securityCode) (\<lambda>securityMatch.
     and_then (verifyHashKey env candidate hashKey) (\<lambda>hashMatch.
       if securityMatch \<and> hashMatch then Inr (Some candidate)
       else findCandidate env rest securityCode hashKey))"

text \<open>Both factors verify against one document.\<close>

definition both_verify :: "auth_env \<Rightarrow> user \<Rightarrow> string \<Rightarrow> string \<Rightarrow> bool" where
  "both_verify env u securityCode hashKey =
     (verifySecurityCode env u securityCode = Inr True \<and> verifyHashKey env u hashKey = Inr True)"

definition walletAddresses_of :: "user \<Rightarrow> string option \<times> string option \<times> string option" where
  "walletAddresses_of u =
     (field (ethereum (wallets u)) ''address'', field (bitcoin (wallets u)) ''address'',
      field (tron (wallets u)) ''address'')"

definition login ::
  "auth_env \<Rightarrow> user list \<Rightarrow> string option \<Rightarrow> string option \<Rightarrow> device_info option \<Rightarrow> string option
     \<Rightarrow> login_data response \<times> user list" where
  "login env db securityCode hashKey deviceInfo' twoFactorCode =
     (case deviceInfo' of
        None \<Rightarrow> (Failure 400 ''Security code, hash key, device info, and 2FA code are required'' NoDetail, db)
      | Some d \<Rightarrow>
        if \<not> truthy securityCode \<or> \<not> truthy hashKey \<or> \<not> truthy twoFactorCode
        then (Failure 400 ''Security code, hash key, device info, and 2FA code are required'' NoDetail, db)
        else if \<not> fst (validateDeviceInfo (Some d))
        then (Failure 400 ''Invalid device info'' (Errors (snd (validateDeviceInfo (Some d)))), db)
        else
          (case findCandidate env (filter isActive db) (or_empty securityCode) (or_empty hashKey) of
             Inl e \<Rightarrow> (Failure 500 ''Login failed'' NoDetail, db)
           | Inr None \<Rightarrow> (Failure 401 ''Invalid credentials'' NoDetail, db)
           | Inr (Some u) \<Rightarrow>
               if isLocked u then (Failure 423 ''Account is locked'' (LockReason (lockReason u)), db)
               else
                 let normalizedDeviceInfo = normalizeDeviceInfo env d in
                 if \<not> user_verifyDevice u normalizedDeviceInfo
                 then (let analysis = analyzeDeviceChange (Some (deviceInfo u)) (Some normalizedDeviceInfo)
                       in (Failure 403 ''Device verification failed''
                             (Analysis (riskLevel analysis) (reasons analysis)), db))
                 else
                   (case authenticator_verify env (or_empty twoFactorCode) (twoFactorSecret u) of
                      Inl e \<Rightarrow> (Failure 500 ''Login failed'' NoDetail, db)
                    | Inr is2FAValid \<Rightarrow>
                        if \<not> is2FAValid then (Failure 401 ''Invalid 2FA code'' NoDetail, db)
                        else
                          (let u' = u \<lparr> lastLogin := Some (now env),
                                        lastTwoFactorVerification := Some (now env) \<rparr>
                           in (Success 200 ''Login successful''
                                 \<lparr> login_id = user_id u', login_username = username u',
                                   login_walletAddresses = walletAddresses_of u',
                                   login_twoFactorEnabled = twoFactorEnabled u',
                                   login_lastLogin = lastLogin u',
                                   login_platformFeeBalance = platformFeeBalance u',
                                   login_token = jwt_sign env (user_id u') \<rparr>,
                               save u' db)))))"

section \<open>Session middleware and TOTP regeneration\<close>

text \<open>\<open>authMiddleware\<close> (middlewares/authMiddleware): the document it attaches to the
  request is loaded with \<open>select('-securityCodeHash -hashKeyHash -twoFactorSecret')\<close>, so
  these three fields are undefined on \<open>req.user\<close>. \<open>jwt.verify\<close> throws an error whose name
  selects the response.\<close>

definition select_without_secrets :: "user \<Rightarrow> user" where
  "select_without_secrets u =
     u \<lparr> securityCodeHash := None, hashKeyHash := None, twoFactorSecret := None \<rparr>"

definition authMiddleware :: "auth_env \<Rightarrow> user list \<Rightarrow> string option \<Rightarrow> (nat \<times> string \<times> detail) + user" where
  "authMiddleware env db authHeader =
     (case authHeader of
        None \<Rightarrow> Inl (401, ''No authorization header provided'', NoDetail)
      | Some h \<Rightarrow>
        if h = [] then Inl (401, ''No authorization header provided'', NoDetail)
        else if \<not> startsWith h ''Bearer ''
        then Inl (401, ''Invalid authorization format. Use: Bearer <token>'', NoDetail)
        else if drop 7 h = [] then Inl (401, ''No token provided'', NoDetail)
        else
          (case jwt_verify env (drop 7 h) of
             Inl (Error name) \<Rightarrow>
               if name = ''JsonWebTokenError'' then Inl (401, ''Invalid token'', NoDetail)
               else if name = ''TokenExpiredError'' then Inl (401, ''Token expired'', NoDetail)
               else Inl (500, ''Authentication error'', NoDetail)
           | Inr userId \<Rightarrow>
               (case map_option select_without_secrets (findById db userId) of
                  None \<Rightarrow> Inl (401, ''Invalid token - user not found'', NoDetail)
                | Some u \<Rightarrow>
                    if \<not> isActive u then Inl (401, ''Account is deactivated'', NoDetail)
                    else if isLocked u then Inl (423, ''Account is locked'', LockReason (lockReason u))
                    else Inr u)))"

record regenerate_data =
  qrCodeUrl :: string
  manualEntryKey :: string

text \<open>\<open>regenerate2FA\<close>, run on the document \<open>req.user\<close> that the middleware attached. The
  secret is saved before the QR code is rendered.\<close>

definition regenerate2FA ::
  "auth_env \<Rightarrow> user \<Rightarrow> user list \<Rightarrow> rng \<Rightarrow> string option
     \<Rightarrow> regenerate_data response \<times> user list \<times> rng" where
  "regenerate2FA env u db g twoFactorCode =
     (if \<not> truthy twoFactorCode then (Failure 400 ''2FA code is required'' NoDetail, db, g)
      else
        (case authenticator_verify env (or_empty twoFactorCode) (twoFactorSecret u) of
           Inl e \<Rightarrow> (Failure 500 ''2FA regeneration failed'' NoDetail, db, g)
         | Inr is2FAValid \<Rightarrow>
             if \<not> is2FAValid then (Failure 401 ''Invalid 2FA code'' NoDetail, db, g)
             else
               (let (newTwoFactorSecret, g') = generateSecret env g;
                    u' = u \<lparr> twoFactorSecret := Some newTwoFactorSecret \<rparr>;
                    db' = save u' db
                in (case toDataURL env (keyuri env (username u') ''CryptoWallet'' newTwoFactorSecret) of
                      Inl e \<Rightarrow> (Failure 500 ''2FA regeneration failed'' NoDetail, db', g')
                    | Inr url \<Rightarrow>
                        (Success 200 ''2FA secret regenerated successfully''
                           \<lparr> qrCodeUrl = url, manualEntryKey = newTwoFactorSecret \<rparr>, db', g')))))"

text \<open>The route \<open>POST /api/auth/regenerate-2fa\<close>: \<open>authMiddleware\<close>, then \<open>regenerate2FA\<close>.\<close>

definition regenerate2FA_route ::
  "auth_env \<Rightarrow> user list \<Rightarrow> rng \<Rightarrow> string option \<Rightarrow> string option
     \<Rightarrow> regenerate_data response \<times> user list \<times> rng" where
  "regenerate2FA_route env db g authHeader twoFactorCode =
     (case authMiddleware env db authHeader of
        Inl (st, msg, det) \<Rightarrow> (Failure st msg det, db, g)
      | Inr u \<Rightarrow> regenerate2FA env u db g twoFactorCode)"

section \<open>Sending (controllers/walletController)\<close>

text \<open>\<open>sendCrypto\<close> is modelled for any function \<open>sendTx\<close> bound to the name
  \<open>sendTransaction\<close> that the controller imports, together with the list of the calls it
  makes to it; the function of utils/sendTx itself follows below. The parameter object
  that \<open>sendCrypto\<close> builds has no \<open>privateKey\<close>. The request fields are strings.
  \<open>parseFloat\<close> is the built-in of that name, and reading an environment variable that is
  not set gives undefined, which \<open>parseFloat\<close> turns into NaN. The fee, the comparison
  with the balance and the deduction are the arithmetic of doubles; the literal \<open>0.1\<close> is
  the double nearest to one tenth. Mongoose's \<open>Number\<close> refuses NaN, so a balance that
  became NaN makes the save throw.\<close>

record tx_params =
  tx_chain :: string
  tx_to :: string
  tx_amount :: number
  tx_encryptedPrivateKey :: string
  tx_tokenAddress :: "string option"
  tx_privateKey :: "string option"

record 'r wallet_env =
  parseFloat :: "string \<Rightarrow> number"
  PLATFORM_FEE_PERCENTAGE :: "string option"
  sendTx :: "tx_params \<Rightarrow> error + 'r"

record 'r send_data =
  transaction :: 'r
  platformFee :: number
  remainingBalance :: number

definition platformFeePercentage :: "'r wallet_env \<Rightarrow> number" where
  "platformFeePercentage wenv =
     (let p = (case PLATFORM_FEE_PERCENTAGE wenv of None \<Rightarrow> NaN | Some s \<Rightarrow> parseFloat wenv s)
      in if js_falsy p then round_double (1 / 10) else p)"

definition feeAmount_of :: "'r wallet_env \<Rightarrow> number \<Rightarrow> number" where
  "feeAmount_of wenv numericAmount =
     js_mul numericAmount (js_div (platformFeePercentage wenv) (Finite 100))"

text \<open>The \<open>if\<close>/\<open>else if\<close> chain of \<open>sendCrypto\<close> that picks the wallet of the chain; \<open>None\<close>
  is its final \<open>else\<close>, the unsupported chain.\<close>

definition selectWallet :: "user \<Rightarrow> string \<Rightarrow> js_object option" where
  "selectWallet u chainLower =
     (if chainLower \<in> set [''ethereum'', ''eth'', ''bsc'', ''bnb'', ''polygon'', ''matic'']
      then Some (ethereum (wallets u))
      else if chainLower \<in> set [''bitcoin'', ''btc''] then Some (bitcoin (wallets u))
      else if chainLower \<in> set [''tron'', ''trx''] then Some (tron (wallets u))
      else None)"

definition sendCrypto ::
  "'r wallet_env \<Rightarrow> user \<Rightarrow> user list \<Rightarrow> string option \<Rightarrow> string option \<Rightarrow> string option
     \<Rightarrow> string option \<Rightarrow> string option
     \<Rightarrow> 'r send_data response \<times> user list \<times> tx_params list" where
  "sendCrypto wenv u db coinType chain' recipient amount' tokenAddress =
     (if \<not> truthy coinType \<or> \<not> truthy chain' \<or> \<not> truthy recipient \<or> \<not> truthy amount'
      then (Failure 400 ''Coin type, chain, recipient, and amount are required'' NoDetail, db, [])
      else
        let numericAmount = parseFloat wenv (or_empty amount') in
        if js_isNaN numericAmount \<or> js_le numericAmount (Finite 0)
        then (Failure 400 ''Amount must be a positive number'' NoDetail, db, [])
        else
          let chainLower = toLowerCase (or_empty chain')
          in (case selectWallet u chainLower of
                None \<Rightarrow> (Failure 400 (''Unsupported chain: '' @ or_empty chain') NoDetail, db, [])
              | Some wallet \<Rightarrow>
                let encryptedPrivateKey = field wallet ''encryptedPrivateKey'' in
                if \<not> truthy encryptedPrivateKey
                then (Failure 404 (''No wallet found for chain: '' @ or_empty chain') NoDetail, db, [])
                else
                  let feeAmount = feeAmount_of wenv numericAmount in
                  if js_lt (platformFeeBalance u) feeAmount
                  then (Failure 400 ''Insufficient platform fee balance (SHIBAU tokens required)''
                          (FeeShortfall feeAmount (platformFeeBalance u)), db, [])
                  else
                    let txParams = \<lparr> tx_chain = chainLower, tx_to = or_empty recipient,
                                      tx_amount = numericAmount,
                                      tx_encryptedPrivateKey = or_empty encryptedPrivateKey,
                                      tx_tokenAddress = tokenAddress,
                                      tx_privateKey = None \<rparr>
                    in (case sendTx wenv txParams of
                          Inl e \<Rightarrow> (Failure 500 ''Transaction failed'' NoDetail, db, [txParams])
                        | Inr txResult \<Rightarrow>
                            let newBalance = js_sub (platformFeeBalance u) feeAmount in
                            if js_isNaN newBalance
                            then (Failure 500 ''Transaction failed'' NoDetail, db, [txParams])
                            else
                              let u' = u \<lparr> platformFeeBalance := newBalance \<rparr>
                              in (Success 200 ''Transaction sent successfully''
                                    \<lparr> transaction = txResult, platformFee = feeAmount,
                                      remainingBalance = platformFeeBalance u' \<rparr>,
                                  save u' db, [txParams]))))"

text \<open>\<open>validateTransactionParams\<close> and \<open>sendTransaction\<close> of utils/sendTx. The address
  checks (\<open>ethers.utils.isAddress\<close> and the two regular expressions) and the three chain
  adapters, which take the decrypted key, are parameters. The validation runs on the
  parameters as passed, before the key is decrypted.\<close>

record address_checks =
  isAddress :: "string \<Rightarrow> bool"
  bitcoinAddressPattern :: "string \<Rightarrow> bool"
  tronAddressPattern :: "string \<Rightarrow> bool"

record 'r chain_adapters =
  sendEthTransaction :: "string \<Rightarrow> tx_params \<Rightarrow> utf16 \<Rightarrow> error + 'r"
  sendBitcoinTransaction' :: "tx_params \<Rightarrow> utf16 \<Rightarrow> error + 'r"
  sendTronTransaction :: "tx_params \<Rightarrow> utf16 \<Rightarrow> error + 'r"

definition validateTransactionParams :: "address_checks \<Rightarrow> tx_params \<Rightarrow> bool \<times> string list" where
  "validateTransactionParams checks params =
     (let errors =
            (if tx_chain params = [] then [''Chain is required''] else [])
          @ (if tx_to params = [] then [''Recipient address is required''] else [])
          @ (if js_falsy (tx_amount params) \<or> js_le (tx_amount params) (Finite 0)
             then [''Amount must be greater than 0''] else [])
          @ (if \<not> truthy (tx_privateKey params) then [''Private key is required''] else [])
          @ (if tx_to params = [] then []
             else if toLowerCase (tx_chain params) \<in> set [''ethereum'', ''bsc'', ''polygon'']
             then (if \<not> isAddress checks (tx_to params)
                   then [''Invalid Ethereum-compatible address''] else [])
             else if toLowerCase (tx_chain params) = ''bitcoin''
             then (if \<not> bitcoinAddressPattern checks (tx_to params)
                   then [''Invalid Bitcoin address''] else [])
             else if toLowerCase (tx_chain params) = ''tron''
             then (if \<not> tronAddressPattern checks (tx_to params)
                   then [''Invalid Tron address''] else [])
             else [])
      in (length errors = 0, errors))"

definition sendTransaction ::
  "address_checks \<Rightarrow> crypto_lib \<Rightarrow> string option \<Rightarrow> 'r chain_adapters \<Rightarrow> tx_params \<Rightarrow> error + 'r" where
  "sendTransaction checks lib encryptionKey adapters params =
     rethrow ''Transaction failed: ''
       (let validation = validateTransactionParams checks params in
        if \<not> fst validation
        then Inl (Error (''Validation failed: '' @ join '', '' (snd validation)))
        else
          and_then (decrypt lib encryptionKey (Some (tx_encryptedPrivateKey params))) (\<lambda>privateKey'.
            let c = toLowerCase (tx_chain params) in
            if c \<in> set [''ethereum'', ''eth''] then sendEthTransaction adapters ''ethereum'' params privateKey'
            else if c \<in> set [''bsc'', ''bnb''] then sendEthTransaction adapters ''bsc'' params privateKey'
            else if c \<in> set [''polygon'', ''matic''] then sendEthTransaction adapters ''polygon'' params privateKey'
            else if c \<in> set [''bitcoin'', ''btc''] then sendBitcoinTransaction' adapters params privateKey'
            else if c \<in> set [''tron'', ''trx''] then sendTronTransaction adapters params privateKey'
            else Inl (Error (''Unsupported chain: '' @ tx_chain params))))"

section \<open>Key material generator (utils/generateWallets)\<close>

text \<open>
  The key libraries (\<open>ethers\<close>, \<open>bitcoinjs-lib\<close>, \<open>TronWeb\<close>) and SHA-256 are outside the
  repository. For a private key, \<open>btc_keyPair\<close> gives the P2PKH address, the P2WPKH
  address, the public key and the WIF export, and throws on an invalid key.
  \<open>Buffer.toString('hex')\<close> is written out.
\<close>

record eth_wallet =
  eth_address :: string
  eth_privateKey :: string
  eth_mnemonic :: "string option"
  eth_publicKey :: string

record btc_wallet =
  btc_address :: string
  legacyAddress :: string
  btc_privateKey :: string
  btc_publicKey :: string
  wif :: string

record tron_wallet =
  tron_address :: string
  hexAddress :: string
  tron_privateKey :: string
  base58Address :: string

record key_lib =
  ethers_createRandom :: "rng \<Rightarrow> eth_wallet \<times> rng"
  ethers_fromMnemonic :: "string \<Rightarrow> error + eth_wallet"
  sha256 :: "string \<Rightarrow> bytes"
  btc_keyPair :: "bytes \<Rightarrow> error + (string \<times> string \<times> string \<times> string)"
  tron_fromPrivateKey :: "string \<Rightarrow> error + string"
  tron_toHex :: "string \<Rightarrow> string"

definition hex_digit :: "nat \<Rightarrow> char" where
  "hex_digit n = ''0123456789abcdef'' ! n"

definition hex_encode :: "bytes \<Rightarrow> string" where
  "hex_encode bs = concat (map (\<lambda>b. [hex_digit (unat b div 16), hex_digit (unat b mod 16)]) bs)"

definition generateEthereumWallet :: "key_lib \<Rightarrow> string option \<Rightarrow> rng \<Rightarrow> error + (eth_wallet \<times> rng)" where
  "generateEthereumWallet klib mnemonic g =
     rethrow ''Failed to generate Ethereum wallet: ''
       (and_then (if truthy mnemonic
                  then and_then (ethers_fromMnemonic klib (or_empty mnemonic)) (\<lambda>w. Inr (w, g))
                  else Inr (ethers_createRandom klib g))
          (\<lambda>(wallet, g').
             Inr (wallet \<lparr> eth_mnemonic := (if truthy (eth_mnemonic wallet) then eth_mnemonic wallet
                                             else mnemonic) \<rparr>, g')))"

definition generateBitcoinWallet :: "key_lib \<Rightarrow> string option \<Rightarrow> rng \<Rightarrow> error + (btc_wallet \<times> rng)" where
  "generateBitcoinWallet klib seed g =
     rethrow ''Failed to generate Bitcoin wallet: ''
       (let (privateKeyBuffer, g') = (if truthy seed then (sha256 klib (or_empty seed), g)
                                      else randomBytes 32 g)
        in and_then (btc_keyPair klib privateKeyBuffer) (\<lambda>(address, bech32Address, publicKey, wif').
             Inr (\<lparr> btc_address = bech32Address, legacyAddress = address,
                     btc_privateKey = hex_encode privateKeyBuffer, btc_publicKey = publicKey,
                     wif = wif' \<rparr>, g')))"

definition generateTronWallet :: "key_lib \<Rightarrow> string option \<Rightarrow> rng \<Rightarrow> error + (tron_wallet \<times> rng)" where
  "generateTronWallet klib seed g =
     rethrow ''Failed to generate Tron wallet: ''
       (let (privateKey', g') = (if truthy seed then (hex_encode (sha256 klib (or_empty seed)), g)
                                 else (hex_encode (fst (randomBytes 32 g)), snd (randomBytes 32 g)))
        in and_then (tron_fromPrivateKey klib privateKey') (\<lambda>address.
             Inr (\<lparr> tron_address = address, hexAddress = tron_toHex klib address,
                     tron_privateKey = privateKey', base58Address = address \<rparr>, g')))"

text \<open>\<open>generateAllWallets\<close>: the six calls of \<open>encrypt\<close> run in the order of the object
  literal.\<close>

definition generateAllWallets ::
  "key_lib \<Rightarrow> crypto_lib \<Rightarrow> string option \<Rightarrow> string option \<Rightarrow> rng
     \<Rightarrow> error + ((user_wallets \<times> string) \<times> rng)" where
  "generateAllWallets klib lib encryptionKey masterSeed g =
     rethrow ''Failed to generate wallets: ''
       (let (seed, g0) = (if truthy masterSeed then (or_empty masterSeed, g)
                          else (hex_encode (fst (randomBytes 64 g)), snd (randomBytes 64 g)))
        in and_then (generateEthereumWallet klib None g0) (\<lambda>(ethWallet, g1).
           and_then (generateBitcoinWallet klib (Some (seed @ ''_btc'')) g1) (\<lambda>(btcWallet, g2).
           and_then (generateTronWallet klib (Some (seed @ ''_tron'')) g2) (\<lambda>(tronWallet, g3).
           and_then (encrypt lib encryptionKey (Some (units (eth_privateKey ethWallet))) g3) (\<lambda>(ethKey, g4).
           and_then (encrypt lib encryptionKey (map_option units (eth_mnemonic ethWallet)) g4) (\<lambda>(ethSeed, g5).
           and_then (encrypt lib encryptionKey (Some (units (btc_privateKey btcWallet))) g5) (\<lambda>(btcKey, g6).
           and_then (encrypt lib encryptionKey (Some (units (seed @ ''_btc''))) g6) (\<lambda>(btcSeed, g7).
           and_then (encrypt lib encryptionKey (Some (units (tron_privateKey tronWallet))) g7) (\<lambda>(tronKey, g8).
           and_then (encrypt lib encryptionKey (Some (units (seed @ ''_tron''))) g8) (\<lambda>(tronSeed, g9).
             Inr ((\<lparr> ethereum =
                        [(''address'', eth_address ethWallet),
                         (''encryptedPrivateKey'', ethKey),
                         (''encryptedSeed'', ethSeed),
                         (''publicKey'', eth_publicKey ethWallet)],
                      bitcoin =
                        [(''address'', btc_address btcWallet),
                         (''legacyAddress'', legacyAddress btcWallet),
                         (''encryptedPrivateKey'', btcKey),
                         (''encryptedSeed'', btcSeed),
                         (''publicKey'', btc_publicKey btcWallet),
                         (''wif'', wif btcWallet)],
                      tron =
                        [(''address'', tron_address tronWallet),
                         (''hexAddress'', hexAddress tronWallet),
                         (''encryptedPrivateKey'', tronKey),
                         (''encryptedSeed'', tronSeed)] \<rparr>,
                   seed), g9)))))))))))"

section \<open>Registration (controllers/authController)\<close>

text \<open>
  \<open>new User({...})\<close> casts its argument to the schema: a path the schema does not declare
  is dropped (Mongoose's strict mode, the default, which \<open>userSchema\<close> does not change).
  The schema declares \<open>address\<close>, \<open>encryptedPrivateKey\<close> and \<open>encryptedSeed\<close> for each
  wallet and \<open>deviceId\<close>, \<open>platform\<close>, \<open>model\<close>, \<open>version\<close> and \<open>fingerprint\<close> for the
  device. The \<open>username\<close> path has \<open>trim: true\<close>: Mongoose trims the value it stores and
  also the value of a query condition on that path.
\<close>

definition wallet_paths :: "string list" where
  "wallet_paths = [''address'', ''encryptedPrivateKey'', ''encryptedSeed'']"

definition castWallet :: "js_object \<Rightarrow> js_object" where
  "castWallet obj = filter (\<lambda>(name, v). name \<in> set wallet_paths) obj"

definition castWallets :: "user_wallets \<Rightarrow> user_wallets" where
  "castWallets w = \<lparr> ethereum = castWallet (ethereum w), bitcoin = castWallet (bitcoin w),
                     tron = castWallet (tron w) \<rparr>"

definition castDeviceInfo :: "device_info \<Rightarrow> device_info" where
  "castDeviceInfo d = d \<lparr> userAgent := None, screenResolution := None, timezone := None,
                          language := None \<rparr>"

text \<open>\<open>user.save()\<close> of a new document runs the schema validators and then the pre-save
  hook. The validators: \<open>username\<close>, \<open>securityCodeHash\<close>, \<open>hashKeyHash\<close>,
  \<open>deviceInfo.deviceId\<close> and \<open>twoFactorSecret\<close> are required (a required string is present
  and not empty), and \<open>username\<close> has 3 to 50 characters. The hook hashes a credential
  unless it starts with \<open>$2b$\<close>.\<close>

definition hash_unless_hashed :: "auth_env \<Rightarrow> string option \<Rightarrow> string option" where
  "hash_unless_hashed env v =
     (case v of None \<Rightarrow> None
      | Some s \<Rightarrow> if startsWith s ''$2b$'' then Some s else Some (bcrypt_hash env s))"

definition validators_pass :: "user \<Rightarrow> bool" where
  "validators_pass doc =
     (username doc \<noteq> [] \<and> 3 \<le> length (username doc) \<and> length (username doc) \<le> 50
      \<and> truthy (securityCodeHash doc) \<and> truthy (hashKeyHash doc)
      \<and> truthy (deviceId (deviceInfo doc)) \<and> truthy (twoFactorSecret doc))"

definition save_new :: "auth_env \<Rightarrow> user \<Rightarrow> user list \<Rightarrow> error + (user \<times> user list)" where
  "save_new env doc db =
     (if \<not> validators_pass doc
      then Inl (Error ''User validation failed'')
      else (let doc' = doc \<lparr> securityCodeHash := hash_unless_hashed env (securityCodeHash doc),
                              hashKeyHash := hash_unless_hashed env (hashKeyHash doc),
                              createdAt := now env \<rparr>
            in Inr (doc', db @ [doc'])))"

record register_data =
  reg_id :: nat
  reg_username :: utf16
  reg_walletAddresses :: "(string \<times> string option) list"
  reg_twoFactorEnabled :: bool
  reg_isActive :: bool
  reg_createdAt :: nat
  reg_token :: string
  reg_qrCodeUrl :: string
  reg_manualEntryKey :: string

definition register ::
  "auth_env \<Rightarrow> key_lib \<Rightarrow> crypto_lib \<Rightarrow> string option \<Rightarrow> user list \<Rightarrow> rng
     \<Rightarrow> utf16 option \<Rightarrow> string option \<Rightarrow> string option \<Rightarrow> device_info option
     \<Rightarrow> register_data response \<times> user list \<times> rng" where
  "register env klib lib encryptionKey db g username' securityCode hashKey deviceInfo' =
     (case deviceInfo' of
        None \<Rightarrow> (Failure 400 ''Username, security code, hash key, and device info are required'' NoDetail, db, g)
      | Some d \<Rightarrow>
        if \<not> truthy username' \<or> \<not> truthy securityCode \<or> \<not> truthy hashKey
        then (Failure 400 ''Username, security code, hash key, and device info are required'' NoDetail, db, g)
        else if \<not> fst (validateDeviceInfo (Some d))
        then (Failure 400 ''Invalid device info'' (Errors (snd (validateDeviceInfo (Some d)))), db, g)
        else if find (\<lambda>u. username u = trim (or_empty username')) db \<noteq> None
        then (Failure 409 ''Username already exists'' NoDetail, db, g)
        else
          let normalizedDeviceInfo = normalizeDeviceInfo env d;
              (twoFactorSecret', g1) = generateSecret env g
          in (case generateAllWallets klib lib encryptionKey None g1 of
                Inl e \<Rightarrow> (Failure 500 ''Registration failed'' NoDetail, db, g1)
              | Inr ((wallets', masterSeed), g2) \<Rightarrow>
                 let doc = \<lparr> user_id = newObjectId env, username = trim (or_empty username'),
                             securityCodeHash = securityCode, hashKeyHash = hashKey,
                             deviceInfo = castDeviceInfo normalizedDeviceInfo,
                             newDeviceFound = False, pendingDeviceInfo = None,
                             twoFactorSecret = Some twoFactorSecret', twoFactorEnabled = True,
                             wallets = castWallets wallets',
                             platformFeeBalance = Finite 0, isActive = True, isLocked = False,
                             lockReason = None, lastLogin = None,
                             lastTwoFactorVerification = None, createdAt = 0 \<rparr>
                 in (case save_new env doc db of
                       Inl e \<Rightarrow> (Failure 500 ''Registration failed'' NoDetail, db, g2)
                     | Inr (u, db') \<Rightarrow>
                        (case toDataURL env (keyuri env (or_empty username') ''CryptoWallet'' twoFactorSecret') of
                           Inl e \<Rightarrow> (Failure 500 ''Registration failed'' NoDetail, db', g2)
                         | Inr qr \<Rightarrow>
                            (Success 201 ''User registered successfully''
                               \<lparr> reg_id = user_id u, reg_username = username u,
                                 reg_walletAddresses =
                                   [(''ethereum'', field (ethereum (wallets u)) ''address''),
                                    (''bitcoin'', field (bitcoin (wallets u)) ''address''),
                                    (''tron'', field (tron (wallets u)) ''address'')],
                                 reg_twoFactorEnabled = twoFactorEnabled u,
                                 reg_isActive = isActive u, reg_createdAt = createdAt u,
                                 reg_token = jwt_sign env (user_id u),
                                 reg_qrCodeUrl = qr, reg_manualEntryKey = twoFactorSecret' \<rparr>,
                             db', g2)))))"

text \<open>The shape of an \<open>EncryptedBlob\<close>: the base64 of a 64-byte salt, a 16-byte IV, a
  16-byte tag and the ciphertext.\<close>

definition blob_shaped :: "crypto_lib \<Rightarrow> string \<Rightarrow> bool" where
  "blob_shaped lib s =
     (\<exists>salt iv authTag encrypted. length salt = 64 \<and> length iv = 16 \<and> length authTag = 16
        \<and> s = base64_encode lib (salt @ iv @ authTag @ encrypted))"

text \<open>A stored blob enciphers a secret: it is what a call of \<open>encrypt\<close> on the secret
  returned, it has the shape of an \<open>EncryptedBlob\<close>, and \<open>decrypt\<close> gives the secret
  back.\<close>

definition enciphers :: "crypto_lib \<Rightarrow> string option \<Rightarrow> string \<Rightarrow> string \<Rightarrow> bool" where
  "enciphers lib encryptionKey secret blob =
     ((\<exists>g g'. encrypt lib encryptionKey (Some (units secret)) g = Inr (blob, g'))
      \<and> blob_shaped lib blob
      \<and> decrypt lib encryptionKey (Some blob) = Inr (units secret))"

text \<open>What the theorem on registration assumes of the key libraries: the addresses they
  return are not empty.\<close>

definition nonempty_addresses :: "key_lib \<Rightarrow> bool" where
  "nonempty_addresses klib =
     ((\<forall>g. eth_address (fst (ethers_createRandom klib g)) \<noteq> [])
      \<and> (\<forall>k a b p w. btc_keyPair klib k = Inr (a, b, p, w) \<longrightarrow> b \<noteq> [])
      \<and> (\<forall>k a. tron_fromPrivateKey klib k = Inr a \<longrightarrow> a \<noteq> []))"

section \<open>Concrete accounts and libraries\<close>

text \<open>Stand-ins for the libraries, two accounts and a request, used for the concrete
  instances of the theorems. The stand-in authenticator accepts the reversed secret as the
  code and throws on an undefined secret, as \<open>otplib\<close> does when it decodes it. The stand-in
  \<open>parseFloat\<close> knows a few decimal strings and returns the double nearest to each.\<close>

definition sample_auth_env :: auth_env where
  "sample_auth_env =
     \<lparr> bcrypt_compare = (\<lambda>plain h. h = ''$2b$'' @ plain),
       bcrypt_hash = (\<lambda>plain. ''$2b$'' @ plain),
       authenticator_verify = (\<lambda>tok secret. case secret of
            None \<Rightarrow> Inl (Error ''The first argument must be of type string or Buffer'')
          | Some s \<Rightarrow> Inr (tok = rev s)),
       generateSecret = (\<lambda>g. (''NEWSECRET'', g)),
       keyuri = (\<lambda>account service secret. ''otpauth://totp/'' @ service @ ''?secret='' @ secret),
       toDataURL = (\<lambda>s. Inr (''data:image/png;'' @ s)),
       jwt_sign = (\<lambda>i. ''jwt-'' @ replicate i CHR ''x''),
       jwt_verify = (\<lambda>t. if take 4 t = ''jwt-'' then Inr (length t - 4) else Inl (Error ''JsonWebTokenError'')),
       sha256_hex = (\<lambda>s. units ''sha256:'' @ s),
       now = 1000,
       newObjectId = 7 \<rparr>"

definition stored_wallet :: "string \<Rightarrow> js_object" where
  "stored_wallet a = [(''address'', a),
                      (''encryptedPrivateKey'', ''blob-key-'' @ a),
                      (''encryptedSeed'', ''blob-seed-'' @ a)]"

definition alice :: user where
  "alice = \<lparr> user_id = 1, username = units ''alice'',
             securityCodeHash = Some ''$2b$code-a'', hashKeyHash = Some ''$2b$key-a'',
             deviceInfo = phone, newDeviceFound = False, pendingDeviceInfo = None,
             twoFactorSecret = Some ''SECRET'', twoFactorEnabled = True,
             wallets = \<lparr> ethereum = stored_wallet ''0xA1'', bitcoin = stored_wallet ''bc1qa1'',
                         tron = stored_wallet ''TA1'' \<rparr>,
             platformFeeBalance = Finite 1, isActive = True, isLocked = False, lockReason = None,
             lastLogin = None, lastTwoFactorVerification = None, createdAt = 10 \<rparr>"

definition bob :: user where
  "bob = alice \<lparr> user_id := 2, username := units ''bob'',
                 securityCodeHash := Some ''$2b$code-b'', hashKeyHash := Some ''$2b$key-b'' \<rparr>"

definition other_phone :: device_info where
  "other_phone = phone \<lparr> deviceId := Some (units ''device-9876543210'') \<rparr>"

definition sample_wallet_env :: "string wallet_env" where
  "sample_wallet_env =
     \<lparr> parseFloat = (\<lambda>s. if s = ''2000'' then Finite 2000 else if s = ''9'' then Finite 9
                          else if s = ''5'' then Finite 5 else NaN),
       PLATFORM_FEE_PERCENTAGE = None,
       sendTx = (\<lambda>p. Inr (''0xhash-'' @ tx_to p)) \<rparr>"

text \<open>An account holding 0.009 fee tokens; and a configuration with a fee of 3 percent.\<close>

definition carol :: user where
  "carol = alice \<lparr> user_id := 3, username := units ''carol'',
                     platformFeeBalance := round_double (9 / 1000) \<rparr>"

definition percent_env :: "string wallet_env" where
  "percent_env =
     \<lparr> parseFloat = (\<lambda>s. if s = ''3'' then Finite 3
                          else if s = ''166.66666666666669''
                          then Finite (2932031007402667 / 17592186044416) else NaN),
       PLATFORM_FEE_PERCENTAGE = Some ''3'',
       sendTx = (\<lambda>p. Inr (''0xhash-'' @ tx_to p)) \<rparr>"

definition sample_key_lib :: key_lib where
  "sample_key_lib =
     \<lparr> ethers_createRandom = (\<lambda>g. (\<lparr> eth_address = ''0xA11CE'', eth_privateKey = ''0x5ec2e7'',
                                       eth_mnemonic = Some ''abandon ability able'',
                                       eth_publicKey = ''0x04ab'' \<rparr>, g)),
       ethers_fromMnemonic = (\<lambda>m. Inl (Error ''invalid mnemonic'')),
       sha256 = (\<lambda>s. map byte_of_char (take 4 s)),
       btc_keyPair = (\<lambda>k. Inr (''1Legacy'', ''bc1qsegwit'', ''02ab'', ''Kx5ec2e7'')),
       tron_fromPrivateKey = (\<lambda>k. Inr ''TTron''),
       tron_toHex = (\<lambda>a. ''41'' @ a) \<rparr>"

chapter \<open>Verified properties\<close>

section \<open>The arithmetic of doubles\<close>

lemma floor_log2_spec:
  assumes "0 < a"
  shows "2 powi (floor_log2 a) \<le> a \<and> a < 2 powi (floor_log2 a + 1)"
proof -
  obtain n d where nd: "quotient_of a = (n, d)" by (cases "quotient_of a")
  have d: "0 < d" using quotient_of_denom_pos[OF nd] .
  have a: "a = of_int n / of_int d" using quotient_of_div[OF nd] .
  have n: "0 < n" using assms d unfolding a by (simp add: zero_less_divide_iff)
  define bn where "bn = floorlog 2 (nat n)"
  define bd where "bd = floorlog 2 (nat d)"
  have bn: "2 ^ (bn - 1) \<le> nat n" "nat n < 2 ^ bn"
    using floorlog_bounds[of "nat n" 2] n unfolding bn_def by auto
  have bd: "2 ^ (bd - 1) \<le> nat d" "nat d < 2 ^ bd"
    using floorlog_bounds[of "nat d" 2] d unfolding bd_def by auto
  have bn0: "0 < bn" and bd0: "0 < bd"
    using n d unfolding bn_def bd_def by (simp_all add: floorlog_eq_zero_iff Suc_le_eq flip: neq0_conv)
  have nr: "(2::rat) ^ (bn - 1) \<le> of_int n" "of_int n < (2::rat) ^ bn"
  proof -
    have "(of_nat (2 ^ (bn - 1)) :: rat) \<le> of_nat (nat n)" using bn(1) by (simp only: of_nat_le_iff)
    then show "(2::rat) ^ (bn - 1) \<le> of_int n" using n by simp
    have "(of_nat (nat n) :: rat) < of_nat (2 ^ bn)" using bn(2) by (simp only: of_nat_less_iff)
    then show "of_int n < (2::rat) ^ bn" using n by simp
  qed
  have dr: "(2::rat) ^ (bd - 1) \<le> of_int d" "of_int d < (2::rat) ^ bd"
  proof -
    have "(of_nat (2 ^ (bd - 1)) :: rat) \<le> of_nat (nat d)" using bd(1) by (simp only: of_nat_le_iff)
    then show "(2::rat) ^ (bd - 1) \<le> of_int d" using d by simp
    have "(of_nat (nat d) :: rat) < of_nat (2 ^ bd)" using bd(2) by (simp only: of_nat_less_iff)
    then show "of_int d < (2::rat) ^ bd" using d by simp
  qed
  define k where "k = int bn - int bd"
  have fl: "floor_log2 a = (if 2 powi k \<le> a then k else k - 1)"
    by (simp add: floor_log2_def nd bn_def bd_def k_def Let_def)
  have dpos: "(0::rat) < of_int d" using d by simp
  have pk1: "(2::rat) powi (k + 1) = 2 ^ bn / 2 ^ (bd - 1)"
  proof -
    have "k + 1 = int bn - int (bd - 1)" using bd0 unfolding k_def by simp
    then show ?thesis by (simp add: power_int_diff)
  qed
  have pkm: "(2::rat) powi (k - 1) = 2 ^ (bn - 1) / 2 ^ bd"
  proof -
    have "k - 1 = int (bn - 1) - int bd" using bn0 unfolding k_def by simp
    then show ?thesis by (simp add: power_int_diff)
  qed
  have up: "a < 2 powi (k + 1)"
  proof -
    have "of_int n / of_int d < (2::rat) ^ bn / of_int d"
      using nr(2) dpos by (simp add: divide_strict_right_mono)
    also have "\<dots> \<le> 2 ^ bn / 2 ^ (bd - 1)"
      using dr(1) by (simp add: frac_le)
    finally show ?thesis unfolding a pk1 .
  qed
  have lo: "2 powi (k - 1) \<le> a"
  proof -
    have "(2::rat) ^ (bn - 1) / 2 ^ bd \<le> of_int n / 2 ^ bd"
      using nr(1) by (simp add: divide_right_mono)
    also have "\<dots> \<le> of_int n / of_int d"
      using dr(2) dpos n by (simp add: frac_le)
    finally show ?thesis unfolding a pkm .
  qed
  show ?thesis
  proof (cases "2 powi k \<le> a")
    case True
    then show ?thesis using up fl by simp
  next
    case False
    then show ?thesis using lo fl by simp
  qed
qed

lemma floor_log2_unique:
  assumes "2 powi k \<le> a" "a < 2 powi (k + 1)"
  shows "floor_log2 a = k"
proof -
  have "(0::rat) < 2 powi k" by simp
  then have a: "0 < a" using assms(1) by linarith
  from floor_log2_spec[OF a] have s: "2 powi (floor_log2 a) \<le> a" "a < 2 powi (floor_log2 a + 1)" by auto
  have 1: "k < floor_log2 a + 1"
  proof (rule ccontr)
    assume "\<not> k < floor_log2 a + 1"
    then have "(2::rat) powi (floor_log2 a + 1) \<le> 2 powi k" by (intro power_int_increasing) simp_all
    then show False using assms(1) s(2) by linarith
  qed
  have 2: "floor_log2 a < k + 1"
  proof (rule ccontr)
    assume "\<not> floor_log2 a < k + 1"
    then have "(2::rat) powi (k + 1) \<le> 2 powi (floor_log2 a)" by (intro power_int_increasing) simp_all
    then show False using assms(2) s(1) by linarith
  qed
  from 1 2 show ?thesis by simp
qed

text \<open>Rounding a given number: once the binade \<open>k\<close> is known, the rest is arithmetic.\<close>

lemma round_double_eval:
  assumes "q \<noteq> 0" "2 powi k \<le> \<bar>q\<bar>" "\<bar>q\<bar> < 2 powi (k + 1)"
  shows "round_double q =
     (let e = max (k - 52) (- 1074);
          r = of_int (round_half_even (\<bar>q\<bar> / 2 powi e)) * 2 powi e
      in if 2 powi 1024 \<le> r then (if 0 < q then PosInfinity else NegInfinity)
         else Finite (sgn q * r))"
  using assms(1) floor_log2_unique[OF assms(2,3)] by (simp add: round_double_def)

lemma floor_rat_numeral: "\<lfloor>(numeral a :: rat) / numeral b\<rfloor> = numeral a div numeral b"
  using floor_divide_of_int_eq[of "numeral a" "numeral b", where ?'a = rat] by simp

lemmas double_eval = round_half_even_def Let_def floor_rat_numeral

lemma round_half_even_of_int: "round_half_even (of_int i) = i"
  by (simp add: round_half_even_def)

text \<open>An integer of magnitude at most \<open>2 ^ 53\<close> is a double: rounding leaves it alone, and
  the arithmetic of doubles is exact on such integers.\<close>

lemma round_double_int:
  assumes "\<bar>z\<bar> \<le> 2 ^ 53"
  shows "round_double (of_int z) = Finite (of_int z)"
proof (cases "z = 0")
  case True
  then show ?thesis by (simp add: round_double_def)
next
  case False
  define a :: rat where "a = \<bar>of_int z\<bar>"
  have a1: "1 \<le> a" using False unfolding a_def by (simp flip: of_int_abs)
  have a53: "a \<le> 2 ^ 53"
  proof -
    have "(of_int \<bar>z\<bar> :: rat) \<le> of_int (2 ^ 53)" using assms by (simp only: of_int_le_iff)
    then show ?thesis unfolding a_def by simp
  qed
  define fl where "fl = floor_log2 a"
  have s: "2 powi fl \<le> a" "a < 2 powi (fl + 1)"
    using floor_log2_spec[of a] a1 unfolding fl_def by auto
  have fl0: "0 \<le> fl"
  proof (rule ccontr)
    assume "\<not> 0 \<le> fl"
    then have "(2::rat) powi (fl + 1) \<le> 2 powi 0" by (intro power_int_increasing) simp_all
    then show False using s(2) a1 by simp
  qed
  have fl53: "fl \<le> 53"
  proof (rule ccontr)
    assume "\<not> fl \<le> 53"
    then have "(2::rat) powi 54 \<le> 2 powi fl" by (intro power_int_increasing) simp_all
    then show False using s(1) a53 by simp
  qed
  define e where "e = max (fl - 52) (- 1074)"
  have e: "e = fl - 52" using fl0 unfolding e_def by simp
  have ex: "\<exists>i. a / 2 powi e = of_int i"
  proof (cases "fl = 53")
    case True
    then have "(2::rat) ^ 53 \<le> a" using s(1) by simp
    then have "a = 2 ^ 53" using a53 by simp
    then have "a / 2 powi e = of_int (2 ^ 52)" using True e by simp
    then show ?thesis by blast
  next
    case False
    then have le: "e \<le> 0" using fl53 e by simp
    have "a / 2 powi e = a * 2 powi (- e)" by (simp add: power_int_minus field_simps)
    also have "\<dots> = a * 2 ^ nat (- e)" using le by (simp add: power_int_def)
    also have "\<dots> = of_int (\<bar>z\<bar> * 2 ^ nat (- e))" unfolding a_def by simp
    finally show ?thesis by blast
  qed
  then obtain i where i: "a / 2 powi e = of_int i" by blast
  have r: "of_int (round_half_even (a / 2 powi e)) * 2 powi e = a"
    unfolding i round_half_even_of_int unfolding i[symmetric] by simp
  have big: "\<not> (2::rat) powi 1024 \<le> a" using a53 by simp
  have nz: "(of_int z :: rat) \<noteq> 0" using False by simp
  have "sgn (of_int z :: rat) * a = of_int z" unfolding a_def by (simp add: sgn_mult_abs)
  then show ?thesis
    using nz r big
    by (simp add: round_double_def Let_def a_def[symmetric] fl_def[symmetric] e_def[symmetric])
qed

lemma js_add_int:
  "\<bar>x + y\<bar> \<le> 2 ^ 53 \<Longrightarrow> js_add (Finite (of_int x)) (Finite (of_int y)) = Finite (of_int (x + y))"
  using round_double_int[of "x + y"] by simp

lemma js_sub_int:
  "\<bar>x - y\<bar> \<le> 2 ^ 53 \<Longrightarrow> js_sub (Finite (of_int x)) (Finite (of_int y)) = Finite (of_int (x - y))"
  using round_double_int[of "x - y"] by (simp add: js_sub_def)

lemma js_mul_int:
  "\<bar>x * y\<bar> \<le> 2 ^ 53 \<Longrightarrow> js_mul (Finite (of_int x)) (Finite (of_int y)) = Finite (of_int (x * y))"
  using round_double_int[of "x * y"] by simp

lemma js_lt_int: "js_lt (Finite (of_int x)) (Finite (of_int y)) = (x < y)"
  by simp

lemma js_le_int: "js_le (Finite (of_int x)) (Finite (of_int y)) = (x \<le> y)"
  by (auto simp: js_le_def)

text \<open>The doubles of the decimal literals used below, and the products the program forms
  with them.\<close>

lemma double_0_0006: "round_double (6 / 10000) = Finite (5534023222112865 / 9223372036854775808)"
  by (subst round_double_eval[where k = "- 11"]) (simp_all add: double_eval)

lemma satoshis_0_0006:
  "js_floor (js_mul (round_double (6 / 10000)) (Finite 100000000)) = Finite (of_int 59999)"
  unfolding double_0_0006
  by (simp, subst round_double_eval[where k = "15"]) (simp_all add: double_eval)

lemma double_0_00097: "round_double (97 / 100000) = Finite (8946670875749133 / 9223372036854775808)"
  by (subst round_double_eval[where k = "- 11"]) (simp_all add: double_eval)

lemma satoshis_0_00097:
  "js_floor (js_mul (round_double (97 / 100000)) (Finite 100000000)) = Finite (of_int 97000)"
  unfolding double_0_00097
  by (simp, subst round_double_eval[where k = "16"]) (simp_all add: double_eval)

lemma double_0_1: "round_double (1 / 10) = Finite (3602879701896397 / 36028797018963968)"
  by (subst round_double_eval[where k = "- 4"]) (simp_all add: double_eval)

lemma double_0_001: "js_div (round_double (1 / 10)) (Finite 100) = Finite (1152921504606847 / 1152921504606846976)"
  unfolding double_0_1
  by (simp, subst round_double_eval[where k = "- 10"]) (simp_all add: double_eval)

lemma double_0_009: "round_double (9 / 1000) = Finite (5188146770730811 / 576460752303423488)"
  by (subst round_double_eval[where k = "- 7"]) (simp_all add: double_eval)

lemma fee_of_9:
  "js_mul (Finite 9) (Finite (1152921504606847 / 1152921504606846976))
     = Finite (1297036692682703 / 144115188075855872)"
  by (simp, subst round_double_eval[where k = "- 7"]) (simp_all add: double_eval)

lemma fee_of_2000:
  "js_mul (Finite 2000) (Finite (1152921504606847 / 1152921504606846976)) = Finite 2"
  by (simp, subst round_double_eval[where k = "1"]) (simp_all add: double_eval)

section \<open>Strings\<close>

lemma unat_of_char16: "unat (of_char c :: code_unit) = of_char c"
proof -
  have lt: "(of_char c :: nat) < 256" by simp
  have "(of_char c :: code_unit) = word_of_nat (of_char c)" by (simp only: of_nat_of_char)
  then have "unat (of_char c :: code_unit) = of_char c mod 2 ^ LENGTH(16)"
    by (simp only: unat_of_nat)
  then show ?thesis using lt by simp
qed

lemma units_eq_iff: "(units s = units t) = (s = t)"
proof
  assume "units s = units t"
  then have "map unat (units s) = map unat (units t)" by simp
  then have "map (of_char :: char \<Rightarrow> nat) s = map of_char t"
    by (simp add: units_def comp_def unat_of_char16)
  then show "s = t" by (simp add: inj_map_eq_map[OF inj_of_char])
qed simp

lemma not_surrogate_of_char: "\<not> is_high (of_char c)" "\<not> is_low (of_char c)"
proof -
  have "(of_char c :: nat) < 256" by simp
  then have "unat (of_char c :: code_unit) < 256" by (simp only: unat_of_char16)
  then show "\<not> is_high (of_char c)" "\<not> is_low (of_char c)"
    by (simp_all add: is_high_def is_low_def word_le_nat_alt)
qed

lemma well_formed_no_surrogate:
  "\<forall>u \<in> set us. \<not> is_high u \<and> \<not> is_low u \<Longrightarrow> well_formed us"
  by (induction us rule: well_formed.induct) simp_all

lemma well_formed_units: "well_formed (units s)"
  by (rule well_formed_no_surrogate) (auto simp: units_def not_surrogate_of_char)

section \<open>Risk classification of a device change\<close>

text \<open>
  C6, as stated: every differing field among deviceId, platform, model and fingerprint
  contributes one reason. This fails on the code: the model check is guarded by both
  models being truthy, so two descriptors that differ only in that one has no model
  produce no reason at all and are classified low risk, not suspicious.
\<close>

theorem C6_counterexample:
  "model phone \<noteq> model phone_no_model
   \<and> reasons (analyzeDeviceChange (Some phone) (Some phone_no_model)) = []
   \<and> riskLevel (analyzeDeviceChange (Some phone) (Some phone_no_model)) = Some Low
   \<and> \<not> isSuspicious (analyzeDeviceChange (Some phone) (Some phone_no_model))"
  by (simp add: analyzeDeviceChange_def phone_def phone_no_model_def truthy_def)

text \<open>
  C6, amended: for two present descriptors the reasons are, in order, one for a differing
  deviceId, one for a differing platform, one for a differing model provided both models
  are present and non-empty, and one for a differing fingerprint; each is decided
  independently of the others. The risk level is high exactly when there are two or more
  reasons, medium at exactly one and low at none, and the change is suspicious exactly
  when there is a reason.
\<close>

theorem C6_classify_amended:
  "reasons (analyzeDeviceChange (Some old) (Some new)) =
       (if deviceId old \<noteq> deviceId new then [''Device ID changed completely''] else [])
     @ (if platform old \<noteq> platform new then [''Platform changed''] else [])
     @ (if truthy (model old) \<and> truthy (model new) \<and> model old \<noteq> model new
        then [''Device model changed''] else [])
     @ (if fingerprint old \<noteq> fingerprint new then [''Device fingerprint changed''] else [])
   \<and> (riskLevel (analyzeDeviceChange (Some old) (Some new)) = Some High)
       = (length (reasons (analyzeDeviceChange (Some old) (Some new))) \<ge> 2)
   \<and> (riskLevel (analyzeDeviceChange (Some old) (Some new)) = Some Medium)
       = (length (reasons (analyzeDeviceChange (Some old) (Some new))) = 1)
   \<and> (riskLevel (analyzeDeviceChange (Some old) (Some new)) = Some Low)
       = (length (reasons (analyzeDeviceChange (Some old) (Some new))) = 0)
   \<and> isSuspicious (analyzeDeviceChange (Some old) (Some new))
       = (reasons (analyzeDeviceChange (Some old) (Some new)) \<noteq> [])"
  by (simp add: analyzeDeviceChange_def Let_def)

theorem C6_classify_amended_witness:
  "reasons (analyzeDeviceChange (Some phone) (Some (phone \<lparr> platform := Some (units ''android'') \<rparr>)))
     = [''Platform changed'']
   \<and> riskLevel (analyzeDeviceChange (Some phone) (Some (phone \<lparr> platform := Some (units ''android'') \<rparr>)))
     = Some Medium"
  using C6_classify_amended [of phone "phone \<lparr> platform := Some (units ''android'') \<rparr>"]
  by (simp add: phone_def units_eq_iff)

section \<open>Bitcoin: input selection, fee and change\<close>

text \<open>On satoshi amounts whose sums stay within \<open>2 ^ 53\<close> the loop computes with exact
  integers.\<close>

lemma selectUtxos_step:
  assumes "0 \<le> t" "0 \<le> value' u" "t + value' u \<le> 2 ^ 53" "0 \<le> A" "0 \<le> r"
      and "A + (int (length sel + 1) * 148 + 2 * 34 + 10) * r \<le> 2 ^ 53"
  shows "selectUtxos (Finite (of_int A)) (Finite (of_int r)) (u # rest) (Finite (of_int t)) sel =
     (if A + (int (length sel + 1) * 148 + 2 * 34 + 10) * r \<le> t + value' u
      then (Finite (of_int (t + value' u)), sel @ [u])
      else selectUtxos (Finite (of_int A)) (Finite (of_int r)) rest (Finite (of_int (t + value' u))) (sel @ [u]))"
proof -
  let ?c = "int (length sel + 1) * 148 + 2 * 34 + 10"
  have len: "length (sel @ [u]) = length sel + 1" by simp
  have c0: "0 \<le> ?c * r" using assms(5) by simp
  have 1: "js_add (Finite (of_int t)) (Finite (of_int (value' u))) = Finite (of_int (t + value' u))"
    by (rule js_add_int) (use assms in simp)
  have 2: "js_mul (Finite (of_int ?c)) (Finite (of_int r)) = Finite (of_int (?c * r))"
    by (rule js_mul_int) (use assms c0 in simp)
  have 3: "js_add (Finite (of_int A)) (Finite (of_int (?c * r))) = Finite (of_int (A + ?c * r))"
    by (rule js_add_int) (use assms c0 in simp)
  show ?thesis
    by (simp only: selectUtxos.simps Let_def len 1 2 3 js_le_int)
qed

lemma sum_values_nonneg: "\<forall>u \<in> set xs. 0 \<le> value' u \<Longrightarrow> 0 \<le> sum_list (map value' xs)"
  by (induction xs) simp_all

lemma selectUtxos_spec:
  assumes "selectUtxos (Finite (of_int A)) (Finite (of_int r)) rest (Finite (of_int t)) sel = (T, sel')"
      and "t = sum_list (map value' sel)"
      and "\<forall>u \<in> set sel \<union> set rest. 0 \<le> value' u" and "0 \<le> A" and "0 \<le> r"
      and "A + (int (length sel + length rest) * 148 + 2 * 34 + 10) * r
             + (sum_list (map value' sel) + sum_list (map value' rest)) \<le> 2 ^ 53"
  shows "\<exists>j \<le> length rest. sel' = sel @ take j rest \<and> T = Finite (of_int (sum_list (map value' sel')))
     \<and> (\<forall>i. 1 \<le> i \<and> i < j \<longrightarrow> \<not> covers A r (sel @ rest) (length sel + i))
     \<and> ((j \<ge> 1 \<and> covers A r (sel @ rest) (length sel + j)) \<or> j = length rest)"
  using assms
proof (induction rest arbitrary: t sel)
  case Nil
  then show ?case by auto
next
  case (Cons u rest)
  let ?t = "t + value' u"
  let ?sel = "sel @ [u]"
  let ?f = "(int (length sel + 1) * 148 + 2 * 34 + 10) * r"
  let ?F = "(int (length sel + length (u # rest)) * 148 + 2 * 34 + 10) * r"
  have t0: "0 \<le> t" using Cons.prems(2,3) by (simp add: sum_values_nonneg)
  have v0: "0 \<le> value' u" using Cons.prems(3) by simp
  have r0: "0 \<le> sum_list (map value' rest)" using Cons.prems(3) by (simp add: sum_values_nonneg)
  have fF: "?f \<le> ?F" using Cons.prems(5) by (intro mult_right_mono) simp_all
  have f0: "0 \<le> ?f" using Cons.prems(5) by simp
  have F0: "0 \<le> ?F" using Cons.prems(5) by simp
  have rng: "A + ?F + (t + (value' u + sum_list (map value' rest))) \<le> 2 ^ 53"
    using Cons.prems(6) Cons.prems(2) by simp
  have b1: "?t \<le> 2 ^ 53" using rng r0 F0 Cons.prems(4) by linarith
  have b2: "A + ?f \<le> 2 ^ 53" using rng r0 fF t0 v0 by linarith
  note step = selectUtxos_step[OF t0 v0 b1 Cons.prems(4,5) b2, of rest]
  show ?case
  proof (cases "A + ?f \<le> ?t")
    case True
    with Cons.prems(1) step have "T = Finite (of_int ?t)" "sel' = ?sel" by simp_all
    moreover have "covers A r (sel @ u # rest) (length sel + 1)"
      using True Cons.prems(2) by (simp add: covers_def)
    ultimately show ?thesis
      using Cons.prems(2) by (intro exI[of _ 1]) simp
  next
    case False
    with Cons.prems(1) step
    have rec: "selectUtxos (Finite (of_int A)) (Finite (of_int r)) rest (Finite (of_int ?t)) ?sel = (T, sel')"
      by simp
    have sum: "?t = sum_list (map value' ?sel)" using Cons.prems(2) by simp
    have nn: "\<forall>u \<in> set ?sel \<union> set rest. 0 \<le> value' u" using Cons.prems(3) by auto
    have rng': "A + (int (length ?sel + length rest) * 148 + 2 * 34 + 10) * r
             + (sum_list (map value' ?sel) + sum_list (map value' rest)) \<le> 2 ^ 53"
      using Cons.prems(6) by (simp add: algebra_simps)
    from Cons.IH[OF rec sum nn Cons.prems(4,5) rng'] obtain j where j: "j \<le> length rest"
      "sel' = ?sel @ take j rest" "T = Finite (of_int (sum_list (map value' sel')))"
      "\<forall>i. 1 \<le> i \<and> i < j \<longrightarrow> \<not> covers A r (?sel @ rest) (length ?sel + i)"
      "(j \<ge> 1 \<and> covers A r (?sel @ rest) (length ?sel + j)) \<or> j = length rest"
      by blast
    have nc1: "\<not> covers A r (sel @ u # rest) (length sel + 1)"
      using False Cons.prems(2) by (simp add: covers_def)
    have shift: "\<And>i. covers A r (?sel @ rest) (length ?sel + i) = covers A r (sel @ u # rest) (length sel + Suc i)"
      by (simp add: covers_def)
    have "\<forall>i. 1 \<le> i \<and> i < Suc j \<longrightarrow> \<not> covers A r (sel @ u # rest) (length sel + i)"
    proof (intro allI impI)
      fix i assume i: "1 \<le> i \<and> i < Suc j"
      show "\<not> covers A r (sel @ u # rest) (length sel + i)"
      proof (cases "i = 1")
        case True then show ?thesis using nc1 by simp
      next
        case False
        then obtain i' where "i = Suc i'" "1 \<le> i'" "i' < j" using i by (cases i) auto
        then show ?thesis using j(4) shift by auto
      qed
    qed
    moreover have "(Suc j \<ge> 1 \<and> covers A r (sel @ u # rest) (length sel + Suc j)) \<or> Suc j = length (u # rest)"
      using j(5) shift by auto
    ultimately show ?thesis
      using j(1,2,3) by (intro exI[of _ "Suc j"]) simp
  qed
qed

lemma addInputs_fields:
  "addInputs env us = Inr ins \<Longrightarrow>
     map hash ins = map txid us \<and> map index ins = map vout us
     \<and> map witnessValue ins = map value' us"
proof (induction us arbitrary: ins)
  case Nil
  then show ?case by simp
next
  case (Cons u us)
  then show ?case
    by (auto simp: and_then_def split: sum.splits)
qed

lemma addInputs_succeeds:
  "\<forall>u \<in> set us. \<exists>h. getTxHex env (txid u) = Inr h \<Longrightarrow> \<exists>ins. addInputs env us = Inr ins"
  by (induction us) (auto simp: and_then_def)

text \<open>The hypotheses under which the arithmetic of a send is exact: non-negative integer
  amounts, and the amount, the largest fee and the total of the wallet together within
  \<open>2 ^ 53\<close>.\<close>

lemma selectUtxos_top:
  assumes "selectUtxos (Finite (of_int A)) (Finite (of_int r)) xs (Finite 0) [] = (T, sel')"
      and "\<forall>u \<in> set xs. 0 \<le> value' u" and "0 \<le> A" and "0 \<le> r"
      and "A + (int (length xs) * 148 + 2 * 34 + 10) * r + sum_list (map value' xs) \<le> 2 ^ 53"
  shows "\<exists>j \<le> length xs. sel' = take j xs \<and> T = Finite (of_int (sum_list (map value' (take j xs))))
     \<and> (\<forall>i. 1 \<le> i \<and> i < j \<longrightarrow> \<not> covers A r xs i)
     \<and> ((j \<ge> 1 \<and> covers A r xs j) \<or> j = length xs)"
proof -
  have s: "selectUtxos (Finite (of_int A)) (Finite (of_int r)) xs (Finite (of_int 0)) [] = (T, sel')"
    using assms(1) by simp
  from selectUtxos_spec[OF s _ _ assms(3,4)] assms(2,5) show ?thesis by auto
qed

lemma selectUtxos_first_cover:
  assumes k: "1 \<le> k" "k \<le> length xs" "covers A r xs k" "\<forall>i. 1 \<le> i \<and> i < k \<longrightarrow> \<not> covers A r xs i"
      and ex: "\<forall>u \<in> set xs. 0 \<le> value' u" "0 \<le> A" "0 \<le> r"
              "A + (int (length xs) * 148 + 2 * 34 + 10) * r + sum_list (map value' xs) \<le> 2 ^ 53"
  shows "selectUtxos (Finite (of_int A)) (Finite (of_int r)) xs (Finite 0) []
           = (Finite (of_int (sum_list (map value' (take k xs)))), take k xs)"
proof -
  obtain T sel' where eq: "selectUtxos (Finite (of_int A)) (Finite (of_int r)) xs (Finite 0) [] = (T, sel')"
    by (cases "selectUtxos (Finite (of_int A)) (Finite (of_int r)) xs (Finite 0) []")
  from selectUtxos_top[OF eq ex] obtain j where j: "j \<le> length xs" "sel' = take j xs"
    "T = Finite (of_int (sum_list (map value' (take j xs))))" "\<forall>i. 1 \<le> i \<and> i < j \<longrightarrow> \<not> covers A r xs i"
    "(j \<ge> 1 \<and> covers A r xs j) \<or> j = length xs" by blast
  have "\<not> k < j" using j(4) k(1,3) by blast
  moreover have "\<not> j < k"
  proof
    assume lt: "j < k"
    then have "j \<noteq> length xs" using k(2) by simp
    then have "j \<ge> 1 \<and> covers A r xs j" using j(5) by auto
    then show False using k(4) lt by blast
  qed
  ultimately have "j = k" by simp
  then show ?thesis using eq j by simp
qed

lemma selectUtxos_no_cover:
  assumes "\<forall>k. 1 \<le> k \<and> k \<le> length xs \<longrightarrow> \<not> covers A r xs k"
      and ex: "\<forall>u \<in> set xs. 0 \<le> value' u" "0 \<le> A" "0 \<le> r"
              "A + (int (length xs) * 148 + 2 * 34 + 10) * r + sum_list (map value' xs) \<le> 2 ^ 53"
  shows "selectUtxos (Finite (of_int A)) (Finite (of_int r)) xs (Finite 0) []
           = (Finite (of_int (sum_list (map value' xs))), xs)"
proof -
  obtain T sel' where eq: "selectUtxos (Finite (of_int A)) (Finite (of_int r)) xs (Finite 0) [] = (T, sel')"
    by (cases "selectUtxos (Finite (of_int A)) (Finite (of_int r)) xs (Finite 0) []")
  from selectUtxos_top[OF eq ex] obtain j where j: "j \<le> length xs" "sel' = take j xs"
    "T = Finite (of_int (sum_list (map value' (take j xs))))"
    "(j \<ge> 1 \<and> covers A r xs j) \<or> j = length xs" by blast
  have "j = length xs" using j(1,4) assms(1) by auto
  then show ?thesis using eq j by simp
qed

lemma and_then_Inr: "and_then (Inr x) f = f x"
  by (simp add: and_then_def)

lemma and_then_Inl: "and_then (Inl e) f = Inl e"
  by (simp add: and_then_def)

lemma rethrow_Inl: "rethrow p (Inl e) = Inl (Error (p @ message e))"
  by (simp add: rethrow_def)

lemma sorted_utxos:
  "set (sort_key (\<lambda>u. - value' u) utxos) = set utxos"
  "length (sort_key (\<lambda>u. - value' u) utxos) = length utxos"
  "sum_list (map value' (sort_key (\<lambda>u. - value' u) utxos)) = sum_list (map value' utxos)"
proof -
  have "mset (map value' (sort_key (\<lambda>u. - value' u) utxos)) = mset (map value' utxos)" by simp
  then show "sum_list (map value' (sort_key (\<lambda>u. - value' u) utxos)) = sum_list (map value' utxos)"
    by (metis sum_mset_sum_list)
qed simp_all

lemma prefix_sum_le:
  assumes "\<forall>u \<in> set xs. 0 \<le> value' u"
  shows "sum_list (map value' (take k xs)) \<le> sum_list (map value' xs)"
proof -
  have "sum_list (map value' xs) = sum_list (map value' (take k xs)) + sum_list (map value' (drop k xs))"
    by (metis append_take_drop_id map_append sum_list_append)
  moreover have "0 \<le> sum_list (map value' (drop k xs))"
    using assms by (intro sum_values_nonneg) (auto dest: in_set_dropD)
  ultimately show ?thesis by linarith
qed

text \<open>What \<open>sendBitcoinTransaction\<close> does once the loop has stopped at the first \<open>k\<close>
  UTXOs, and when it runs through the whole list without covering.\<close>

lemma send_selected:
  assumes addr: "p2wpkhAddress env (privateKey params) = Inr address"
      and api: "getUtxos env address = Inr utxos"
      and A: "js_floor (js_mul (amount params) (Finite 100000000)) = Finite (of_int A)" "0 \<le> A"
      and r: "(case feeRate params of None \<Rightarrow> Finite 10 | Some x \<Rightarrow> x) = Finite (of_int r)" "0 \<le> r"
      and vals: "\<forall>u \<in> set utxos. 0 \<le> value' u"
      and range: "A + (int (length utxos) * 148 + 2 * 34 + 10) * r + sum_list (map value' utxos) \<le> 2 ^ 53"
      and desc: "desc = sort_key (\<lambda>u. - value' u) utxos"
      and k: "1 \<le> k" "k \<le> length utxos" "covers A r desc k"
             "\<forall>i. 1 \<le> i \<and> i < k \<longrightarrow> \<not> covers A r desc i"
      and tot: "tot = sum_list (map value' (take k desc))"
      and fee: "f = (int k * 148 + 2 * 34 + 10) * r"
  shows "sendBitcoinTransaction env params =
      rethrow ''Failed to send Bitcoin transaction: ''
        (and_then (addInputs env (take k desc)) (\<lambda>ins.
           and_then (postTx env \<lparr> inputs = ins,
                                  outputs = (to params, Finite (of_int A))
                                    # (if 546 < tot - A - f then [(address, Finite (of_int (tot - A - f)))]
                                       else []) \<rparr>) (\<lambda>h.
             Inr (\<lparr> inputs = ins,
                     outputs = (to params, Finite (of_int A))
                       # (if 546 < tot - A - f then [(address, Finite (of_int (tot - A - f)))]
                          else []) \<rparr>,
                  \<lparr> txHash = h, chain = ''bitcoin'', sentTo = to params,
                     sentAmount = amount params,
                     fee = round_double (of_int f / 100000000),
                     inputCount = k, status = ''pending'',
                     explorerUrl = ''https://blockstream.info/tx/'' @ h \<rparr>))))"
proof -
  have ne: "(length utxos = 0) = False" using k(1,2) by auto
  have dvals: "\<forall>u \<in> set desc. 0 \<le> value' u" using vals unfolding desc sorted_utxos .
  have drange: "A + (int (length desc) * 148 + 2 * 34 + 10) * r + sum_list (map value' desc) \<le> 2 ^ 53"
    using range unfolding desc sorted_utxos .
  have kd: "k \<le> length desc" using k(2) unfolding desc sorted_utxos .
  have sel: "selectUtxos (Finite (of_int A)) (Finite (of_int r)) desc (Finite 0) []
               = (Finite (of_int tot), take k desc)"
    unfolding tot by (rule selectUtxos_first_cover[OF k(1) kd k(3,4) dvals A(2) r(2) drange])
  have lk: "length (take k desc) = k" using kd by simp
  have S0: "0 \<le> sum_list (map value' desc)" using dvals by (rule sum_values_nonneg)
  have t0: "0 \<le> tot" unfolding tot using dvals by (intro sum_values_nonneg) (auto dest: in_set_takeD)
  have tS: "tot \<le> sum_list (map value' desc)" unfolding tot using dvals by (rule prefix_sum_le)
  have f0: "0 \<le> f" unfolding fee using r(2) by simp
  have fF: "f \<le> (int (length desc) * 148 + 2 * 34 + 10) * r"
    unfolding fee using r(2) kd by (intro mult_right_mono) simp_all
  have cov: "A + f \<le> tot" using k(3) unfolding covers_def tot fee by simp
  have m: "js_mul (Finite (of_int (int k * 148 + 2 * 34 + 10))) (Finite (of_int r)) = Finite (of_int f)"
    unfolding fee by (rule js_mul_int) (use f0 fF drange S0 A(2) in \<open>simp add: fee\<close>)
  have a: "js_add (Finite (of_int A)) (Finite (of_int f)) = Finite (of_int (A + f))"
    by (rule js_add_int) (use f0 fF drange S0 A(2) in simp)
  have lt: "js_lt (Finite (of_int tot)) (Finite (of_int (A + f))) = False"
    using cov by (simp only: js_lt_int not_less[symmetric])
  have s1: "js_sub (Finite (of_int tot)) (Finite (of_int A)) = Finite (of_int (tot - A))"
    by (rule js_sub_int) (use t0 tS drange A(2) f0 fF S0 in simp)
  have s2: "js_sub (Finite (of_int (tot - A))) (Finite (of_int f)) = Finite (of_int (tot - A - f))"
    by (rule js_sub_int) (use t0 tS drange A(2) f0 fF S0 cov in simp)
  have dust: "js_lt (Finite 546) (Finite (of_int (tot - A - f))) = (546 < tot - A - f)"
    using js_lt_int[of 546 "tot - A - f"] by simp
  have dv: "js_div (Finite (of_int f)) (Finite 100000000) = round_double (of_int f / 100000000)"
    by simp
  show ?thesis
    unfolding sendBitcoinTransaction_def Let_def r(1) addr api and_then_Inr ne if_False A(1)
      desc[symmetric] sel prod.case lk m a lt s1 s2 dust dv ..
qed

lemma send_insufficient:
  assumes addr: "p2wpkhAddress env (privateKey params) = Inr address"
      and api: "getUtxos env address = Inr utxos"
      and A: "js_floor (js_mul (amount params) (Finite 100000000)) = Finite (of_int A)" "0 \<le> A"
      and r: "(case feeRate params of None \<Rightarrow> Finite 10 | Some x \<Rightarrow> x) = Finite (of_int r)" "0 \<le> r"
      and vals: "\<forall>u \<in> set utxos. 0 \<le> value' u"
      and range: "A + (int (length utxos) * 148 + 2 * 34 + 10) * r + sum_list (map value' utxos) \<le> 2 ^ 53"
      and desc: "desc = sort_key (\<lambda>u. - value' u) utxos"
      and ne: "utxos \<noteq> []"
      and none: "\<forall>k. 1 \<le> k \<and> k \<le> length utxos \<longrightarrow> \<not> covers A r desc k"
  shows "sendBitcoinTransaction env params
           = Inl (Error ''Failed to send Bitcoin transaction: Insufficient funds'')"
proof -
  have ne0: "(length utxos = 0) = False" using ne by simp
  have dvals: "\<forall>u \<in> set desc. 0 \<le> value' u" using vals unfolding desc sorted_utxos .
  have drange: "A + (int (length desc) * 148 + 2 * 34 + 10) * r + sum_list (map value' desc) \<le> 2 ^ 53"
    using range unfolding desc sorted_utxos .
  have len: "length desc = length utxos" unfolding desc sorted_utxos ..
  have none': "\<forall>k. 1 \<le> k \<and> k \<le> length desc \<longrightarrow> \<not> covers A r desc k" using none len by simp
  have sel: "selectUtxos (Finite (of_int A)) (Finite (of_int r)) desc (Finite 0) []
               = (Finite (of_int (sum_list (map value' desc))), desc)"
    by (rule selectUtxos_no_cover[OF none' dvals A(2) r(2) drange])
  let ?f = "(int (length desc) * 148 + 2 * 34 + 10) * r"
  have S0: "0 \<le> sum_list (map value' desc)" using dvals by (rule sum_values_nonneg)
  have f0: "0 \<le> ?f" using r(2) by simp
  have "\<not> covers A r desc (length desc)" using none' ne len by (cases utxos) auto
  then have short: "sum_list (map value' desc) < A + ?f" by (simp add: covers_def)
  have m: "js_mul (Finite (of_int (int (length desc) * 148 + 2 * 34 + 10))) (Finite (of_int r)) = Finite (of_int ?f)"
    by (rule js_mul_int) (use f0 drange S0 A(2) in simp)
  have a: "js_add (Finite (of_int A)) (Finite (of_int ?f)) = Finite (of_int (A + ?f))"
    by (rule js_add_int) (use f0 drange S0 A(2) in simp)
  have lt: "js_lt (Finite (of_int (sum_list (map value' desc)))) (Finite (of_int (A + ?f))) = True"
    using short by (simp only: js_lt_int)
  show ?thesis
    by (simp only: sendBitcoinTransaction_def Let_def r(1) addr api and_then_Inr ne0 if_False A(1)
          desc[symmetric] sel prod.case m a lt if_True rethrow_Inl message.simps append.simps)
qed

lemma sendBitcoinTransaction_no_utxos:
  assumes "p2wpkhAddress env (privateKey params) = Inr address" "getUtxos env address = Inr []"
  shows "sendBitcoinTransaction env params
           = Inl (Error ''Failed to send Bitcoin transaction: No UTXOs available'')"
  using assms by (simp add: sendBitcoinTransaction_def and_then_def rethrow_def)

text \<open>The shortest covering prefix is also a smallest covering selection: the first
  \<open>m\<close> UTXOs in descending order tot at least as much as any \<open>m\<close> UTXOs of the
  wallet, so no selection of fewer inputs than the code takes covers its own fee.\<close>

lemma prefix_sum_maximal:
  assumes "sorted (map (\<lambda>u. - value' u) xs)" and "mset ys \<subseteq># mset xs"
  shows "sum_list (map value' ys) \<le> sum_list (map value' (take (length ys) xs))"
  using assms
proof (induction xs arbitrary: ys)
  case Nil
  then show ?case by simp
next
  case (Cons x xs)
  have top: "\<forall>z \<in> set xs. value' z \<le> value' x" and srt: "sorted (map (\<lambda>u. - value' u) xs)"
    using Cons.prems(1) by auto
  show ?case
  proof (cases ys)
    case Nil
    then show ?thesis by simp
  next
    case (Cons y ys')
    show ?thesis
    proof (cases "x \<in> set ys")
      case True
      let ?r = "remove1 x ys"
      have sub: "mset ?r \<subseteq># mset xs"
        using Cons.prems(2) by (simp add: subset_eq_diff_conv)
      have len: "length ?r = length ys - 1" using True by (simp add: length_remove1)
      have sum: "sum_list (map value' ys) = value' x + sum_list (map value' ?r)"
        using True by (simp add: sum_list_map_remove1)
      from Cons.IH[OF srt sub] have "sum_list (map value' ?r) \<le> sum_list (map value' (take (length ys - 1) xs))"
        using len by simp
      then show ?thesis using sum \<open>ys = y # ys'\<close> by simp
    next
      case False
      then have nx: "count (mset ys) x = 0" by (simp add: count_eq_zero_iff)
      have sub: "mset ys \<subseteq># mset xs"
        unfolding subseteq_mset_def
      proof
        fix a
        have "count (mset ys) a \<le> count (add_mset x (mset xs)) a"
          using Cons.prems(2) by (simp add: subseteq_mset_def)
        moreover have "a = x \<Longrightarrow> count (mset ys) a = 0"
          using False by (metis count_mset_0_iff)
        moreover have "a \<noteq> x \<Longrightarrow> count (add_mset x (mset xs)) a = count (mset xs) a"
          by simp
        ultimately show "count (mset ys) a \<le> count (mset xs) a"
          by (cases "a = x") linarith+
      qed
      then have "y \<in> set xs" using \<open>ys = y # ys'\<close>
        by (metis list.set_intros(1) mset_subset_eqD set_mset_mset)
      then have yx: "value' y \<le> value' x" using top by simp
      have "mset ys' \<subseteq># mset ys" using \<open>ys = y # ys'\<close> by simp
      then have "mset ys' \<subseteq># mset xs" using sub by (rule subset_mset.order_trans)
      from Cons.IH[OF srt this] show ?thesis using yx \<open>ys = y # ys'\<close> by simp
    qed
  qed
qed

lemma selection_minimal_by_count:
  assumes "mset S \<subseteq># mset utxos" and "S \<noteq> []"
      and "sum_list (map value' S) \<ge> A + (int (length S) * 148 + 2 * 34 + 10) * r"
      and "\<forall>i. 1 \<le> i \<and> i < k \<longrightarrow> \<not> covers A r (sort_key (\<lambda>u. - value' u) utxos) i"
  shows "k \<le> length S"
proof (rule ccontr)
  let ?desc = "sort_key (\<lambda>u. - value' u) utxos"
  assume "\<not> k \<le> length S"
  then have lt: "length S < k" by simp
  have "sorted (map (\<lambda>u. - value' u) ?desc)" by simp
  moreover have "mset S \<subseteq># mset ?desc" using assms(1) by simp
  ultimately have "sum_list (map value' S) \<le> sum_list (map value' (take (length S) ?desc))"
    by (rule prefix_sum_maximal)
  then have "covers A r ?desc (length S)" using assms(3) by (simp add: covers_def)
  moreover have "1 \<le> length S" using assms(2) by (cases S) simp_all
  ultimately show False using assms(4) lt by blast
qed

lemma sorted_sample: "sort_key (\<lambda>u. - value' u) sample_utxos =
   [\<lparr> txid = ''bb'', vout = 1, value' = 50000 \<rparr>, \<lparr> txid = ''cc'', vout = 0, value' = 20000 \<rparr>,
    \<lparr> txid = ''aa'', vout = 0, value' = 3000 \<rparr>]"
  by (simp add: sample_utxos_def)

lemma sorted_dust: "sort_key (\<lambda>u. - value' u) dust_utxos =
   [\<lparr> txid = ''ee'', vout = 0, value' = 100000 \<rparr>, \<lparr> txid = ''dd'', vout = 0, value' = 100 \<rparr>]"
  by (simp add: dust_utxos_def)

text \<open>
  C7, as stated: the send is rejected as insufficient funds when even the full UTXO set
  cannot cover the amount plus its fee. The code rejects only when no prefix of the
  descending list covers the fee of its own length, and the fee grows with every input:
  a wallet holding 100000 and 100 satoshis, asked for 0.00097 BTC (97000 satoshis) at 10
  satoshis per byte, does not cover 97000 + 3740 with both inputs, yet the first input
  alone covers 97000 + 2260 and the transaction is sent, with 740 satoshis of change.
\<close>

theorem C7_counterexample:
  "js_floor (js_mul (amount dust_send) (Finite 100000000)) = Finite 97000
   \<and> \<not> covers 97000 10 (sort_key (\<lambda>u. - value' u) dust_utxos) (length dust_utxos)
   \<and> sendBitcoinTransaction dust_env dust_send =
       Inr (\<lparr> inputs = [\<lparr> hash = ''ee'', index = 0, witnessValue = 100000,
                           nonWitnessUtxo = ''raw-ee'' \<rparr>],
              outputs = [(''bc1qrecipient'', Finite 97000), (''bc1qsender'', Finite 740)] \<rparr>,
            \<lparr> txHash = ''f00d'', chain = ''bitcoin'', sentTo = ''bc1qrecipient'',
              sentAmount = amount dust_send, fee = round_double (2260 / 100000000),
              inputCount = 1, status = ''pending'',
              explorerUrl = ''https://blockstream.info/tx/f00d'' \<rparr>)"
proof -
  let ?desc = "sort_key (\<lambda>u. - value' u) dust_utxos"
  have addr: "p2wpkhAddress dust_env (privateKey dust_send) = Inr ''bc1qsender''"
    by (simp add: dust_env_def sample_env_def)
  have api: "getUtxos dust_env ''bc1qsender'' = Inr dust_utxos"
    by (simp add: dust_env_def sample_env_def)
  have A: "js_floor (js_mul (amount dust_send) (Finite 100000000)) = Finite (of_int 97000)"
    by (simp only: dust_send_def sample_send_def bitcoin_params.simps satoshis_0_00097)
  have r: "(case feeRate dust_send of None \<Rightarrow> Finite 10 | Some x \<Rightarrow> x) = Finite (of_int 10)"
    by (simp add: dust_send_def sample_send_def)
  have vals: "\<forall>u \<in> set dust_utxos. 0 \<le> value' u" by (simp add: dust_utxos_def)
  have range: "97000 + (int (length dust_utxos) * 148 + 2 * 34 + 10) * 10
                 + sum_list (map value' dust_utxos) \<le> 2 ^ 53"
    by (simp add: dust_utxos_def)
  have k: "1 \<le> (1::nat)" "1 \<le> length dust_utxos" "covers 97000 10 ?desc 1"
    "\<forall>i. 1 \<le> i \<and> i < (1::nat) \<longrightarrow> \<not> covers 97000 10 ?desc i"
    by (simp_all add: sorted_dust covers_def dust_utxos_def)
  have full: "\<not> covers 97000 10 ?desc (length dust_utxos)"
    by (simp add: sorted_dust covers_def dust_utxos_def)
  note s = send_selected[OF addr api A _ r _ vals range refl k refl refl]
  have "sendBitcoinTransaction dust_env dust_send =
       Inr (\<lparr> inputs = [\<lparr> hash = ''ee'', index = 0, witnessValue = 100000,
                           nonWitnessUtxo = ''raw-ee'' \<rparr>],
              outputs = [(''bc1qrecipient'', Finite 97000), (''bc1qsender'', Finite 740)] \<rparr>,
            \<lparr> txHash = ''f00d'', chain = ''bitcoin'', sentTo = ''bc1qrecipient'',
              sentAmount = amount dust_send, fee = round_double (2260 / 100000000),
              inputCount = 1, status = ''pending'',
              explorerUrl = ''https://blockstream.info/tx/f00d'' \<rparr>)"
    by (subst s)
       (simp_all add: sorted_dust dust_env_def sample_env_def dust_send_def sample_send_def
          and_then_def rethrow_def)
  then show ?thesis using A full by simp
qed

text \<open>
  C7, amended. The UTXO values are non-negative integers, \<open>A\<close> is the amount in satoshis
  as the code computes it (the floor of the product of doubles), \<open>r\<close> is an integer fee
  rate (10 when none is given), and the amount, the fee of the whole wallet and its total
  together stay within \<open>2 ^ 53\<close>, where the arithmetic of doubles is exact. The UTXOs are
  taken in descending order of value; the fee for \<open>k\<close> inputs is \<open>(k * 148 + 2 * 34 + 10) *
  r\<close>, recomputed after each UTXO is added. Then:
  \<^item> an empty wallet is rejected with "No UTXOs available";
  \<^item> when no non-empty prefix of the descending list covers the amount plus the fee of
    its own length, the send is rejected with "Insufficient funds";
  \<^item> otherwise, with \<open>k\<close> the length of the shortest covering prefix: no selection of
    fewer than \<open>k\<close> UTXOs of the wallet covers the amount plus its own fee; the inputs of
    the transaction are exactly the first \<open>k\<close> UTXOs, the reported fee is the fee of \<open>k\<close>
    inputs, the first output pays the amount to the recipient, and a second output
    returns the change to the sender if and only if the change exceeds 546 satoshis; and
    the send goes through whenever the explorer and the broadcast answer.
\<close>

theorem C7_selection_amended:
  assumes addr: "p2wpkhAddress env (privateKey params) = Inr address"
      and api: "getUtxos env address = Inr utxos"
      and A: "js_floor (js_mul (amount params) (Finite 100000000)) = Finite (of_int A)" "0 \<le> A"
      and r: "(case feeRate params of None \<Rightarrow> Finite 10 | Some x \<Rightarrow> x) = Finite (of_int r)" "0 \<le> r"
      and vals: "\<forall>u \<in> set utxos. 0 \<le> value' u"
      and range: "A + (int (length utxos) * 148 + 2 * 34 + 10) * r + sum_list (map value' utxos) \<le> 2 ^ 53"
      and desc: "desc = sort_key (\<lambda>u. - value' u) utxos"
  shows "(utxos = [] \<longrightarrow>
            sendBitcoinTransaction env params
              = Inl (Error ''Failed to send Bitcoin transaction: No UTXOs available''))
       \<and> (utxos \<noteq> [] \<and> (\<forall>k. 1 \<le> k \<and> k \<le> length utxos \<longrightarrow> \<not> covers A r desc k) \<longrightarrow>
            sendBitcoinTransaction env params
              = Inl (Error ''Failed to send Bitcoin transaction: Insufficient funds''))
       \<and> (\<forall>k. 1 \<le> k \<and> k \<le> length utxos \<and> covers A r desc k
               \<and> (\<forall>i. 1 \<le> i \<and> i < k \<longrightarrow> \<not> covers A r desc i) \<longrightarrow>
            (\<forall>S. mset S \<subseteq># mset utxos \<and> S \<noteq> []
                  \<and> A + (int (length S) * 148 + 2 * 34 + 10) * r \<le> sum_list (map value' S)
                \<longrightarrow> k \<le> length S)
            \<and> (\<forall>tx res. sendBitcoinTransaction env params = Inr (tx, res) \<longrightarrow>
                  map hash (inputs tx) = map txid (take k desc)
                  \<and> map index (inputs tx) = map vout (take k desc)
                  \<and> map witnessValue (inputs tx) = map value' (take k desc)
                  \<and> inputCount res = k
                  \<and> fee res = round_double (of_int ((int k * 148 + 2 * 34 + 10) * r) / 100000000)
                  \<and> outputs tx = (to params, Finite (of_int A))
                       # (if 546 < sum_list (map value' (take k desc)) - A - (int k * 148 + 2 * 34 + 10) * r
                          then [(address, Finite (of_int
                                   (sum_list (map value' (take k desc)) - A - (int k * 148 + 2 * 34 + 10) * r)))]
                          else []))
            \<and> ((\<forall>u \<in> set (take k desc). \<exists>h. getTxHex env (txid u) = Inr h)
                 \<and> (\<forall>tx. \<exists>h. postTx env tx = Inr h)
                \<longrightarrow> (\<exists>tx res. sendBitcoinTransaction env params = Inr (tx, res))))"
proof (intro conjI impI allI)
  assume "utxos = []"
  then show "sendBitcoinTransaction env params
              = Inl (Error ''Failed to send Bitcoin transaction: No UTXOs available'')"
    using sendBitcoinTransaction_no_utxos[OF addr] api by simp
next
  assume h: "utxos \<noteq> [] \<and> (\<forall>k. 1 \<le> k \<and> k \<le> length utxos \<longrightarrow> \<not> covers A r desc k)"
  show "sendBitcoinTransaction env params
              = Inl (Error ''Failed to send Bitcoin transaction: Insufficient funds'')"
    by (rule send_insufficient[OF addr api A r vals range desc]) (use h in simp_all)
next
  fix k
  assume h: "1 \<le> k \<and> k \<le> length utxos \<and> covers A r desc k
               \<and> (\<forall>i. 1 \<le> i \<and> i < k \<longrightarrow> \<not> covers A r desc i)"
  let ?t = "sum_list (map value' (take k desc))"
  let ?f = "(int k * 148 + 2 * 34 + 10) * r"
  let ?outs = "(to params, Finite (of_int A))
                 # (if 546 < ?t - A - ?f then [(address, Finite (of_int (?t - A - ?f)))] else [])"
  have k: "1 \<le> k" "k \<le> length utxos" "covers A r desc k"
    "\<forall>i. 1 \<le> i \<and> i < k \<longrightarrow> \<not> covers A r desc i" using h by auto
  note unfold = send_selected[OF addr api A r vals range desc k refl refl]
  show "k \<le> length S"
    if "mset S \<subseteq># mset utxos \<and> S \<noteq> []
          \<and> A + (int (length S) * 148 + 2 * 34 + 10) * r \<le> sum_list (map value' S)" for S
    using that k(4) unfolding desc by (intro selection_minimal_by_count[of S utxos A r k]) auto
  show "\<exists>tx res. sendBitcoinTransaction env params = Inr (tx, res)"
    if "(\<forall>u \<in> set (take k desc). \<exists>h. getTxHex env (txid u) = Inr h)
                 \<and> (\<forall>tx. \<exists>h. postTx env tx = Inr h)"
  proof -
    from that obtain ins where ins: "addInputs env (take k desc) = Inr ins"
      using addInputs_succeeds[of "take k desc" env] by blast
    from that obtain h where h: "postTx env \<lparr> inputs = ins, outputs = ?outs \<rparr> = Inr h" by blast
    show ?thesis
      unfolding unfold using ins h
      by (simp add: rethrow_def and_then_def)
  qed
  fix tx res
  assume ok: "sendBitcoinTransaction env params = Inr (tx, res)"
  then obtain ins where ins: "addInputs env (take k desc) = Inr ins"
    unfolding unfold by (auto simp: rethrow_def and_then_def split: sum.splits)
  from ok have tx: "inputs tx = ins" "outputs tx = ?outs"
    "inputCount res = k" "fee res = round_double (of_int ?f / 100000000)"
    unfolding unfold using ins
    by (auto simp: rethrow_def and_then_def split: sum.splits)
  show "map hash (inputs tx) = map txid (take k desc)"
    "map index (inputs tx) = map vout (take k desc)"
    "map witnessValue (inputs tx) = map value' (take k desc)"
    using addInputs_fields[OF ins] tx(1) by simp_all
  show "inputCount res = k" by (rule tx(3))
  show "fee res = round_double (of_int ?f / 100000000)" by (rule tx(4))
  show "outputs tx = ?outs" by (rule tx(2))
qed

text \<open>The send of 0.0006 BTC from the wallet of three UTXOs: the double nearest to 0.0006,
  times 100000000, is just below 60000, so 59999 satoshis are paid; the two largest UTXOs
  are spent and 6261 satoshis come back as change.\<close>

theorem C7_selection_amended_witness:
  "\<exists>tx res. sendBitcoinTransaction sample_env sample_send = Inr (tx, res)
     \<and> map hash (inputs tx) = [''bb'', ''cc'']
     \<and> inputCount res = 2
     \<and> outputs tx = [(''bc1qrecipient'', Finite 59999), (''bc1qsender'', Finite 6261)]"
proof -
  let ?desc = "sort_key (\<lambda>u. - value' u) sample_utxos"
  have addr: "p2wpkhAddress sample_env (privateKey sample_send) = Inr ''bc1qsender''"
    by (simp add: sample_env_def)
  have api: "getUtxos sample_env ''bc1qsender'' = Inr sample_utxos"
    by (simp add: sample_env_def)
  have A: "js_floor (js_mul (amount sample_send) (Finite 100000000)) = Finite (of_int 59999)"
    by (simp only: sample_send_def bitcoin_params.simps satoshis_0_0006)
  have A0: "(0::int) \<le> 59999" by simp
  have r: "(case feeRate sample_send of None \<Rightarrow> Finite 10 | Some x \<Rightarrow> x) = Finite (of_int 10)"
    by (simp add: sample_send_def)
  have r0: "(0::int) \<le> 10" by simp
  have vals: "\<forall>u \<in> set sample_utxos. 0 \<le> value' u" by (simp add: sample_utxos_def)
  have range: "59999 + (int (length sample_utxos) * 148 + 2 * 34 + 10) * 10
                 + sum_list (map value' sample_utxos) \<le> 2 ^ 53"
    by (simp add: sample_utxos_def)
  have k2: "1 \<le> (2::nat) \<and> 2 \<le> length sample_utxos \<and> covers 59999 10 ?desc 2
            \<and> (\<forall>i. 1 \<le> i \<and> i < 2 \<longrightarrow> \<not> covers 59999 10 ?desc i)"
  proof -
    have "\<not> covers 59999 10 ?desc i" if "1 \<le> i \<and> i < 2" for i
    proof -
      from that have "i = 1" by simp
      then show ?thesis by (simp add: sorted_sample covers_def)
    qed
    then show ?thesis by (simp add: sorted_sample covers_def sample_utxos_def)
  qed
  note th = C7_selection_amended [OF addr api A A0 r r0 vals range refl,
              THEN conjunct2, THEN conjunct2, THEN spec, of 2, THEN mp, OF k2]
  have ok: "\<exists>tx res. sendBitcoinTransaction sample_env sample_send = Inr (tx, res)"
    using th [THEN conjunct2, THEN conjunct2] by (simp add: sample_env_def)
  then obtain tx res where tr: "sendBitcoinTransaction sample_env sample_send = Inr (tx, res)"
    by blast
  from th [THEN conjunct2, THEN conjunct1, THEN spec, THEN spec, THEN mp, OF tr]
  have "map hash (inputs tx) = [''bb'', ''cc''] \<and> inputCount res = 2
     \<and> outputs tx = [(''bc1qrecipient'', Finite 59999), (''bc1qsender'', Finite 6261)]"
    by (simp add: sorted_sample sample_send_def)
  with tr show ?thesis by (intro exI[of _ tx] exI[of _ res]) simp
qed

section \<open>Bitcoin: balance\<close>

text \<open>
  C8: the specification's balance is the confirmed plus unconfirmed funded totals minus
  the spent totals, in whole coins. \<open>getBitcoinBalance\<close> divides the confirmed funded
  total alone by \<open>100000000\<close> and never reads \<open>spent_txo_sum\<close>: for an address that
  received 1.5 BTC and spent 0.5 BTC it reports 1.5 where the balance is 1.
\<close>

theorem C8_balance_ignores_spent:
  "getBitcoinBalance (\<lambda>a. Inr spent_address) ''bc1qaddr''
     = Inr \<lparr> balance = 3 / 2, unconfirmedBalance = 0, txCount = 2,
             symbol = ''BTC'', decimals = 8 \<rparr>
   \<and> spec_balance spent_address = 1"
  by (simp add: getBitcoinBalance_def spent_address_def spec_balance_def)

text \<open>The other half of C8 holds: an address the explorer does not know (HTTP 404) has
  balance zero, and any other failure is an error.\<close>

lemma getBitcoinBalance_not_found:
  "getBitcoinBalance (\<lambda>a. Inl (HttpFailure (Some 404) m)) address
     = Inr \<lparr> balance = 0, unconfirmedBalance = 0, txCount = 0, symbol = ''BTC'', decimals = 8 \<rparr>"
  by (simp add: getBitcoinBalance_def)

section \<open>Envelope cipher: round trip and tamper detection\<close>

subsection \<open>The stand-in library meets the assumptions\<close>

lemma char_of_byte_of_char: "char_of_byte (byte_of_char c) = c"
proof -
  have "(of_char c :: nat) < 256" by simp
  then have "unat (word_of_nat (of_char c) :: byte) = of_char c"
    by (simp add: unat_of_nat)
  then show ?thesis by (simp add: char_of_byte_def byte_of_char_def)
qed

lemma byte_of_char_of_byte: "byte_of_char (char_of_byte w) = w"
proof -
  have "unat w < 2 ^ LENGTH(8)" by (rule unsigned_less)
  then have "unat w < 256" by simp
  then show ?thesis by (simp add: char_of_byte_def byte_of_char_def)
qed

lemma units_of_pairs_of: "units_of (pairs_of us) = us"
proof (induction us)
  case Nil
  then show ?case by simp
next
  case (Cons u us)
  have "unat u < 2 ^ LENGTH(16)" by (rule unsigned_less)
  then have lt: "unat u < 65536" by simp
  then have d: "unat u div 256 < 256" by simp
  have h: "unat (word_of_nat (unat u div 256) :: byte) = unat u div 256"
    using d by (simp add: unat_of_nat)
  have l: "unat (word_of_nat (unat u mod 256) :: byte) = unat u mod 256"
    by (simp add: unat_of_nat)
  have "(word_of_nat (unat u div 256 * 256 + unat u mod 256) :: code_unit) = u"
    by simp
  then show ?case using Cons by (simp add: h l)
qed

lemma replace_lone_well_formed: "well_formed us \<Longrightarrow> replace_lone us = us"
  by (induction us rule: well_formed.induct) (auto split: if_splits)

lemma toy_codecs: "codecs_invert toy_lib"
  by (simp add: codecs_invert_def toy_lib_def comp_def char_of_byte_of_char byte_of_char_of_byte
        units_of_pairs_of replace_lone_well_formed)

lemma toy_cipher: "cipher_inverts toy_lib"
  by (simp add: cipher_inverts_def toy_lib_def toy_tag_def comp_def)

lemma sum_list_update_word:
  fixes xs :: "'a::ring list"
  shows "j < length xs \<Longrightarrow> sum_list (xs[j := b]) = sum_list xs - xs ! j + b"
proof (induction xs arbitrary: j)
  case Nil
  then show ?case by simp
next
  case (Cons x xs)
  then show ?case by (cases j) (simp_all add: algebra_simps)
qed

lemma toy_tamper: "detects_tampering toy_lib"
  unfolding detects_tampering_def
proof (intro allI impI)
  fix k a p :: bytes and i :: nat and b :: byte
  let ?c = "fst (cipher toy_lib k a p)"
  let ?t = "snd (cipher toy_lib k a p)"
  assume h: "i < length (?t @ ?c) \<and> b \<noteq> (?t @ ?c) ! i"
  have t: "?t = toy_tag k a ?c" by (simp add: toy_lib_def)
  have lt: "length ?t = 16" by (simp add: toy_lib_def toy_tag_def)
  show "decipher toy_lib k a (take 16 ((?t @ ?c)[i := b])) (drop 16 ((?t @ ?c)[i := b])) = None"
  proof (cases "i < 16")
    case True
    then have "take 16 ((?t @ ?c)[i := b]) = ?t[i := b]" "drop 16 ((?t @ ?c)[i := b]) = ?c"
      using lt by (simp_all add: list_update_append)
    moreover have "?t[i := b] \<noteq> ?t"
    proof
      assume "?t[i := b] = ?t"
      then have "(?t[i := b]) ! i = ?t ! i" by simp
      then show False using h True lt by (simp add: nth_append)
    qed
    ultimately show ?thesis using t by (simp add: toy_lib_def)
  next
    case False
    then have j: "i - 16 < length ?c" and ne: "b \<noteq> ?c ! (i - 16)"
      using h lt by (auto simp: nth_append)
    have "take 16 ((?t @ ?c)[i := b]) = ?t" "drop 16 ((?t @ ?c)[i := b]) = ?c[i - 16 := b]"
      using False lt by (simp_all add: list_update_append)
    moreover have "toy_tag k a (?c[i - 16 := b]) \<noteq> toy_tag k a ?c"
      using sum_list_update_word[OF j, of b] ne by (simp add: toy_tag_def)
    ultimately show ?thesis using t by (simp add: toy_lib_def)
  qed
qed

subsection \<open>What \<open>encrypt\<close> produces and what \<open>decrypt\<close> reads\<close>

lemma drawn_salt_iv:
  "fst (randomBytes SALT_LENGTH g) @ fst (randomBytes IV_LENGTH (snd (randomBytes SALT_LENGTH g)))
     = map g [0..<80]"
proof -
  have "map (\<lambda>i. g (i + 64)) [0..<16] = map g (map (\<lambda>i. i + 64) [0..<16])" by (simp add: comp_def)
  also have "map (\<lambda>i. i + 64) [0..<16] = [64..<80]" using map_add_upt[of 64 16] by simp
  finally have "map g [0..<64] @ map (\<lambda>i. g (i + 64)) [0..<16] = map g ([0..<64] @ [64..<80])"
    by simp
  also have "[0..<64] @ [64..<80] = [0..<80]"
    using upt_add_eq_append[of 0 64 16] by simp
  finally show ?thesis by (simp add: randomBytes_def SALT_LENGTH_def IV_LENGTH_def)
qed

lemma encrypt_envelope:
  assumes "32 \<le> length ek" "t \<noteq> []"
  shows "encrypt lib (Some ek) (Some t) g
           = Inr (base64_encode lib (envelope lib ek t g), (\<lambda>i. g (i + 80)))"
proof -
  have ek: "ek \<noteq> []" "\<not> length ek < 32" using assms by auto
  have split: "map g [0..<80] = map g [0..<64] @ map (\<lambda>i. g (i + 64)) [0..<16]"
    using drawn_salt_iv[of g] by (simp add: randomBytes_def SALT_LENGTH_def IV_LENGTH_def)
  show ?thesis
    using ek assms(2)
    by (simp add: encrypt_def rethrow_def randomBytes_def SALT_LENGTH_def IV_LENGTH_def
        envelope_def split Let_def split_beta add.commute add.assoc)
qed

lemma decrypt_envelope:
  assumes "codecs_invert lib" "32 \<le> length ek" "length front = 80" "front @ back \<noteq> []"
  shows "decrypt lib (Some ek) (Some (base64_encode lib (front @ back)))
           = (case decipher lib (deriveKey lib ek (take 64 front)) (aad lib) (take 16 back) (drop 16 back) of
                None \<Rightarrow> Inl (Error ''Decryption failed: Unsupported state or unable to authenticate data'')
              | Some p \<Rightarrow> Inr (utf8_decode lib p))"
proof -
  have ek: "ek \<noteq> []" "\<not> length ek < 32" using assms by auto
  have ne: "base64_encode lib (front @ back) \<noteq> []"
    using assms(1,4) unfolding codecs_invert_def by blast
  have dec: "base64_decode lib (base64_encode lib (front @ back)) = front @ back"
    using assms(1) unfolding codecs_invert_def by blast
  show ?thesis
    using ek ne assms(3)
    by (simp add: decrypt_def rethrow_def dec subarray_def SALT_LENGTH_def IV_LENGTH_def
          AUTH_TAG_LENGTH_def Let_def split: option.splits)
qed

lemma encrypt_Inr_D:
  assumes "encrypt lib encryptionKey text g = Inr (blob, g')"
  shows "\<exists>ek t. encryptionKey = Some ek \<and> text = Some t \<and> 32 \<le> length ek \<and> t \<noteq> []"
  using assms
  by (auto simp: encrypt_def rethrow_def split: option.splits if_splits)

text \<open>Decrypting what \<open>encrypt\<close> returned gives the UTF-8 round trip of the text.\<close>

lemma decrypt_encrypt:
  assumes "codecs_invert lib" and "cipher_inverts lib" and "32 \<le> length ek" and "t \<noteq> []"
  shows "decrypt lib (Some ek) (Some (base64_encode lib (envelope lib ek t g)))
           = Inr (utf8_decode lib (utf8_encode lib t))"
proof -
  let ?k = "deriveKey lib ek (map g [0..<64])"
  let ?ct = "cipher lib ?k (aad lib) (utf8_encode lib t)"
  have env: "envelope lib ek t g = map g [0..<80] @ (snd ?ct @ fst ?ct)"
    by (simp add: envelope_def)
  have tag: "length (snd ?ct) = 16"
    and inv: "decipher lib ?k (aad lib) (snd ?ct) (fst ?ct) = Some (utf8_encode lib t)"
    using assms(2) unfolding cipher_inverts_def by blast+
  show ?thesis
    unfolding env
    by (subst decrypt_envelope[OF assms(1,3)]) (simp_all add: tag inv take_map)
qed

subsection \<open>Round trip\<close>

text \<open>
  C1, as stated: \<open>decrypt(encrypt(s)) = s\<close> for every string \<open>s\<close>, and two calls of
  \<open>encrypt\<close> on the same string return different blobs. Three things stand against it.
  The empty string is a string, and \<open>encrypt\<close> refuses it: its first guard throws, so
  there is no blob to decrypt. A string with an unpaired surrogate, here the single code
  unit U+D800, comes back as U+FFFD, because the text passes through UTF-8. And the blobs
  of two calls differ only by what the random bytes make them differ: from a source that
  keeps returning the same bytes, the call returns its blob and leaves the source as it
  was, so the next call returns the same blob again.
\<close>

theorem C1_counterexample:
  "encrypt toy_lib (Some master_key) (Some []) counting
     = Inl (Error ''Encryption failed: Text to encrypt cannot be empty'')
   \<and> encrypt toy_lib (Some master_key) (Some [0xD800]) counting
       = Inr (base64_encode toy_lib (envelope toy_lib master_key [0xD800] counting),
              (\<lambda>i. counting (i + 80)))
   \<and> decrypt toy_lib (Some master_key)
        (Some (base64_encode toy_lib (envelope toy_lib master_key [0xD800] counting)))
       = Inr [0xFFFD]
   \<and> encrypt toy_lib (Some master_key) (Some (units ''secret'')) stuck
       = Inr (base64_encode toy_lib (envelope toy_lib master_key (units ''secret'') stuck), stuck)"
proof -
  have k: "32 \<le> length master_key" by (simp add: master_key_def)
  have 1: "encrypt toy_lib (Some master_key) (Some []) counting
     = Inl (Error ''Encryption failed: Text to encrypt cannot be empty'')"
    by (simp add: encrypt_def rethrow_def)
  have 2: "encrypt toy_lib (Some master_key) (Some [0xD800]) counting
       = Inr (base64_encode toy_lib (envelope toy_lib master_key [0xD800] counting),
              (\<lambda>i. counting (i + 80)))"
    by (rule encrypt_envelope[OF k]) simp
  have "decrypt toy_lib (Some master_key)
        (Some (base64_encode toy_lib (envelope toy_lib master_key [0xD800] counting)))
       = Inr (utf8_decode toy_lib (utf8_encode toy_lib [0xD800]))"
    by (rule decrypt_encrypt[OF toy_codecs toy_cipher k]) simp
  also have "utf8_decode toy_lib (utf8_encode toy_lib [0xD800]) = [0xFFFD]"
    by (simp add: toy_lib_def is_high_def units_of_pairs_of)
  finally have 3: "decrypt toy_lib (Some master_key)
        (Some (base64_encode toy_lib (envelope toy_lib master_key [0xD800] counting)))
       = Inr [0xFFFD]" .
  have "(\<lambda>i. stuck (i + 80)) = stuck" by (simp add: stuck_def)
  then have 4: "encrypt toy_lib (Some master_key) (Some (units ''secret'')) stuck
       = Inr (base64_encode toy_lib (envelope toy_lib master_key (units ''secret'') stuck), stuck)"
    using encrypt_envelope[OF k, of "units ''secret''" toy_lib stuck] by (simp add: units_def)
  from 1 2 3 4 show ?thesis by simp
qed

text \<open>
  C1, amended: for every non-empty well-formed string (one without an unpaired surrogate)
  and a master key of at least 32 characters, \<open>encrypt\<close> returns a blob and \<open>decrypt\<close> of
  that blob returns the string; two calls of \<open>encrypt\<close> on the same non-empty string whose
  80 random bytes (salt and IV) differ return different blobs; and \<open>encrypt\<close> of the empty
  string, or of no string, fails with an error. The library is assumed to invert its
  codecs and its cipher.
\<close>

theorem C1_roundtrip_amended:
  assumes "codecs_invert lib" and "cipher_inverts lib" and "32 \<le> length ek"
      and "t \<noteq> []" and "well_formed t"
  shows "(\<exists>blob g'. encrypt lib (Some ek) (Some t) g = Inr (blob, g')
            \<and> decrypt lib (Some ek) (Some blob) = Inr t)
       \<and> (\<forall>h blob blob' g' h'.
            encrypt lib (Some ek) (Some t) g = Inr (blob, g')
            \<and> encrypt lib (Some ek) (Some t) h = Inr (blob', h')
            \<and> map g [0..<SALT_LENGTH + IV_LENGTH] \<noteq> map h [0..<SALT_LENGTH + IV_LENGTH]
            \<longrightarrow> blob \<noteq> blob')
       \<and> encrypt lib (Some ek) (Some []) g
           = Inl (Error ''Encryption failed: Text to encrypt cannot be empty'')
       \<and> encrypt lib (Some ek) None g
           = Inl (Error ''Encryption failed: Text to encrypt cannot be empty'')"
proof (intro conjI allI impI)
  have utf: "utf8_decode lib (utf8_encode lib t) = t"
    using assms(1,5) unfolding codecs_invert_def by blast
  have "decrypt lib (Some ek) (Some (base64_encode lib (envelope lib ek t g))) = Inr t"
    using decrypt_encrypt[OF assms(1-4), of g] utf by simp
  then show "\<exists>blob g'. encrypt lib (Some ek) (Some t) g = Inr (blob, g')
            \<and> decrypt lib (Some ek) (Some blob) = Inr t"
    using encrypt_envelope[OF assms(3,4), of lib g] by simp
next
  fix h blob blob' g' h'
  assume a: "encrypt lib (Some ek) (Some t) g = Inr (blob, g')
            \<and> encrypt lib (Some ek) (Some t) h = Inr (blob', h')
            \<and> map g [0..<SALT_LENGTH + IV_LENGTH] \<noteq> map h [0..<SALT_LENGTH + IV_LENGTH]"
  then have b: "blob = base64_encode lib (envelope lib ek t g)"
      "blob' = base64_encode lib (envelope lib ek t h)"
    using encrypt_envelope[OF assms(3,4), of lib] by simp_all
  show "blob \<noteq> blob'"
  proof
    assume "blob = blob'"
    then have "base64_decode lib (base64_encode lib (envelope lib ek t g))
             = base64_decode lib (base64_encode lib (envelope lib ek t h))"
      using b by simp
    then have "envelope lib ek t g = envelope lib ek t h"
      using assms(1) unfolding codecs_invert_def by simp
    then have "take 80 (envelope lib ek t g) = take 80 (envelope lib ek t h)" by simp
    then have "map g [0..<80] = map h [0..<80]" by (simp add: envelope_def)
    then show False using a by (simp add: SALT_LENGTH_def IV_LENGTH_def)
  qed
next
  show "encrypt lib (Some ek) (Some []) g
           = Inl (Error ''Encryption failed: Text to encrypt cannot be empty'')"
    by (simp add: encrypt_def rethrow_def)
  show "encrypt lib (Some ek) None g
           = Inl (Error ''Encryption failed: Text to encrypt cannot be empty'')"
    by (simp add: encrypt_def rethrow_def)
qed

text \<open>Two calls in a row from the counting source: the first draws the bytes 0 to 79,
  the second the bytes 80 to 159. The string comes back, and the two blobs differ.\<close>

theorem C1_roundtrip_amended_witness:
  "\<exists>blob g' blob' g''.
       encrypt toy_lib (Some master_key) (Some (units ''secret'')) counting = Inr (blob, g')
     \<and> decrypt toy_lib (Some master_key) (Some blob) = Inr (units ''secret'')
     \<and> encrypt toy_lib (Some master_key) (Some (units ''secret'')) g' = Inr (blob', g'')
     \<and> blob \<noteq> blob'"
proof -
  have k: "32 \<le> length master_key" by (simp add: master_key_def)
  have t: "units ''secret'' \<noteq> []" by (simp add: units_def)
  note th = C1_roundtrip_amended[OF toy_codecs toy_cipher k t well_formed_units, of counting]
  from th[THEN conjunct1] obtain blob g' where
    1: "encrypt toy_lib (Some master_key) (Some (units ''secret'')) counting = Inr (blob, g')"
    and 2: "decrypt toy_lib (Some master_key) (Some blob) = Inr (units ''secret'')" by blast
  obtain blob' g'' where
    3: "encrypt toy_lib (Some master_key) (Some (units ''secret'')) g' = Inr (blob', g'')"
    using encrypt_envelope[OF k t, of toy_lib g'] by blast
  have g': "g' = (\<lambda>i. counting (i + 80))"
    using 1 encrypt_envelope[OF k t, of toy_lib counting] by simp
  have "map counting [0..<SALT_LENGTH + IV_LENGTH] ! 0 \<noteq> map g' [0..<SALT_LENGTH + IV_LENGTH] ! 0"
    unfolding g' by (simp add: SALT_LENGTH_def IV_LENGTH_def counting_def)
  then have d: "map counting [0..<SALT_LENGTH + IV_LENGTH] \<noteq> map g' [0..<SALT_LENGTH + IV_LENGTH]"
    by metis
  from th[THEN conjunct2, THEN conjunct1, THEN spec, THEN spec, THEN spec, THEN spec, THEN spec,
          THEN mp, OF conjI[OF 1 conjI[OF 3 d]]]
  have "blob \<noteq> blob'" .
  with 1 2 3 show ?thesis by blast
qed

subsection \<open>Tamper detection\<close>

text \<open>
  C2: take any blob that \<open>encrypt\<close> returned and change one byte of its decoded buffer at
  or after offset 80, that is, in the authentication tag (bytes 80 to 95) or in the
  ciphertext (from byte 96). Then \<open>decrypt\<close> of the re-encoded buffer throws; it returns
  no plaintext at all. The cipher is assumed to reject a tag or ciphertext with one byte
  changed (\<open>detects_tampering\<close>); the theorem is that \<open>decrypt\<close> hands the cipher the same
  key, the changed tag and the changed ciphertext, and lets its failure through.
\<close>

theorem C2_tamper_detected:
  assumes "codecs_invert lib" and "detects_tampering lib"
      and enc: "encrypt lib encryptionKey text g = Inr (blob, g')"
      and i: "SALT_LENGTH + IV_LENGTH \<le> i" "i < length (base64_decode lib blob)"
      and b: "b \<noteq> base64_decode lib blob ! i"
  shows "decrypt lib encryptionKey (Some (base64_encode lib ((base64_decode lib blob)[i := b])))
           = Inl (Error ''Decryption failed: Unsupported state or unable to authenticate data'')
       \<and> (\<forall>p. decrypt lib encryptionKey (Some (base64_encode lib ((base64_decode lib blob)[i := b])))
              \<noteq> Inr p)"
proof -
  from encrypt_Inr_D[OF enc] obtain ek t where
    kt: "encryptionKey = Some ek" "text = Some t" "32 \<le> length ek" "t \<noteq> []" by blast
  let ?k = "deriveKey lib ek (map g [0..<64])"
  let ?ct = "cipher lib ?k (aad lib) (utf8_encode lib t)"
  let ?tc = "snd ?ct @ fst ?ct"
  have blob: "blob = base64_encode lib (envelope lib ek t g)"
    using enc encrypt_envelope[OF kt(3,4), of lib g] unfolding kt(1,2) by simp
  have comb: "base64_decode lib blob = map g [0..<80] @ ?tc"
    using assms(1) unfolding blob codecs_invert_def by (simp add: envelope_def)
  have i80: "80 \<le> i" using i(1) by (simp add: SALT_LENGTH_def IV_LENGTH_def)
  have j: "i - 80 < length ?tc" using i(2) i80 unfolding comb by simp
  have bj: "b \<noteq> ?tc ! (i - 80)" using b i80 unfolding comb by (simp add: nth_append)
  have upd: "(base64_decode lib blob)[i := b] = map g [0..<80] @ ?tc[i - 80 := b]"
    unfolding comb using i80 by (simp add: list_update_append)
  have none: "decipher lib ?k (aad lib) (take 16 (?tc[i - 80 := b])) (drop 16 (?tc[i - 80 := b])) = None"
    using assms(2) j bj unfolding detects_tampering_def by blast
  have "decrypt lib (Some ek) (Some (base64_encode lib ((base64_decode lib blob)[i := b])))
           = Inl (Error ''Decryption failed: Unsupported state or unable to authenticate data'')"
    unfolding upd
    by (subst decrypt_envelope[OF assms(1) kt(3)]) (simp_all add: none take_map)
  then show ?thesis unfolding kt(1) by simp
qed

theorem C2_tamper_detected_witness:
  "\<exists>blob g'. encrypt toy_lib (Some master_key) (Some (units ''secret'')) counting = Inr (blob, g')
      \<and> decrypt toy_lib (Some master_key)
           (Some (base64_encode toy_lib
              ((base64_decode toy_lib blob)[80 := base64_decode toy_lib blob ! 80 + 1])))
         = Inl (Error ''Decryption failed: Unsupported state or unable to authenticate data'')"
proof -
  have k: "32 \<le> length master_key" by (simp add: master_key_def)
  have t: "units ''secret'' \<noteq> []" by (simp add: units_def)
  let ?blob = "base64_encode toy_lib (envelope toy_lib master_key (units ''secret'') counting)"
  have enc: "encrypt toy_lib (Some master_key) (Some (units ''secret'')) counting
               = Inr (?blob, (\<lambda>i. counting (i + 80)))"
    by (rule encrypt_envelope[OF k t])
  have dec: "base64_decode toy_lib ?blob = envelope toy_lib master_key (units ''secret'') counting"
    using toy_codecs unfolding codecs_invert_def by blast
  have len: "80 < length (base64_decode toy_lib ?blob)"
    unfolding dec by (simp add: envelope_def toy_lib_def toy_tag_def)
  have i: "SALT_LENGTH + IV_LENGTH \<le> 80" by (simp add: SALT_LENGTH_def IV_LENGTH_def)
  have b: "base64_decode toy_lib ?blob ! 80 + 1 \<noteq> base64_decode toy_lib ?blob ! 80" by simp
  from C2_tamper_detected[OF toy_codecs toy_tamper enc i len b, THEN conjunct1] enc
  show ?thesis by blast
qed

section \<open>Login: credential matching and device binding\<close>

text \<open>The schema method that \<open>login\<close> calls and \<open>verifyDevice\<close> of utils/verifyDevice
  decide the same thing.\<close>

lemma verifyDevice_schema_method:
  "verifyDevice (Some (deviceInfo u)) (Some d) = user_verifyDevice u d"
  by (simp add: verifyDevice_def user_verifyDevice_def)

lemma findCandidate_find:
  "\<forall>u \<in> set us. securityCodeHash u \<noteq> None \<and> hashKeyHash u \<noteq> None \<Longrightarrow>
   findCandidate env us sc hk = Inr (find (\<lambda>u. both_verify env u sc hk) us)"
proof (induction us)
  case Nil
  then show ?case by simp
next
  case (Cons u us)
  then obtain h1 h2 where h: "securityCodeHash u = Some h1" "hashKeyHash u = Some h2" by auto
  from Cons have IH: "findCandidate env us sc hk = Inr (find (\<lambda>u. both_verify env u sc hk) us)"
    by simp
  show ?case
    using h IH
    by (simp add: and_then_def verifySecurityCode_def verifyHashKey_def both_verify_def)
qed

lemma findCandidate_Some:
  "findCandidate env us sc hk = Inr (Some u) \<Longrightarrow> u \<in> set us \<and> both_verify env u sc hk"
proof (induction us)
  case Nil
  then show ?case by simp
next
  case (Cons c us)
  then show ?case
    by (auto simp: and_then_def both_verify_def split: sum.splits if_splits)
qed

lemma login_incomplete:
  assumes "deviceInfo' = None \<or> \<not> truthy securityCode \<or> \<not> truthy hashKey \<or> \<not> truthy twoFactorCode
           \<or> \<not> fst (validateDeviceInfo deviceInfo')"
  shows "\<exists>m det. login env db securityCode hashKey deviceInfo' twoFactorCode = (Failure 400 m det, db)"
  using assms by (cases deviceInfo') (auto simp: login_def)

lemma login_no_candidate:
  assumes "truthy securityCode" "truthy hashKey" "truthy twoFactorCode"
      and "fst (validateDeviceInfo (Some d))"
      and "findCandidate env (filter isActive db) (or_empty securityCode) (or_empty hashKey) = Inr None"
  shows "login env db securityCode hashKey (Some d) twoFactorCode
           = (Failure 401 ''Invalid credentials'' NoDetail, db)"
  using assms by (simp add: login_def)

lemma login_candidate:
  assumes "truthy securityCode" "truthy hashKey" "truthy twoFactorCode"
      and "fst (validateDeviceInfo (Some d))"
      and "findCandidate env (filter isActive db) (or_empty securityCode) (or_empty hashKey) = Inr (Some u)"
  shows "login env db securityCode hashKey (Some d) twoFactorCode =
     (if isLocked u then (Failure 423 ''Account is locked'' (LockReason (lockReason u)), db)
      else if \<not> user_verifyDevice u (normalizeDeviceInfo env d)
      then (Failure 403 ''Device verification failed''
              (Analysis (riskLevel (analyzeDeviceChange (Some (deviceInfo u)) (Some (normalizeDeviceInfo env d))))
                        (reasons (analyzeDeviceChange (Some (deviceInfo u)) (Some (normalizeDeviceInfo env d))))), db)
      else (case authenticator_verify env (or_empty twoFactorCode) (twoFactorSecret u) of
              Inl e \<Rightarrow> (Failure 500 ''Login failed'' NoDetail, db)
            | Inr is2FAValid \<Rightarrow>
                if \<not> is2FAValid then (Failure 401 ''Invalid 2FA code'' NoDetail, db)
                else (Success 200 ''Login successful''
                        \<lparr> login_id = user_id u, login_username = username u,
                          login_walletAddresses = walletAddresses_of u,
                          login_twoFactorEnabled = twoFactorEnabled u,
                          login_lastLogin = Some (now env),
                          login_platformFeeBalance = platformFeeBalance u,
                          login_token = jwt_sign env (user_id u) \<rparr>,
                      save (u \<lparr> lastLogin := Some (now env),
                               lastTwoFactorVerification := Some (now env) \<rparr>) db)))"
  using assms by (simp add: login_def Let_def walletAddresses_of_def split: sum.splits)

lemma phone_valid: "fst (validateDeviceInfo (Some phone))"
  by (simp add: validateDeviceInfo_def phone_def truthy_def or_empty_def units_def)

lemma other_phone_valid: "fst (validateDeviceInfo (Some other_phone))"
  by (simp add: validateDeviceInfo_def other_phone_def phone_def truthy_def or_empty_def units_def)

lemma normalize_phone: "normalizeDeviceInfo sample_auth_env phone = phone"
  by (simp add: normalizeDeviceInfo_def phone_def truthy_def trim_def is_space_def units_def)

lemma normalize_other_phone: "normalizeDeviceInfo sample_auth_env other_phone = other_phone"
  by (simp add: normalizeDeviceInfo_def other_phone_def phone_def truthy_def trim_def is_space_def
        units_def)

lemma found_alice:
  "findCandidate sample_auth_env (filter isActive [alice, bob])
     (or_empty (Some ''code-a'')) (or_empty (Some ''key-a'')) = Inr (Some alice)"
  by (simp add: alice_def bob_def and_then_def verifySecurityCode_def verifyHashKey_def
        sample_auth_env_def or_empty_def)

text \<open>
  C4, as stated: login authenticates if and only if some active account verifies both
  factors. The credentials are only the first check. Below, both factors verify against
  alice's digests and the device is hers, but the TOTP code is wrong: the login is
  refused with 401 "Invalid 2FA code".
\<close>

theorem C4_counterexample:
  "isActive alice
   \<and> both_verify sample_auth_env alice ''code-a'' ''key-a''
   \<and> login sample_auth_env [alice, bob] (Some ''code-a'') (Some ''key-a'') (Some phone) (Some ''000000'')
       = (Failure 401 ''Invalid 2FA code'' NoDetail, [alice, bob])"
proof -
  have t: "truthy (Some ''code-a'')" "truthy (Some ''key-a'')" "truthy (Some ''000000'')"
    by (simp_all add: truthy_def)
  have 1: "isActive alice" by (simp add: alice_def)
  have 2: "both_verify sample_auth_env alice ''code-a'' ''key-a''"
    by (simp add: both_verify_def verifySecurityCode_def verifyHashKey_def alice_def
          sample_auth_env_def)
  have dev: "user_verifyDevice alice (normalizeDeviceInfo sample_auth_env phone)"
    unfolding normalize_phone by (simp add: user_verifyDevice_def alice_def)
  have unlocked: "\<not> isLocked alice" by (simp add: alice_def)
  have totp: "authenticator_verify sample_auth_env (or_empty (Some ''000000'')) (twoFactorSecret alice)
                = Inr False"
    by (simp add: sample_auth_env_def alice_def or_empty_def)
  have 3: "login sample_auth_env [alice, bob] (Some ''code-a'') (Some ''key-a'') (Some phone) (Some ''000000'')
       = (Failure 401 ''Invalid 2FA code'' NoDetail, [alice, bob])"
    using login_candidate[OF t phone_valid found_alice] dev unlocked totp by simp
  from 1 2 3 show ?thesis by simp
qed

text \<open>
  C4, amended, for a collection whose documents carry both digests (the schema requires
  them). Login succeeds if and only if the request carries the security code, the hash
  key, the TOTP code and a valid device descriptor, and the first active account in scan
  order that verifies both the security code and the hash key against its own two digests
  is not locked, is bound to the presented device, and accepts the TOTP code. Every
  successful login is into an active account for which both factors verify, so a pair
  whose code matches one account and whose key matches another never authenticates. And
  for a complete request the answer is the uniform 401 "Invalid credentials" exactly
  when no active account verifies both factors, whichever factor failed.
\<close>

theorem C4_login_amended:
  assumes digests: "\<forall>u \<in> set db. securityCodeHash u \<noteq> None \<and> hashKeyHash u \<noteq> None"
  shows "((\<exists>data db'. login env db securityCode hashKey deviceInfo' twoFactorCode
                        = (Success 200 ''Login successful'' data, db'))
          = (truthy securityCode \<and> truthy hashKey \<and> truthy twoFactorCode
             \<and> (\<exists>d u. deviceInfo' = Some d \<and> fst (validateDeviceInfo (Some d))
                  \<and> find (\<lambda>u. both_verify env u (or_empty securityCode) (or_empty hashKey))
                       (filter isActive db) = Some u
                  \<and> \<not> isLocked u
                  \<and> user_verifyDevice u (normalizeDeviceInfo env d)
                  \<and> authenticator_verify env (or_empty twoFactorCode) (twoFactorSecret u) = Inr True)))
       \<and> (\<forall>st m data db'.
             login env db securityCode hashKey deviceInfo' twoFactorCode = (Success st m data, db')
             \<longrightarrow> (\<exists>u \<in> set db. isActive u
                     \<and> both_verify env u (or_empty securityCode) (or_empty hashKey)
                     \<and> login_id data = user_id u))
       \<and> (truthy securityCode \<and> truthy hashKey \<and> truthy twoFactorCode
            \<and> (\<exists>d. deviceInfo' = Some d \<and> fst (validateDeviceInfo (Some d)))
          \<longrightarrow> (fst (login env db securityCode hashKey deviceInfo' twoFactorCode)
                   = Failure 401 ''Invalid credentials'' NoDetail)
               = (\<not> (\<exists>u \<in> set db. isActive u
                        \<and> both_verify env u (or_empty securityCode) (or_empty hashKey))))"
proof -
  let ?P = "\<lambda>u. both_verify env u (or_empty securityCode) (or_empty hashKey)"
  let ?login = "login env db securityCode hashKey deviceInfo' twoFactorCode"
  let ?complete = "truthy securityCode \<and> truthy hashKey \<and> truthy twoFactorCode
            \<and> (\<exists>d. deviceInfo' = Some d \<and> fst (validateDeviceInfo (Some d)))"
  have fc: "findCandidate env (filter isActive db) (or_empty securityCode) (or_empty hashKey)
              = Inr (find ?P (filter isActive db))"
    by (rule findCandidate_find) (use digests in auto)
  show ?thesis
  proof (cases ?complete)
    case False
    then have "deviceInfo' = None \<or> \<not> truthy securityCode \<or> \<not> truthy hashKey \<or> \<not> truthy twoFactorCode
           \<or> \<not> fst (validateDeviceInfo deviceInfo')"
      by (cases deviceInfo') auto
    from login_incomplete[OF this, of env db] obtain m det where
      l: "?login = (Failure 400 m det, db)" by blast
    show ?thesis using False unfolding l by auto
  next
    case True
    then obtain d where d: "deviceInfo' = Some d" "fst (validateDeviceInfo (Some d))" by blast
    have t: "truthy securityCode" "truthy hashKey" "truthy twoFactorCode" using True by auto
    show ?thesis
    proof (cases "find ?P (filter isActive db)")
      case None
      then have no: "\<not> (\<exists>u \<in> set db. isActive u \<and> ?P u)"
        by (auto simp: find_None_iff)
      have l: "?login = (Failure 401 ''Invalid credentials'' NoDetail, db)"
        unfolding d(1) using login_no_candidate[OF t d(2)] fc None by simp
      show ?thesis using no None True unfolding l by auto
    next
      case (Some u)
      then have u: "u \<in> set db" "isActive u" "?P u"
        using findCandidate_Some[of env "filter isActive db" _ _ u] fc by auto
      have found: "findCandidate env (filter isActive db) (or_empty securityCode) (or_empty hashKey)
              = Inr (Some u)" using fc Some by simp
      note l = login_candidate[OF t d(2) found, folded d(1)]
      have iff: "(\<exists>data db'. ?login = (Success 200 ''Login successful'' data, db'))
               = (\<not> isLocked u \<and> user_verifyDevice u (normalizeDeviceInfo env d)
                  \<and> authenticator_verify env (or_empty twoFactorCode) (twoFactorSecret u) = Inr True)"
        unfolding l by (auto split: sum.splits)
      have not401: "fst ?login \<noteq> Failure 401 ''Invalid credentials'' NoDetail"
        unfolding l by (simp split: sum.splits)
      have succ: "\<forall>st m data db'. ?login = (Success st m data, db') \<longrightarrow> login_id data = user_id u"
        unfolding l by (auto split: sum.splits if_splits)
      have c1: "(\<exists>data db'. ?login = (Success 200 ''Login successful'' data, db'))
          = (truthy securityCode \<and> truthy hashKey \<and> truthy twoFactorCode
             \<and> (\<exists>d u. deviceInfo' = Some d \<and> fst (validateDeviceInfo (Some d))
                  \<and> find ?P (filter isActive db) = Some u
                  \<and> \<not> isLocked u
                  \<and> user_verifyDevice u (normalizeDeviceInfo env d)
                  \<and> authenticator_verify env (or_empty twoFactorCode) (twoFactorSecret u) = Inr True))"
        unfolding iff using t d Some by auto
      have c2: "\<forall>st m data db'. ?login = (Success st m data, db')
             \<longrightarrow> (\<exists>u \<in> set db. isActive u \<and> ?P u \<and> login_id data = user_id u)"
        using succ u by blast
      have c3: "(fst ?login = Failure 401 ''Invalid credentials'' NoDetail)
               = (\<not> (\<exists>u \<in> set db. isActive u \<and> ?P u))"
        using not401 u by blast
      from c1 c2 c3 show ?thesis by blast
    qed
  qed
qed

text \<open>Alice's code, key, device and a valid TOTP code log her in; her code with bob's key
  is answered with "Invalid credentials".\<close>

theorem C4_login_amended_witness:
  "(\<exists>data db'. login sample_auth_env [alice, bob] (Some ''code-a'') (Some ''key-a'') (Some phone)
                  (Some ''TERCES'') = (Success 200 ''Login successful'' data, db'))
   \<and> fst (login sample_auth_env [alice, bob] (Some ''code-a'') (Some ''key-b'') (Some phone) (Some ''TERCES''))
     = Failure 401 ''Invalid credentials'' NoDetail"
proof -
  have t: "truthy (Some ''code-a'')" "truthy (Some ''key-b'')" "truthy (Some ''key-a'')" "truthy (Some ''TERCES'')"
    by (simp_all add: truthy_def)
  have dg: "\<forall>u \<in> set [alice, bob]. securityCodeHash u \<noteq> None \<and> hashKeyHash u \<noteq> None"
    by (simp add: alice_def bob_def)
  have cross: "\<not> (\<exists>u \<in> set [alice, bob]. isActive u
                   \<and> both_verify sample_auth_env u (or_empty (Some ''code-a'')) (or_empty (Some ''key-b'')))"
    by (simp add: alice_def bob_def both_verify_def verifySecurityCode_def verifyHashKey_def
          sample_auth_env_def or_empty_def)
  have first: "find (\<lambda>u. both_verify sample_auth_env u (or_empty (Some ''code-a'')) (or_empty (Some ''key-a'')))
                 (filter isActive [alice, bob]) = Some alice"
    by (simp add: alice_def bob_def both_verify_def verifySecurityCode_def verifyHashKey_def
          sample_auth_env_def or_empty_def)
  have dev: "user_verifyDevice alice (normalizeDeviceInfo sample_auth_env phone)"
    unfolding normalize_phone by (simp add: user_verifyDevice_def alice_def)
  have unlocked: "\<not> isLocked alice" by (simp add: alice_def)
  have totp: "authenticator_verify sample_auth_env (or_empty (Some ''TERCES'')) (twoFactorSecret alice)
                = Inr True"
    by (simp add: sample_auth_env_def alice_def or_empty_def)
  have ok: "\<exists>data db'. login sample_auth_env [alice, bob] (Some ''code-a'') (Some ''key-a'') (Some phone)
                  (Some ''TERCES'') = (Success 200 ''Login successful'' data, db')"
    using C4_login_amended[OF dg, where env = sample_auth_env and securityCode = "Some ''code-a''"
            and hashKey = "Some ''key-a''" and deviceInfo' = "Some phone"
            and twoFactorCode = "Some ''TERCES''", THEN conjunct1]
          t phone_valid first dev unlocked totp by blast
  have no: "fst (login sample_auth_env [alice, bob] (Some ''code-a'') (Some ''key-b'') (Some phone) (Some ''TERCES''))
     = Failure 401 ''Invalid credentials'' NoDetail"
    using C4_login_amended[OF dg, where env = sample_auth_env and securityCode = "Some ''code-a''"
            and hashKey = "Some ''key-b''" and deviceInfo' = "Some phone"
            and twoFactorCode = "Some ''TERCES''", THEN conjunct2, THEN conjunct2]
          t phone_valid cross by blast
  from ok no show ?thesis by simp
qed

text \<open>
  C5: when the credentials select an unlocked account and the normalised device does not
  match its stored binding (device id or fingerprint differs), \<open>login\<close> answers 403
  "Device verification failed" with the analysis of the change; the risk level is medium
  or high, a differing device id is among the reasons, and the collection is returned as
  it was: no document is saved, so the stored device and the login timestamps stay.
\<close>

theorem C5_device_mismatch:
  assumes "truthy securityCode" and "truthy hashKey" and "truthy twoFactorCode"
      and "fst (validateDeviceInfo (Some d))"
      and found: "findCandidate env (filter isActive db) (or_empty securityCode) (or_empty hashKey)
                    = Inr (Some u)"
      and "\<not> isLocked u"
      and mismatch: "\<not> user_verifyDevice u (normalizeDeviceInfo env d)"
  shows "\<exists>r rs. login env db securityCode hashKey (Some d) twoFactorCode
                  = (Failure 403 ''Device verification failed'' (Analysis (Some r) rs), db)
               \<and> r \<noteq> Low
               \<and> rs = reasons (analyzeDeviceChange (Some (deviceInfo u)) (Some (normalizeDeviceInfo env d)))
               \<and> (deviceId (deviceInfo u) \<noteq> deviceId (normalizeDeviceInfo env d)
                    \<longrightarrow> ''Device ID changed completely'' \<in> set rs)"
proof -
  let ?n = "normalizeDeviceInfo env d"
  let ?a = "analyzeDeviceChange (Some (deviceInfo u)) (Some ?n)"
  have l: "login env db securityCode hashKey (Some d) twoFactorCode
             = (Failure 403 ''Device verification failed'' (Analysis (riskLevel ?a) (reasons ?a)), db)"
    using login_candidate[OF assms(1-4) found] assms(6) mismatch by simp
  have diff: "deviceId (deviceInfo u) \<noteq> deviceId ?n \<or> fingerprint (deviceInfo u) \<noteq> fingerprint ?n"
    using mismatch by (auto simp: user_verifyDevice_def)
  then have risk: "riskLevel ?a = Some Medium \<or> riskLevel ?a = Some High"
    by (auto simp: analyzeDeviceChange_def Let_def)
  have idr: "deviceId (deviceInfo u) \<noteq> deviceId ?n \<longrightarrow> ''Device ID changed completely'' \<in> set (reasons ?a)"
    by (simp add: analyzeDeviceChange_def Let_def)
  from risk show ?thesis
  proof
    assume "riskLevel ?a = Some Medium"
    then show ?thesis using l idr by (intro exI[of _ Medium] exI[of _ "reasons ?a"]) simp
  next
    assume "riskLevel ?a = Some High"
    then show ?thesis using l idr by (intro exI[of _ High] exI[of _ "reasons ?a"]) simp
  qed
qed

theorem C5_device_mismatch_witness:
  "login sample_auth_env [alice, bob] (Some ''code-a'') (Some ''key-a'') (Some other_phone) (Some ''TERCES'')
     = (Failure 403 ''Device verification failed''
          (Analysis (Some Medium) [''Device ID changed completely'']), [alice, bob])"
proof -
  have t: "truthy (Some ''code-a'')" "truthy (Some ''key-a'')" "truthy (Some ''TERCES'')"
    by (simp_all add: truthy_def)
  have unlocked: "\<not> isLocked alice" by (simp add: alice_def)
  note norm = normalize_other_phone
  have mism: "\<not> user_verifyDevice alice (normalizeDeviceInfo sample_auth_env other_phone)"
    unfolding norm by (simp add: user_verifyDevice_def alice_def other_phone_def phone_def units_eq_iff)
  from C5_device_mismatch[OF t other_phone_valid found_alice unlocked mism]
  obtain r rs where
    l: "login sample_auth_env [alice, bob] (Some ''code-a'') (Some ''key-a'') (Some other_phone) (Some ''TERCES'')
        = (Failure 403 ''Device verification failed'' (Analysis (Some r) rs), [alice, bob])"
    and rs: "rs = reasons (analyzeDeviceChange (Some (deviceInfo alice))
                   (Some (normalizeDeviceInfo sample_auth_env other_phone)))"
    and r: "r \<noteq> Low" by blast
  have rs': "rs = [''Device ID changed completely'']"
    unfolding rs norm
    by (simp add: analyzeDeviceChange_def alice_def other_phone_def phone_def truthy_def units_eq_iff)
  have "login sample_auth_env [alice, bob] (Some ''code-a'') (Some ''key-a'') (Some other_phone) (Some ''TERCES'')
     = (Failure 403 ''Device verification failed''
          (Analysis (riskLevel (analyzeDeviceChange (Some (deviceInfo alice)) (Some other_phone)))
             (reasons (analyzeDeviceChange (Some (deviceInfo alice)) (Some other_phone)))), [alice, bob])"
    using login_candidate[OF t other_phone_valid found_alice] unlocked mism norm by simp
  then have "r = Medium"
    using l by (simp add: analyzeDeviceChange_def alice_def other_phone_def phone_def truthy_def units_eq_iff)
  then show ?thesis using l rs' by simp
qed

text \<open>A device id with a trailing no-break space is the stored device id once it is
  normalised: the request passes the device check.\<close>

lemma trim_no_break_space:
  "trim (units ''device-0123456789'' @ [0x00A0]) = units ''device-0123456789''"
  by (simp add: trim_def is_space_def units_def)

section \<open>TOTP regeneration\<close>

lemma regenerate2FA_route_never_replaces:
  assumes "\<forall>tok. authenticator_verify env tok None \<noteq> Inr True"
  shows "fst (snd (regenerate2FA_route env db g authHeader twoFactorCode)) = db
       \<and> (\<forall>st m x. fst (regenerate2FA_route env db g authHeader twoFactorCode) \<noteq> Success st m x)"
proof (cases "authMiddleware env db authHeader")
  case (Inl f)
  then show ?thesis by (cases f) (simp add: regenerate2FA_route_def)
next
  case (Inr u)
  then have "twoFactorSecret u = None"
    by (auto simp: authMiddleware_def select_without_secrets_def
             split: option.splits if_splits sum.splits error.splits)
  then show ?thesis
    using Inr assms
    by (auto simp: regenerate2FA_route_def regenerate2FA_def split: sum.splits)
qed

lemma regenerate2FA_on_full_document:
  assumes "truthy twoFactorCode"
      and "authenticator_verify env (or_empty twoFactorCode) (twoFactorSecret u) = Inr True"
      and "generateSecret env g = (fresh, g')"
  shows "fst (snd (regenerate2FA env u db g twoFactorCode)) = save (u \<lparr> twoFactorSecret := Some fresh \<rparr>) db"
  using assms by (simp add: regenerate2FA_def Let_def split: sum.splits)

text \<open>
  C9: the claim is that a code valid for the stored secret makes the regeneration replace
  the secret. On the route this never happens. \<open>authMiddleware\<close> loads the account without
  \<open>twoFactorSecret\<close>, \<open>regenerate2FA\<close> verifies the code against that undefined field, and
  the request fails with the stored secret unchanged. Below, the code \<open>TERCES\<close> is valid
  for alice's stored secret, her token is accepted, and the answer is 500.
  (\<open>regenerate2FA_route_never_replaces\<close> is the same for every request, and
  \<open>regenerate2FA_on_full_document\<close> shows the controller doing what the claim says once
  it is given the whole document.)
\<close>

theorem C9_regenerate_rejects_valid_code:
  "authenticator_verify sample_auth_env ''TERCES'' (twoFactorSecret alice) = Inr True
   \<and> authMiddleware sample_auth_env [alice, bob] (Some ''Bearer jwt-x'') = Inr (select_without_secrets alice)
   \<and> regenerate2FA_route sample_auth_env [alice, bob] counting (Some ''Bearer jwt-x'') (Some ''TERCES'')
       = (Failure 500 ''2FA regeneration failed'' NoDetail, [alice, bob], counting)"
  by (simp add: regenerate2FA_route_def regenerate2FA_def authMiddleware_def sample_auth_env_def
        alice_def bob_def select_without_secrets_def startsWith_def truthy_def or_empty_def)

section \<open>Platform fee\<close>

text \<open>
  C10: for a request that passes the checks before the fee (fields present, a positive
  amount, a supported chain, a wallet with an encrypted key), if the fee \<open>amount *
  (percentage / 100)\<close>, as the doubles give it, exceeds the account's platform fee balance
  then \<open>sendCrypto\<close> answers 400 "Insufficient platform fee balance", makes no call to
  \<open>sendTransaction\<close> and leaves the collection as it was. And for every request: a call to
  \<open>sendTransaction\<close> is made only when the balance covers the fee; and either the
  collection is unchanged and the answer is not a success, or exactly one call to
  \<open>sendTransaction\<close> was made, it returned a result, and the fee was deducted.
\<close>

theorem C10_fee_gate:
  assumes "truthy coinType" and "truthy chain'" and "truthy recipient" and "truthy amount'"
      and "parseFloat wenv (or_empty amount') = a" and "\<not> js_isNaN a" and "\<not> js_le a (Finite 0)"
      and "selectWallet u (toLowerCase (or_empty chain')) = Some wallet"
      and "truthy (field wallet ''encryptedPrivateKey'')"
      and "js_lt (platformFeeBalance u) (feeAmount_of wenv a)"
  shows "sendCrypto wenv u db coinType chain' recipient amount' tokenAddress
           = (Failure 400 ''Insufficient platform fee balance (SHIBAU tokens required)''
                (FeeShortfall (feeAmount_of wenv a) (platformFeeBalance u)), db, [])
       \<and> (\<forall>c k r m t resp db' calls.
             sendCrypto wenv u db c k r m t = (resp, db', calls) \<longrightarrow>
               (calls \<noteq> [] \<longrightarrow>
                  \<not> js_lt (platformFeeBalance u) (feeAmount_of wenv (parseFloat wenv (or_empty m))))
               \<and> ((db' = db \<and> (\<forall>st msg x. resp \<noteq> Success st msg x))
                  \<or> (\<exists>p res. calls = [p] \<and> sendTx wenv p = Inr res
                        \<and> db' = save (u \<lparr> platformFeeBalance :=
                                 js_sub (platformFeeBalance u)
                                   (feeAmount_of wenv (parseFloat wenv (or_empty m))) \<rparr>) db)))"
proof (intro conjI allI impI)
  show "sendCrypto wenv u db coinType chain' recipient amount' tokenAddress
           = (Failure 400 ''Insufficient platform fee balance (SHIBAU tokens required)''
                (FeeShortfall (feeAmount_of wenv a) (platformFeeBalance u)), db, [])"
    using assms by (simp add: sendCrypto_def Let_def)
next
  fix c k r m t resp db' calls
  assume s: "sendCrypto wenv u db c k r m t = (resp, db', calls)"
  show "\<not> js_lt (platformFeeBalance u) (feeAmount_of wenv (parseFloat wenv (or_empty m)))"
    if "calls \<noteq> []"
    using s that
    by (auto simp: sendCrypto_def Let_def split: if_splits option.splits sum.splits)
  show "(db' = db \<and> (\<forall>st msg x. resp \<noteq> Success st msg x))
         \<or> (\<exists>p res. calls = [p] \<and> sendTx wenv p = Inr res
               \<and> db' = save (u \<lparr> platformFeeBalance :=
                        js_sub (platformFeeBalance u)
                          (feeAmount_of wenv (parseFloat wenv (or_empty m))) \<rparr>) db)"
    using s
    by (auto simp: sendCrypto_def Let_def split: if_splits option.splits sum.splits)
qed

lemma default_fee_of_9: "feeAmount_of sample_wallet_env (Finite 9) = Finite (1297036692682703 / 144115188075855872)"
  by (simp only: feeAmount_of_def platformFeePercentage_def sample_wallet_env_def
        wallet_env.simps option.case Let_def js_falsy_def simp_thms if_True double_0_001 fee_of_9)

text \<open>Carol holds 0.009 fee tokens and sends 9 coins at the default fee of 0.1 percent. The
  fee is the double 9 * 0.001, which is 0.009000000000000001: the request is refused.\<close>

theorem C10_fee_gate_witness:
  "sendCrypto sample_wallet_env carol [carol] (Some ''BTC'') (Some ''Bitcoin'') (Some ''bc1qrecipient'')
       (Some ''9'') None
     = (Failure 400 ''Insufficient platform fee balance (SHIBAU tokens required)''
          (FeeShortfall (Finite (1297036692682703 / 144115188075855872))
                        (Finite (5188146770730811 / 576460752303423488))), [carol], [])"
proof -
  have t: "truthy (Some ''BTC'')" "truthy (Some ''Bitcoin'')" "truthy (Some ''bc1qrecipient'')"
     "truthy (Some ''9'')" by (simp_all add: truthy_def)
  have p: "parseFloat sample_wallet_env (or_empty (Some ''9'')) = Finite 9"
    by (simp add: sample_wallet_env_def or_empty_def)
  have nan: "\<not> js_isNaN (Finite 9)" by (simp add: js_isNaN_def)
  have pos: "\<not> js_le (Finite 9) (Finite 0)" by (simp add: js_le_def)
  have lower: "toLowerCase (or_empty (Some ''Bitcoin'')) = ''bitcoin''"
    by code_simp
  have w: "selectWallet carol (toLowerCase (or_empty (Some ''Bitcoin''))) = Some (stored_wallet ''bc1qa1'')"
    unfolding lower by (simp add: selectWallet_def carol_def alice_def)
  have k: "truthy (field (stored_wallet ''bc1qa1'') ''encryptedPrivateKey'')"
    by (simp add: field_def stored_wallet_def truthy_def)
  have bal: "platformFeeBalance carol = Finite (5188146770730811 / 576460752303423488)"
    by (simp add: carol_def double_0_009)
  have short: "js_lt (platformFeeBalance carol) (feeAmount_of sample_wallet_env (Finite 9))"
    unfolding bal default_fee_of_9 by simp
  from C10_fee_gate[OF t p nan pos w k short, of "[carol]" None, THEN conjunct1]
  show ?thesis unfolding bal default_fee_of_9 .
qed

text \<open>The other side of the rounding: at 3 percent, the exact fee of 166.66666666666669
  coins is a little more than 5, but the product of the doubles is 5. An account that holds
  5 fee tokens passes the test, the transaction is sent and the balance becomes 0.\<close>

lemma percent_fee:
  "feeAmount_of percent_env (Finite (2932031007402667 / 17592186044416)) = Finite 5"
proof -
  have d: "js_div (Finite 3) (Finite 100) = Finite (1080863910568919 / 36028797018963968)"
    by (simp, subst round_double_eval[where k = "- 6"]) (simp_all add: double_eval)
  have m: "js_mul (Finite (2932031007402667 / 17592186044416))
             (Finite (1080863910568919 / 36028797018963968)) = Finite 5"
    by (simp, subst round_double_eval[where k = "2"]) (simp_all add: double_eval)
  have pct: "platformFeePercentage percent_env = Finite 3"
    by (simp add: platformFeePercentage_def percent_env_def js_falsy_def)
  show ?thesis unfolding feeAmount_of_def pct d m ..
qed

lemma sendCrypto_rounded_fee:
  "(5::rat) < 2932031007402667 / 17592186044416 * (3 / 100)
   \<and> sendCrypto percent_env (carol \<lparr> platformFeeBalance := Finite 5 \<rparr>) [carol]
       (Some ''BTC'') (Some ''bitcoin'') (Some ''bc1qrecipient'') (Some ''166.66666666666669'') None
     = (Success 200 ''Transaction sent successfully''
          \<lparr> transaction = ''0xhash-bc1qrecipient'', platformFee = Finite 5,
            remainingBalance = Finite 0 \<rparr>,
        [carol \<lparr> platformFeeBalance := Finite 0 \<rparr>],
        [\<lparr> tx_chain = ''bitcoin'', tx_to = ''bc1qrecipient'',
           tx_amount = Finite (2932031007402667 / 17592186044416),
           tx_encryptedPrivateKey = ''blob-key-bc1qa1'', tx_tokenAddress = None,
           tx_privateKey = None \<rparr>])"
proof -
  have lower: "toLowerCase ''bitcoin'' = ''bitcoin''" by code_simp
  have z: "js_sub (Finite 5) (Finite 5) = Finite 0" by (simp add: js_sub_def round_double_def)
  have p: "parseFloat percent_env ''166.66666666666669'' = Finite (2932031007402667 / 17592186044416)"
    by (simp add: percent_env_def)
  have s: "sendTx percent_env = (\<lambda>p. Inr (''0xhash-'' @ tx_to p))" by (simp add: percent_env_def)
  show ?thesis
    by (simp add: sendCrypto_def Let_def truthy_def or_empty_def lower p percent_fee z s
          js_isNaN_def js_le_def selectWallet_def carol_def alice_def stored_wallet_def field_def
          merge_fields_def)
qed

text \<open>A remark on the repository's own \<open>sendTransaction\<close>: it validates the parameters
  before it decrypts the key, and the validation demands a \<open>privateKey\<close>. The object that
  \<open>sendCrypto\<close> passes has none, so every such call is rejected and no chain adapter runs;
  with this function in place \<open>sendCrypto\<close> never deducts a fee.\<close>

lemma sendTransaction_without_privateKey:
  assumes "tx_privateKey params = None"
  shows "\<exists>e. sendTransaction checks lib encryptionKey adapters params = Inl e"
  using assms
  by (simp add: sendTransaction_def validateTransactionParams_def rethrow_def truthy_def Let_def)

lemma sendCrypto_with_sendTransaction:
  assumes "sendTx wenv = sendTransaction checks lib encryptionKey adapters"
      and "sendCrypto wenv u db c k r m t = (resp, db', calls)"
  shows "db' = db \<and> (\<forall>st msg x. resp \<noteq> Success st msg x)"
proof -
  have nosucc: "tx_privateKey p \<noteq> None" if "sendTx wenv p = Inr x" for p x
  proof
    assume "tx_privateKey p = None"
    from sendTransaction_without_privateKey[OF this, of checks lib encryptionKey adapters]
    show False using that unfolding assms(1) by auto
  qed
  show ?thesis
    using assms(2)
    by (auto simp: sendCrypto_def Let_def split: if_splits option.splits sum.splits dest!: nosucc)
qed

section \<open>Registration: wallets and key material\<close>

lemma and_then_InrE:
  assumes "and_then r f = Inr y"
  obtains x where "r = Inr x" "f x = Inr y"
  using assms by (cases r) (simp_all add: and_then_def)

lemma and_then_pairE:
  assumes "and_then r (\<lambda>(a, b). f a b) = Inr y"
  obtains a b where "r = Inr (a, b)" "f a b = Inr y"
proof -
  from assms obtain x where x: "r = Inr x" "(\<lambda>(a, b). f a b) x = Inr y"
    by (rule and_then_InrE)
  then show ?thesis using that by (cases x) simp
qed

lemma rethrow_InrD: "rethrow p r = Inr y \<Longrightarrow> r = Inr y"
  by (cases r) (simp_all add: rethrow_def)

lemma encrypt_blob_shaped:
  assumes "cipher_inverts lib" and enc: "encrypt lib encryptionKey text g = Inr (blob, g')"
  shows "blob_shaped lib blob"
proof -
  from encrypt_Inr_D[OF enc] obtain ek t where
    kt: "encryptionKey = Some ek" "text = Some t" "32 \<le> length ek" "t \<noteq> []" by blast
  let ?ct = "cipher lib (deriveKey lib ek (map g [0..<64])) (aad lib) (utf8_encode lib t)"
  have blob: "blob = base64_encode lib (envelope lib ek t g)"
    using enc encrypt_envelope[OF kt(3,4), of lib g] unfolding kt(1,2) by simp
  have tag: "length (snd ?ct) = 16" using assms(1) unfolding cipher_inverts_def by blast
  have "[0..<80] = [0..<64] @ [64..<80]" using upt_add_eq_append[of 0 64 16] by simp
  then have "envelope lib ek t g = map g [0..<64] @ map g [64..<80] @ snd ?ct @ fst ?ct"
    by (simp add: envelope_def)
  then show ?thesis
    unfolding blob_shaped_def blob using tag
    by (intro exI[of _ "map g [0..<64]"] exI[of _ "map g [64..<80]"] exI[of _ "snd ?ct"]
              exI[of _ "fst ?ct"]) simp
qed

text \<open>Every blob that \<open>encrypt\<close> returns for a key or a seed enciphers it.\<close>

lemma encrypt_enciphers:
  assumes "codecs_invert lib" and "cipher_inverts lib"
      and enc: "encrypt lib encryptionKey (Some (units s)) g = Inr (blob, g')"
  shows "enciphers lib encryptionKey s blob"
proof -
  from encrypt_Inr_D[OF enc] obtain ek where
    kt: "encryptionKey = Some ek" "32 \<le> length ek" "units s \<noteq> []" by auto
  have blob: "blob = base64_encode lib (envelope lib ek (units s) g)"
    using enc encrypt_envelope[OF kt(2,3), of lib g] unfolding kt(1) by simp
  have utf: "utf8_decode lib (utf8_encode lib (units s)) = units s"
    using assms(1) well_formed_units unfolding codecs_invert_def by blast
  have "decrypt lib encryptionKey (Some blob) = Inr (units s)"
    unfolding kt(1) blob using decrypt_encrypt[OF assms(1,2) kt(2,3), of g] utf by simp
  moreover have "blob_shaped lib blob" by (rule encrypt_blob_shaped[OF assms(2) enc])
  ultimately show ?thesis unfolding enciphers_def using enc by blast
qed

lemma generateEthereumWallet_address:
  assumes "nonempty_addresses klib" "generateEthereumWallet klib None g = Inr (w, g')"
  shows "eth_address w \<noteq> []"
proof -
  from assms(2) have "eth_address w = eth_address (fst (ethers_createRandom klib g))"
    by (auto simp: generateEthereumWallet_def truthy_def and_then_def
             dest!: rethrow_InrD split: prod.splits)
  then show ?thesis using assms(1) by (simp add: nonempty_addresses_def)
qed

lemma generateBitcoinWallet_address:
  assumes "nonempty_addresses klib" "generateBitcoinWallet klib seed g = Inr (w, g')"
  shows "btc_address w \<noteq> []"
proof -
  from assms(2) obtain k a p x where "btc_keyPair klib k = Inr (a, btc_address w, p, x)"
    by (auto simp: generateBitcoinWallet_def Let_def
             dest!: rethrow_InrD elim!: and_then_InrE split: prod.splits if_splits)
  then show ?thesis using assms(1) unfolding nonempty_addresses_def by blast
qed

lemma generateTronWallet_address:
  assumes "nonempty_addresses klib" "generateTronWallet klib seed g = Inr (w, g')"
  shows "tron_address w \<noteq> []"
proof -
  from assms(2) obtain k where "tron_fromPrivateKey klib k = Inr (tron_address w)"
    by (auto simp: generateTronWallet_def Let_def
             dest!: rethrow_InrD elim!: and_then_InrE split: prod.splits if_splits)
  then show ?thesis using assms(1) unfolding nonempty_addresses_def by blast
qed

text \<open>What a successful \<open>generateAllWallets\<close> returns: the three wallets that the key
  libraries generated, with their keys and seeds enciphered, and beside them the public
  keys, the legacy and hexadecimal addresses and the WIF export of the Bitcoin key.\<close>

lemma generateAllWallets_Inr:
  assumes gen: "generateAllWallets klib lib encryptionKey masterSeed g = Inr ((w, seed), g')"
      and lib: "codecs_invert lib" "cipher_inverts lib"
  shows "\<exists>ethWallet btcWallet tronWallet mn k1 s1 k2 s2 k3 s3 ga gb gc gd ge gf.
           generateEthereumWallet klib None ga = Inr (ethWallet, gb)
         \<and> generateBitcoinWallet klib (Some (seed @ ''_btc'')) gc = Inr (btcWallet, gd)
         \<and> generateTronWallet klib (Some (seed @ ''_tron'')) ge = Inr (tronWallet, gf)
         \<and> eth_mnemonic ethWallet = Some mn
         \<and> w = \<lparr> ethereum = [(''address'', eth_address ethWallet), (''encryptedPrivateKey'', k1),
                              (''encryptedSeed'', s1), (''publicKey'', eth_publicKey ethWallet)],
                 bitcoin = [(''address'', btc_address btcWallet),
                            (''legacyAddress'', legacyAddress btcWallet),
                            (''encryptedPrivateKey'', k2), (''encryptedSeed'', s2),
                            (''publicKey'', btc_publicKey btcWallet), (''wif'', wif btcWallet)],
                 tron = [(''address'', tron_address tronWallet), (''hexAddress'', hexAddress tronWallet),
                         (''encryptedPrivateKey'', k3), (''encryptedSeed'', s3)] \<rparr>
         \<and> enciphers lib encryptionKey (eth_privateKey ethWallet) k1
         \<and> enciphers lib encryptionKey mn s1
         \<and> enciphers lib encryptionKey (btc_privateKey btcWallet) k2
         \<and> enciphers lib encryptionKey (seed @ ''_btc'') s2
         \<and> enciphers lib encryptionKey (tron_privateKey tronWallet) k3
         \<and> enciphers lib encryptionKey (seed @ ''_tron'') s3"
proof -
  obtain seed0 g0 where s0: "(if truthy masterSeed then (or_empty masterSeed, g)
                          else (hex_encode (fst (randomBytes 64 g)), snd (randomBytes 64 g))) = (seed0, g0)"
    by (cases "(if truthy masterSeed then (or_empty masterSeed, g)
                          else (hex_encode (fst (randomBytes 64 g)), snd (randomBytes 64 g)))")
  from gen have body: "and_then (generateEthereumWallet klib None g0) (\<lambda>(ethWallet, g1).
           and_then (generateBitcoinWallet klib (Some (seed0 @ ''_btc'')) g1) (\<lambda>(btcWallet, g2).
           and_then (generateTronWallet klib (Some (seed0 @ ''_tron'')) g2) (\<lambda>(tronWallet, g3).
           and_then (encrypt lib encryptionKey (Some (units (eth_privateKey ethWallet))) g3) (\<lambda>(ethKey, g4).
           and_then (encrypt lib encryptionKey (map_option units (eth_mnemonic ethWallet)) g4) (\<lambda>(ethSeed, g5).
           and_then (encrypt lib encryptionKey (Some (units (btc_privateKey btcWallet))) g5) (\<lambda>(btcKey, g6).
           and_then (encrypt lib encryptionKey (Some (units (seed0 @ ''_btc''))) g6) (\<lambda>(btcSeed, g7).
           and_then (encrypt lib encryptionKey (Some (units (tron_privateKey tronWallet))) g7) (\<lambda>(tronKey, g8).
           and_then (encrypt lib encryptionKey (Some (units (seed0 @ ''_tron''))) g8) (\<lambda>(tronSeed, g9).
             Inr ((\<lparr> ethereum =
                        [(''address'', eth_address ethWallet),
                         (''encryptedPrivateKey'', ethKey),
                         (''encryptedSeed'', ethSeed),
                         (''publicKey'', eth_publicKey ethWallet)],
                      bitcoin =
                        [(''address'', btc_address btcWallet),
                         (''legacyAddress'', legacyAddress btcWallet),
                         (''encryptedPrivateKey'', btcKey),
                         (''encryptedSeed'', btcSeed),
                         (''publicKey'', btc_publicKey btcWallet),
                         (''wif'', wif btcWallet)],
                      tron =
                        [(''address'', tron_address tronWallet),
                         (''hexAddress'', hexAddress tronWallet),
                         (''encryptedPrivateKey'', tronKey),
                         (''encryptedSeed'', tronSeed)] \<rparr>,
                   seed0), g9)))))))))) = Inr ((w, seed), g')"
    unfolding generateAllWallets_def s0 Let_def prod.case by (rule rethrow_InrD)
  from body obtain ethWallet g1 where e: "generateEthereumWallet klib None g0 = Inr (ethWallet, g1)"
    and b1: "and_then (generateBitcoinWallet klib (Some (seed0 @ ''_btc'')) g1) (\<lambda>(btcWallet, g2).
           and_then (generateTronWallet klib (Some (seed0 @ ''_tron'')) g2) (\<lambda>(tronWallet, g3).
           and_then (encrypt lib encryptionKey (Some (units (eth_privateKey ethWallet))) g3) (\<lambda>(ethKey, g4).
           and_then (encrypt lib encryptionKey (map_option units (eth_mnemonic ethWallet)) g4) (\<lambda>(ethSeed, g5).
           and_then (encrypt lib encryptionKey (Some (units (btc_privateKey btcWallet))) g5) (\<lambda>(btcKey, g6).
           and_then (encrypt lib encryptionKey (Some (units (seed0 @ ''_btc''))) g6) (\<lambda>(btcSeed, g7).
           and_then (encrypt lib encryptionKey (Some (units (tron_privateKey tronWallet))) g7) (\<lambda>(tronKey, g8).
           and_then (encrypt lib encryptionKey (Some (units (seed0 @ ''_tron''))) g8) (\<lambda>(tronSeed, g9).
             Inr ((\<lparr> ethereum =
                        [(''address'', eth_address ethWallet),
                         (''encryptedPrivateKey'', ethKey),
                         (''encryptedSeed'', ethSeed),
                         (''publicKey'', eth_publicKey ethWallet)],
                      bitcoin =
                        [(''address'', btc_address btcWallet),
                         (''legacyAddress'', legacyAddress btcWallet),
                         (''encryptedPrivateKey'', btcKey),
                         (''encryptedSeed'', btcSeed),
                         (''publicKey'', btc_publicKey btcWallet),
                         (''wif'', wif btcWallet)],
                      tron =
                        [(''address'', tron_address tronWallet),
                         (''hexAddress'', hexAddress tronWallet),
                         (''encryptedPrivateKey'', tronKey),
                         (''encryptedSeed'', tronSeed)] \<rparr>,
                   seed0), g9))))))))) = Inr ((w, seed), g')"
    by (rule and_then_pairE)
  from b1 obtain btcWallet g2 where b: "generateBitcoinWallet klib (Some (seed0 @ ''_btc'')) g1 = Inr (btcWallet, g2)"
    and b2: "and_then (generateTronWallet klib (Some (seed0 @ ''_tron'')) g2) (\<lambda>(tronWallet, g3).
           and_then (encrypt lib encryptionKey (Some (units (eth_privateKey ethWallet))) g3) (\<lambda>(ethKey, g4).
           and_then (encrypt lib encryptionKey (map_option units (eth_mnemonic ethWallet)) g4) (\<lambda>(ethSeed, g5).
           and_then (encrypt lib encryptionKey (Some (units (btc_privateKey btcWallet))) g5) (\<lambda>(btcKey, g6).
           and_then (encrypt lib encryptionKey (Some (units (seed0 @ ''_btc''))) g6) (\<lambda>(btcSeed, g7).
           and_then (encrypt lib encryptionKey (Some (units (tron_privateKey tronWallet))) g7) (\<lambda>(tronKey, g8).
           and_then (encrypt lib encryptionKey (Some (units (seed0 @ ''_tron''))) g8) (\<lambda>(tronSeed, g9).
             Inr ((\<lparr> ethereum =
                        [(''address'', eth_address ethWallet),
                         (''encryptedPrivateKey'', ethKey),
                         (''encryptedSeed'', ethSeed),
                         (''publicKey'', eth_publicKey ethWallet)],
                      bitcoin =
                        [(''address'', btc_address btcWallet),
                         (''legacyAddress'', legacyAddress btcWallet),
                         (''encryptedPrivateKey'', btcKey),
                         (''encryptedSeed'', btcSeed),
                         (''publicKey'', btc_publicKey btcWallet),
                         (''wif'', wif btcWallet)],
                      tron =
                        [(''address'', tron_address tronWallet),
                         (''hexAddress'', hexAddress tronWallet),
                         (''encryptedPrivateKey'', tronKey),
                         (''encryptedSeed'', tronSeed)] \<rparr>,
                   seed0), g9)))))))) = Inr ((w, seed), g')"
    by (rule and_then_pairE)
  from b2 obtain tronWallet g3 where t: "generateTronWallet klib (Some (seed0 @ ''_tron'')) g2 = Inr (tronWallet, g3)"
    and b3: "and_then (encrypt lib encryptionKey (Some (units (eth_privateKey ethWallet))) g3) (\<lambda>(ethKey, g4).
           and_then (encrypt lib encryptionKey (map_option units (eth_mnemonic ethWallet)) g4) (\<lambda>(ethSeed, g5).
           and_then (encrypt lib encryptionKey (Some (units (btc_privateKey btcWallet))) g5) (\<lambda>(btcKey, g6).
           and_then (encrypt lib encryptionKey (Some (units (seed0 @ ''_btc''))) g6) (\<lambda>(btcSeed, g7).
           and_then (encrypt lib encryptionKey (Some (units (tron_privateKey tronWallet))) g7) (\<lambda>(tronKey, g8).
           and_then (encrypt lib encryptionKey (Some (units (seed0 @ ''_tron''))) g8) (\<lambda>(tronSeed, g9).
             Inr ((\<lparr> ethereum =
                        [(''address'', eth_address ethWallet),
                         (''encryptedPrivateKey'', ethKey),
                         (''encryptedSeed'', ethSeed),
                         (''publicKey'', eth_publicKey ethWallet)],
                      bitcoin =
                        [(''address'', btc_address btcWallet),
                         (''legacyAddress'', legacyAddress btcWallet),
                         (''encryptedPrivateKey'', btcKey),
                         (''encryptedSeed'', btcSeed),
                         (''publicKey'', btc_publicKey btcWallet),
                         (''wif'', wif btcWallet)],
                      tron =
                        [(''address'', tron_address tronWallet),
                         (''hexAddress'', hexAddress tronWallet),
                         (''encryptedPrivateKey'', tronKey),
                         (''encryptedSeed'', tronSeed)] \<rparr>,
                   seed0), g9))))))) = Inr ((w, seed), g')"
    by (rule and_then_pairE)
  from b3 obtain k1 g4 s1 g5 k2 g6 s2 g7 k3 g8 s3 g9 where
    c: "encrypt lib encryptionKey (Some (units (eth_privateKey ethWallet))) g3 = Inr (k1, g4)"
       "encrypt lib encryptionKey (map_option units (eth_mnemonic ethWallet)) g4 = Inr (s1, g5)"
       "encrypt lib encryptionKey (Some (units (btc_privateKey btcWallet))) g5 = Inr (k2, g6)"
       "encrypt lib encryptionKey (Some (units (seed0 @ ''_btc''))) g6 = Inr (s2, g7)"
       "encrypt lib encryptionKey (Some (units (tron_privateKey tronWallet))) g7 = Inr (k3, g8)"
       "encrypt lib encryptionKey (Some (units (seed0 @ ''_tron''))) g8 = Inr (s3, g9)"
    and res: "Inr ((\<lparr> ethereum =
                        [(''address'', eth_address ethWallet),
                         (''encryptedPrivateKey'', k1),
                         (''encryptedSeed'', s1),
                         (''publicKey'', eth_publicKey ethWallet)],
                      bitcoin =
                        [(''address'', btc_address btcWallet),
                         (''legacyAddress'', legacyAddress btcWallet),
                         (''encryptedPrivateKey'', k2),
                         (''encryptedSeed'', s2),
                         (''publicKey'', btc_publicKey btcWallet),
                         (''wif'', wif btcWallet)],
                      tron =
                        [(''address'', tron_address tronWallet),
                         (''hexAddress'', hexAddress tronWallet),
                         (''encryptedPrivateKey'', k3),
                         (''encryptedSeed'', s3)] \<rparr>,
                   seed0), g9) = (Inr ((w, seed), g') :: error + ((user_wallets \<times> string) \<times> rng))"
    by (elim and_then_pairE) blast
  from res have w: "w = \<lparr> ethereum = [(''address'', eth_address ethWallet), (''encryptedPrivateKey'', k1),
                              (''encryptedSeed'', s1), (''publicKey'', eth_publicKey ethWallet)],
                 bitcoin = [(''address'', btc_address btcWallet),
                            (''legacyAddress'', legacyAddress btcWallet),
                            (''encryptedPrivateKey'', k2), (''encryptedSeed'', s2),
                            (''publicKey'', btc_publicKey btcWallet), (''wif'', wif btcWallet)],
                 tron = [(''address'', tron_address tronWallet), (''hexAddress'', hexAddress tronWallet),
                         (''encryptedPrivateKey'', k3), (''encryptedSeed'', s3)] \<rparr>"
    and seed: "seed = seed0" by simp_all
  from encrypt_Inr_D[OF c(2)] obtain mn where mn: "eth_mnemonic ethWallet = Some mn"
    by (cases "eth_mnemonic ethWallet") auto
  note enc = encrypt_enciphers[OF lib]
  have "enciphers lib encryptionKey (eth_privateKey ethWallet) k1" by (rule enc[OF c(1)])
  moreover have "enciphers lib encryptionKey mn s1" using c(2) unfolding mn by (intro enc) simp
  moreover have "enciphers lib encryptionKey (btc_privateKey btcWallet) k2" by (rule enc[OF c(3)])
  moreover have "enciphers lib encryptionKey (seed @ ''_btc'') s2" unfolding seed by (rule enc[OF c(4)])
  moreover have "enciphers lib encryptionKey (tron_privateKey tronWallet) k3" by (rule enc[OF c(5)])
  moreover have "enciphers lib encryptionKey (seed @ ''_tron'') s3" unfolding seed by (rule enc[OF c(6)])
  ultimately show ?thesis
    using e b t mn w unfolding seed by blast
qed

lemma register_Success:
  assumes "register env klib lib encryptionKey db g username' securityCode hashKey deviceInfo'
             = (Success st m data, db', g')"
  shows "\<exists>secret g1 w seed u qr.
           db' = db @ [u]
         \<and> generateAllWallets klib lib encryptionKey None g1 = Inr ((w, seed), g')
         \<and> wallets u = castWallets w \<and> twoFactorSecret u = Some secret
         \<and> toDataURL env (keyuri env (or_empty username') ''CryptoWallet'' secret) = Inr qr
         \<and> data = \<lparr> reg_id = user_id u, reg_username = username u,
                     reg_walletAddresses =
                       [(''ethereum'', field (ethereum (wallets u)) ''address''),
                        (''bitcoin'', field (bitcoin (wallets u)) ''address''),
                        (''tron'', field (tron (wallets u)) ''address'')],
                     reg_twoFactorEnabled = twoFactorEnabled u,
                     reg_isActive = isActive u, reg_createdAt = createdAt u,
                     reg_token = jwt_sign env (user_id u),
                     reg_qrCodeUrl = qr, reg_manualEntryKey = secret \<rparr>"
  using assms
  by (auto simp: register_def save_new_def Let_def
           split: option.splits if_splits prod.splits sum.splits) blast

lemma castWallet_stored:
  "castWallet ((''address'', a) # xs) = (''address'', a) # castWallet xs"
  "castWallet ((''encryptedPrivateKey'', a) # xs) = (''encryptedPrivateKey'', a) # castWallet xs"
  "castWallet ((''encryptedSeed'', a) # xs) = (''encryptedSeed'', a) # castWallet xs"
  "castWallet ((''publicKey'', a) # xs) = castWallet xs"
  "castWallet ((''legacyAddress'', a) # xs) = castWallet xs"
  "castWallet ((''hexAddress'', a) # xs) = castWallet xs"
  "castWallet ((''wif'', a) # xs) = castWallet xs"
  "castWallet [] = []"
  by (simp_all add: castWallet_def wallet_paths_def)

lemma hex_encode_eq_Nil: "(hex_encode bs = []) = (bs = [])"
  by (cases bs) (simp_all add: hex_encode_def)

lemma sample_key_lib_addresses: "nonempty_addresses sample_key_lib"
  by (simp add: nonempty_addresses_def sample_key_lib_def)

lemma generateAllWallets_sample:
  "\<exists>w seed g'. generateAllWallets sample_key_lib toy_lib (Some master_key) None g = Inr ((w, seed), g')"
proof -
  have k: "32 \<le> length master_key" by (simp add: master_key_def)
  note enc = encrypt_envelope[OF k]
  show ?thesis
    by (simp add: generateAllWallets_def generateEthereumWallet_def generateBitcoinWallet_def
          generateTronWallet_def sample_key_lib_def and_then_def rethrow_def truthy_def or_empty_def
          Let_def split_beta enc hex_encode_eq_Nil units_def)
qed

lemma trim_alice: "trim (units ''alice'') = units ''alice''"
  by (simp add: trim_def is_space_def units_def)

lemma sample_auth_env_fields:
  "generateSecret sample_auth_env g = (''NEWSECRET'', g)"
  "toDataURL sample_auth_env s = Inr (''data:image/png;'' @ s)"
  "newObjectId sample_auth_env = 7"
  "now sample_auth_env = 1000"
  by (simp_all add: sample_auth_env_def)

lemma register_sample:
  "\<exists>data db' g'. register sample_auth_env sample_key_lib toy_lib (Some master_key) [] counting
       (Some (units ''alice'')) (Some ''code-a'') (Some ''key-a'') (Some phone)
     = (Success 201 ''User registered successfully'' data, db', g')"
proof -
  obtain w seed g' where
    g: "generateAllWallets sample_key_lib toy_lib (Some master_key) None counting = Inr ((w, seed), g')"
    using generateAllWallets_sample by blast
  have d: "truthy (deviceId phone)" by (simp add: phone_def truthy_def units_def)
  have n: "truthy (Some (units ''alice''))" "length (units ''alice'') = 5" "units ''alice'' \<noteq> []"
    by (simp_all add: truthy_def units_def)
  show ?thesis
    using phone_valid g d n
    by (simp add: register_def save_new_def validators_pass_def castDeviceInfo_def
          sample_auth_env_fields or_empty_def Let_def trim_alice normalize_phone
          truthy_def[of "Some ''code-a''"] truthy_def[of "Some ''key-a''"]
          truthy_def[of "Some ''NEWSECRET''"])
qed

text \<open>The object that \<open>generateAllWallets\<close> returns does hold plaintext key material, the
  WIF export of the Bitcoin key; it is the cast to the schema that keeps it out of the
  stored document.\<close>

lemma generateAllWallets_carries_wif:
  assumes "generateAllWallets klib lib encryptionKey masterSeed g = Inr ((w, seed), g')"
      and "codecs_invert lib" "cipher_inverts lib"
  shows "\<exists>btcWallet ga gb. generateBitcoinWallet klib (Some (seed @ ''_btc'')) ga = Inr (btcWallet, gb)
           \<and> field (bitcoin w) ''wif'' = Some (wif btcWallet)
           \<and> field (bitcoin (castWallets w)) ''wif'' = None"
proof -
  from generateAllWallets_Inr[OF assms]
  obtain ethWallet btcWallet tronWallet mn k1 s1 k2 s2 k3 s3 ga gb gc gd ge gf where
    "generateEthereumWallet klib None ga = Inr (ethWallet, gb)"
    and b: "generateBitcoinWallet klib (Some (seed @ ''_btc'')) gc = Inr (btcWallet, gd)"
    and "generateTronWallet klib (Some (seed @ ''_tron'')) ge = Inr (tronWallet, gf)"
    and "eth_mnemonic ethWallet = Some mn"
    and w: "w = \<lparr> ethereum = [(''address'', eth_address ethWallet), (''encryptedPrivateKey'', k1),
                              (''encryptedSeed'', s1), (''publicKey'', eth_publicKey ethWallet)],
                 bitcoin = [(''address'', btc_address btcWallet),
                            (''legacyAddress'', legacyAddress btcWallet),
                            (''encryptedPrivateKey'', k2), (''encryptedSeed'', s2),
                            (''publicKey'', btc_publicKey btcWallet), (''wif'', wif btcWallet)],
                 tron = [(''address'', tron_address tronWallet), (''hexAddress'', hexAddress tronWallet),
                         (''encryptedPrivateKey'', k3), (''encryptedSeed'', s3)] \<rparr>"
    by (elim exE conjE)
  have "field (bitcoin w) ''wif'' = Some (wif btcWallet)"
       "field (bitcoin (castWallets w)) ''wif'' = None"
    unfolding w by (simp_all add: field_def castWallets_def castWallet_stored)
  with b show ?thesis by blast
qed

text \<open>
  C3: every successful registration appends one account. Its three wallet records
  (ethereum, bitcoin, tron) belong to the three wallets that the key libraries generated
  during the call, and each record consists of exactly three fields: \<open>address\<close>, the
  non-empty public address of the wallet; \<open>encryptedPrivateKey\<close>, a blob that enciphers the
  private key of the wallet; and \<open>encryptedSeed\<close>, a blob that enciphers its seed (the
  mnemonic for ethereum). A blob enciphers a secret when \<open>encrypt\<close> returned it for that
  secret, it has the shape salt (64) + IV (16) + tag (16) + ciphertext in base64, and
  \<open>decrypt\<close> gives the secret back. So the keys and seeds are stored only as arguments of
  \<open>encrypt\<close>; the public keys and the WIF export that \<open>generateAllWallets\<close> returns beside
  them are not stored at all. The returned payload is the account's id, name and flags,
  the three addresses, the session token, and the TOTP secret with its QR code. The
  libraries are assumed to invert their codecs and cipher and to return non-empty
  addresses.
\<close>

theorem C3_registration_wallets:
  assumes "register env klib lib encryptionKey db g username' securityCode hashKey deviceInfo'
             = (Success st m data, db', g')"
      and "codecs_invert lib" and "cipher_inverts lib" and "nonempty_addresses klib"
  shows "\<exists>u ethWallet btcWallet tronWallet seed mn k1 s1 k2 s2 k3 s3 ga gb gc gd ge gf secret qr.
           db' = db @ [u]
         \<and> generateEthereumWallet klib None ga = Inr (ethWallet, gb)
         \<and> generateBitcoinWallet klib (Some (seed @ ''_btc'')) gc = Inr (btcWallet, gd)
         \<and> generateTronWallet klib (Some (seed @ ''_tron'')) ge = Inr (tronWallet, gf)
         \<and> eth_mnemonic ethWallet = Some mn
         \<and> eth_address ethWallet \<noteq> [] \<and> btc_address btcWallet \<noteq> [] \<and> tron_address tronWallet \<noteq> []
         \<and> wallets u =
             \<lparr> ethereum = [(''address'', eth_address ethWallet), (''encryptedPrivateKey'', k1),
                            (''encryptedSeed'', s1)],
               bitcoin = [(''address'', btc_address btcWallet), (''encryptedPrivateKey'', k2),
                          (''encryptedSeed'', s2)],
               tron = [(''address'', tron_address tronWallet), (''encryptedPrivateKey'', k3),
                       (''encryptedSeed'', s3)] \<rparr>
         \<and> enciphers lib encryptionKey (eth_privateKey ethWallet) k1
         \<and> enciphers lib encryptionKey mn s1
         \<and> enciphers lib encryptionKey (btc_privateKey btcWallet) k2
         \<and> enciphers lib encryptionKey (seed @ ''_btc'') s2
         \<and> enciphers lib encryptionKey (tron_privateKey tronWallet) k3
         \<and> enciphers lib encryptionKey (seed @ ''_tron'') s3
         \<and> twoFactorSecret u = Some secret
         \<and> toDataURL env (keyuri env (or_empty username') ''CryptoWallet'' secret) = Inr qr
         \<and> data = \<lparr> reg_id = user_id u, reg_username = username u,
                     reg_walletAddresses =
                       [(''ethereum'', Some (eth_address ethWallet)),
                        (''bitcoin'', Some (btc_address btcWallet)),
                        (''tron'', Some (tron_address tronWallet))],
                     reg_twoFactorEnabled = twoFactorEnabled u,
                     reg_isActive = isActive u, reg_createdAt = createdAt u,
                     reg_token = jwt_sign env (user_id u),
                     reg_qrCodeUrl = qr, reg_manualEntryKey = secret \<rparr>"
proof -
  from register_Success[OF assms(1)] obtain secret g1 w seed u qr where
    dbu: "db' = db @ [u]" and
    r: "generateAllWallets klib lib encryptionKey None g1 = Inr ((w, seed), g')"
       "wallets u = castWallets w" "twoFactorSecret u = Some secret"
       "toDataURL env (keyuri env (or_empty username') ''CryptoWallet'' secret) = Inr qr"
       "data = \<lparr> reg_id = user_id u, reg_username = username u,
                     reg_walletAddresses =
                       [(''ethereum'', field (ethereum (wallets u)) ''address''),
                        (''bitcoin'', field (bitcoin (wallets u)) ''address''),
                        (''tron'', field (tron (wallets u)) ''address'')],
                     reg_twoFactorEnabled = twoFactorEnabled u,
                     reg_isActive = isActive u, reg_createdAt = createdAt u,
                     reg_token = jwt_sign env (user_id u),
                     reg_qrCodeUrl = qr, reg_manualEntryKey = secret \<rparr>"
    by blast
  from generateAllWallets_Inr[OF r(1) assms(2,3)]
  obtain ethWallet btcWallet tronWallet mn k1 s1 k2 s2 k3 s3 ga gb gc gd ge gf where
    gen: "generateEthereumWallet klib None ga = Inr (ethWallet, gb)"
         "generateBitcoinWallet klib (Some (seed @ ''_btc'')) gc = Inr (btcWallet, gd)"
         "generateTronWallet klib (Some (seed @ ''_tron'')) ge = Inr (tronWallet, gf)"
         "eth_mnemonic ethWallet = Some mn"
    and w: "w = \<lparr> ethereum = [(''address'', eth_address ethWallet), (''encryptedPrivateKey'', k1),
                              (''encryptedSeed'', s1), (''publicKey'', eth_publicKey ethWallet)],
                 bitcoin = [(''address'', btc_address btcWallet),
                            (''legacyAddress'', legacyAddress btcWallet),
                            (''encryptedPrivateKey'', k2), (''encryptedSeed'', s2),
                            (''publicKey'', btc_publicKey btcWallet), (''wif'', wif btcWallet)],
                 tron = [(''address'', tron_address tronWallet), (''hexAddress'', hexAddress tronWallet),
                         (''encryptedPrivateKey'', k3), (''encryptedSeed'', s3)] \<rparr>"
    and en: "enciphers lib encryptionKey (eth_privateKey ethWallet) k1"
            "enciphers lib encryptionKey mn s1"
            "enciphers lib encryptionKey (btc_privateKey btcWallet) k2"
            "enciphers lib encryptionKey (seed @ ''_btc'') s2"
            "enciphers lib encryptionKey (tron_privateKey tronWallet) k3"
            "enciphers lib encryptionKey (seed @ ''_tron'') s3"
    by blast
  have ne: "eth_address ethWallet \<noteq> []" "btc_address btcWallet \<noteq> []" "tron_address tronWallet \<noteq> []"
    using generateEthereumWallet_address[OF assms(4) gen(1)]
          generateBitcoinWallet_address[OF assms(4) gen(2)]
          generateTronWallet_address[OF assms(4) gen(3)] by simp_all
  have cw: "wallets u =
      \<lparr> ethereum = [(''address'', eth_address ethWallet), (''encryptedPrivateKey'', k1),
                     (''encryptedSeed'', s1)],
        bitcoin = [(''address'', btc_address btcWallet), (''encryptedPrivateKey'', k2),
                   (''encryptedSeed'', s2)],
        tron = [(''address'', tron_address tronWallet), (''encryptedPrivateKey'', k3),
                (''encryptedSeed'', s3)] \<rparr>"
    unfolding r(2) w by (simp add: castWallets_def castWallet_stored)
  have d: "data = \<lparr> reg_id = user_id u, reg_username = username u,
                     reg_walletAddresses =
                       [(''ethereum'', Some (eth_address ethWallet)),
                        (''bitcoin'', Some (btc_address btcWallet)),
                        (''tron'', Some (tron_address tronWallet))],
                     reg_twoFactorEnabled = twoFactorEnabled u,
                     reg_isActive = isActive u, reg_createdAt = createdAt u,
                     reg_token = jwt_sign env (user_id u),
                     reg_qrCodeUrl = qr, reg_manualEntryKey = secret \<rparr>"
    unfolding r(5) cw by (simp add: field_def)
  show ?thesis
    using dbu r(3,4) gen ne cw en d by blast
qed

text \<open>Registering alice with the stand-in libraries: one account is appended, its ethereum
  record holds the address of the generated wallet and a blob that decrypts to its
  private key and is not that key, and the payload carries the three addresses.\<close>

theorem C3_registration_wallets_witness:
  "\<exists>data u g'. register sample_auth_env sample_key_lib toy_lib (Some master_key) [] counting
       (Some (units ''alice'')) (Some ''code-a'') (Some ''key-a'') (Some phone)
     = (Success 201 ''User registered successfully'' data, [u], g')
   \<and> map fst (ethereum (wallets u)) = [''address'', ''encryptedPrivateKey'', ''encryptedSeed'']
   \<and> map fst (bitcoin (wallets u)) = [''address'', ''encryptedPrivateKey'', ''encryptedSeed'']
   \<and> map fst (tron (wallets u)) = [''address'', ''encryptedPrivateKey'', ''encryptedSeed'']
   \<and> field (ethereum (wallets u)) ''address'' = Some ''0xA11CE''
   \<and> decrypt toy_lib (Some master_key) (field (ethereum (wallets u)) ''encryptedPrivateKey'')
       = Inr (units ''0x5ec2e7'')
   \<and> field (ethereum (wallets u)) ''encryptedPrivateKey'' \<noteq> Some ''0x5ec2e7''
   \<and> reg_walletAddresses data
       = [(''ethereum'', Some ''0xA11CE''), (''bitcoin'', Some ''bc1qsegwit''), (''tron'', Some ''TTron'')]"
proof -
  from register_sample obtain data db' g' where
    reg: "register sample_auth_env sample_key_lib toy_lib (Some master_key) [] counting
       (Some (units ''alice'')) (Some ''code-a'') (Some ''key-a'') (Some phone)
     = (Success 201 ''User registered successfully'' data, db', g')" by blast
  from C3_registration_wallets[OF reg toy_codecs toy_cipher sample_key_lib_addresses]
  obtain u ethWallet btcWallet tronWallet seed k1 s1 k2 s2 k3 s3 ga gb gc gd ge gf secret qr where
    u: "db' = [] @ [u]"
    and gen: "generateEthereumWallet sample_key_lib None ga = Inr (ethWallet, gb)"
         "generateBitcoinWallet sample_key_lib (Some (seed @ ''_btc'')) gc = Inr (btcWallet, gd)"
         "generateTronWallet sample_key_lib (Some (seed @ ''_tron'')) ge = Inr (tronWallet, gf)"
    and cw: "wallets u =
      \<lparr> ethereum = [(''address'', eth_address ethWallet), (''encryptedPrivateKey'', k1),
                     (''encryptedSeed'', s1)],
        bitcoin = [(''address'', btc_address btcWallet), (''encryptedPrivateKey'', k2),
                   (''encryptedSeed'', s2)],
        tron = [(''address'', tron_address tronWallet), (''encryptedPrivateKey'', k3),
                (''encryptedSeed'', s3)] \<rparr>"
    and en: "enciphers toy_lib (Some master_key) (eth_privateKey ethWallet) k1"
    and d: "data = \<lparr> reg_id = user_id u, reg_username = username u,
                     reg_walletAddresses =
                       [(''ethereum'', Some (eth_address ethWallet)),
                        (''bitcoin'', Some (btc_address btcWallet)),
                        (''tron'', Some (tron_address tronWallet))],
                     reg_twoFactorEnabled = twoFactorEnabled u,
                     reg_isActive = isActive u, reg_createdAt = createdAt u,
                     reg_token = jwt_sign sample_auth_env (user_id u),
                     reg_qrCodeUrl = qr, reg_manualEntryKey = secret \<rparr>"
    by blast
  have e: "eth_address ethWallet = ''0xA11CE''" "eth_privateKey ethWallet = ''0x5ec2e7''"
    using gen(1)
    by (auto simp: generateEthereumWallet_def sample_key_lib_def truthy_def and_then_def rethrow_def)
  have b: "btc_address btcWallet = ''bc1qsegwit''"
    using gen(2)
    by (auto simp: generateBitcoinWallet_def sample_key_lib_def truthy_def and_then_def rethrow_def
             Let_def split: if_splits)
  have t: "tron_address tronWallet = ''TTron''"
    using gen(3)
    by (auto simp: generateTronWallet_def sample_key_lib_def truthy_def and_then_def rethrow_def
             Let_def split: if_splits)
  have dec: "decrypt toy_lib (Some master_key) (Some k1) = Inr (units ''0x5ec2e7'')"
    using en unfolding enciphers_def e by blast
  have "blob_shaped toy_lib k1" using en unfolding enciphers_def by blast
  then have "96 \<le> length k1" by (auto simp: blob_shaped_def toy_lib_def)
  then have ne: "k1 \<noteq> ''0x5ec2e7''" by auto
  show ?thesis
    using reg u dec ne unfolding d
    by (intro exI[of _ data] exI[of _ u] exI[of _ g']) (simp add: cw field_def e b t d)
qed

text \<open>Two requests that the schema decides. A user name that differs from a stored one
  only by surrounding white space is a duplicate; and a device id of ten spaces passes
  \<open>validateDeviceInfo\<close> but is empty once trimmed, so the required validator refuses the
  document and the registration fails.\<close>

lemma register_trimmed_duplicate:
  "register sample_auth_env sample_key_lib toy_lib (Some master_key) [alice] counting
       (Some (units '' alice '')) (Some ''code-c'') (Some ''key-c'') (Some phone)
     = (Failure 409 ''Username already exists'' NoDetail, [alice], counting)"
proof -
  have "trim (units '' alice '') = units ''alice''"
    by (simp add: trim_def is_space_def units_def)
  then show ?thesis
    using phone_valid
    by (simp add: register_def truthy_def or_empty_def alice_def units_def[of "'' alice ''"])
qed

lemma register_blank_deviceId:
  "fst (validateDeviceInfo (Some (phone \<lparr> deviceId := Some (units ''          '') \<rparr>)))
   \<and> fst (register sample_auth_env sample_key_lib toy_lib (Some master_key) [] counting
       (Some (units ''alice'')) (Some ''code-a'') (Some ''key-a'')
       (Some (phone \<lparr> deviceId := Some (units ''          '') \<rparr>)))
     = Failure 500 ''Registration failed'' NoDetail"
proof -
  let ?d = "phone \<lparr> deviceId := Some (units ''          '') \<rparr>"
  have v: "fst (validateDeviceInfo (Some ?d))"
    by (simp add: validateDeviceInfo_def phone_def truthy_def or_empty_def units_def)
  have "deviceId (normalizeDeviceInfo sample_auth_env ?d) = Some []"
    by (simp add: normalizeDeviceInfo_def phone_def truthy_def trim_def is_space_def units_def)
  then have n: "\<not> truthy (deviceId (normalizeDeviceInfo sample_auth_env ?d))"
    by (simp add: truthy_def)
  obtain w seed g' where
    g: "generateAllWallets sample_key_lib toy_lib (Some master_key) None counting = Inr ((w, seed), g')"
    using generateAllWallets_sample by blast
  have t: "truthy (Some (units ''alice''))" by (simp add: truthy_def units_def)
  have "fst (register sample_auth_env sample_key_lib toy_lib (Some master_key) [] counting
       (Some (units ''alice'')) (Some ''code-a'') (Some ''key-a'') (Some ?d))
     = Failure 500 ''Registration failed'' NoDetail"
    using v g n t
    by (simp add: register_def save_new_def validators_pass_def castDeviceInfo_def
          sample_auth_env_fields Let_def
          truthy_def[of "Some ''code-a''"] truthy_def[of "Some ''key-a''"])
  with v show ?thesis by simp
qed


end
